theory Spec2Isabelle
  imports
    Complex_Main
    "HOL-Library.Monad_Syntax"
    "HOL-Library.AList"
    "HOL-Library.Char_ord"
    "HOL-Library.List_Lexorder"
begin

section \<open>Cohort extraction for severity-score calibration\<close>

text \<open>
  The program is the notebook \<^verbatim>\<open>src/extraction/cohort_extraction.ipynb\<close>: a chain of
  pandas statements that rebinds one data frame, \<^verbatim>\<open>cohort\<close>, cell after cell.  Each
  code cell becomes a function from the frame before the cell to the frame after it.
  A statement that can raise returns \<open>None\<close>; the cells are chained in the option monad,
  so the first exception ends the run, as it does in the notebook.
\<close>

subsection \<open>Cells, series and data frames\<close>

text \<open>
  A cell of a frame is a number, a string, or the missing marker.  \<open>NaN\<close> stands for
  every form pandas gives a missing value (\<^verbatim>\<open>np.nan\<close> in a float column, \<^verbatim>\<open>None\<close>
  or \<^verbatim>\<open>np.nan\<close> in an object column).  A number cell holds a finite float64 value,
  read as the real number it denotes; infinities are left out.  An integer column
  holds \<open>Num\<close> cells with integral values.
\<close>

datatype cell = is_Num: Num real | is_NaN: NaN | is_Str: Str string

type_synonym series = "cell list"

text \<open>
  A frame is stored by column, as pandas stores it: the row labels and, in their
  order, the named columns.  In a well-formed frame the column names are distinct, the
  row labels are distinct, and every column has one cell for each label.
\<close>

record dataframe =
  index :: "nat list"
  columns :: "(string \<times> series) list"

definition rectangular :: "dataframe \<Rightarrow> bool" where
  "rectangular df = list_all (\<lambda>c. length (snd c) = length (index df)) (columns df)"

definition wf :: "dataframe \<Rightarrow> bool" where
  "wf df \<longleftrightarrow>
     distinct (index df) \<and> distinct (map fst (columns df)) \<and> rectangular df"

text \<open>\<^verbatim>\<open>cohort.name\<close>: the column of that name; an absent name raises.\<close>

definition getcol :: "dataframe \<Rightarrow> string \<Rightarrow> series option" where
  "getcol df name = map_of (columns df) name"

text \<open>
  \<^verbatim>\<open>cohort.drop(labels, axis=1)\<close>: every label has to name a column (a label may be
  listed twice); the named columns go, the others keep their order.
\<close>

definition df_drop :: "dataframe \<Rightarrow> string list \<Rightarrow> dataframe option" where
  "df_drop df labels =
     (if list_all (\<lambda>l. l \<in> set (map fst (columns df))) labels
      then Some (df\<lparr>columns := filter (\<lambda>c. fst c \<notin> set labels) (columns df)\<rparr>)
      else None)"

text \<open>
  \<^verbatim>\<open>cohort.assign(name=values)\<close> and \<^verbatim>\<open>cohort.name = values\<close>: the column is
  overwritten where it stands, or appended when the name is new.  The values are one
  per row.
\<close>

definition df_assign :: "dataframe \<Rightarrow> string \<Rightarrow> series \<Rightarrow> dataframe option" where
  "df_assign df name vals =
     (if length vals = length (index df)
      then Some (df\<lparr>columns := AList.update name vals (columns df)\<rparr>)
      else None)"

text \<open>
  Boolean indexing.  \<^verbatim>\<open>s[mask]\<close> keeps the cells of a series where the mask is true;
  \<^verbatim>\<open>cohort.loc[mask, :]\<close> keeps the rows of a frame, labels included.  A mask of
  another length raises.
\<close>

definition mask_select :: "'a list \<Rightarrow> bool list \<Rightarrow> 'a list" where
  "mask_select xs m = map fst (filter snd (zip xs m))"

definition series_getitem :: "series \<Rightarrow> bool list \<Rightarrow> series option" where
  "series_getitem s m = (if length m = length s then Some (mask_select s m) else None)"

definition loc :: "dataframe \<Rightarrow> bool list \<Rightarrow> dataframe option" where
  "loc df m =
     (if length m = length (index df)
      then Some \<lparr>index = mask_select (index df) m,
                 columns = map (\<lambda>c. (fst c, mask_select (snd c) m)) (columns df)\<rparr>
      else None)"

subsection \<open>Element-wise operators\<close>

text \<open>
  \<^verbatim>\<open>==\<close> and \<^verbatim>\<open>!=\<close> never raise: a missing cell equals nothing, and a number never
  equals a string.
\<close>

fun eq_cell :: "cell \<Rightarrow> cell \<Rightarrow> bool" where
  "eq_cell (Num x) (Num y) = (x = y)"
| "eq_cell (Str s) (Str t) = (s = t)"
| "eq_cell _ _ = False"

definition ne_cell :: "cell \<Rightarrow> cell \<Rightarrow> bool" where
  "ne_cell a b = (\<not> eq_cell a b)"

text \<open>
  The order comparisons are false as soon as one side is missing, compare two numbers
  or two strings, and raise \<^verbatim>\<open>TypeError\<close> between a string and a number.
\<close>

fun ge_cell :: "cell \<Rightarrow> cell \<Rightarrow> bool option" where
  "ge_cell NaN _ = Some False"
| "ge_cell _ NaN = Some False"
| "ge_cell (Num x) (Num y) = Some (x \<ge> y)"
| "ge_cell (Str s) (Str t) = Some (s \<ge> t)"
| "ge_cell _ _ = None"

fun lt_cell :: "cell \<Rightarrow> cell \<Rightarrow> bool option" where
  "lt_cell NaN _ = Some False"
| "lt_cell _ NaN = Some False"
| "lt_cell (Num x) (Num y) = Some (x < y)"
| "lt_cell (Str s) (Str t) = Some (s < t)"
| "lt_cell _ _ = None"

text \<open>
  Float64 arithmetic rounds.  \<open>float64_round x\<close> is the float64 nearest to the real
  \<open>x\<close>, the one with the even significand when two are equally near: \<open>binade\<close> finds
  the power of two \<open>s\<close> with \<open>s \<le> \<bar>x\<bar> < 2 s\<close>, the floats between \<open>s\<close> and \<open>2 s\<close> are
  the multiples of \<open>s / 2 ^ 52\<close>, and \<open>x\<close> is rounded to a multiple.  This is the
  result of a float64 subtraction \<^verbatim>\<open>a - c\<close> for \<open>x = a - c\<close> as long as the result is
  finite: a difference of two floats under \<open>1 / 2 ^ 1022\<close> in magnitude is a multiple
  of \<open>1 / 2 ^ 1074\<close>, a float itself, and is returned as it is.  A result of magnitude
  \<open>2 ^ 1024\<close>, an overflow, is left out; the notebook subtracts constants up to 145.
\<close>

fun binade :: "nat \<Rightarrow> real \<Rightarrow> real \<Rightarrow> real" where
  "binade 0 a s = s"
| "binade (Suc n) a s =
     (if a \<ge> 2 then binade n (a / 2) (s * 2)
      else if a < 1 then binade n (a * 2) (s / 2)
      else s)"

definition round_half_even :: "real \<Rightarrow> int" where
  "round_half_even m =
     (let f = \<lfloor>m\<rfloor>; d = m - of_int f
      in if d < 1 / 2 then f else if d > 1 / 2 then f + 1 else if even f then f else f + 1)"

definition float64_round :: "real \<Rightarrow> real" where
  "float64_round x =
     (if x = 0 then 0
      else let ulp = binade 2200 \<bar>x\<bar> 1 / 2 ^ 52
           in of_int (round_half_even (x / ulp)) * ulp)"

text \<open>
  \<^verbatim>\<open>x - c\<close> for a float \<open>c\<close> is the difference rounded to float64; \<^verbatim>\<open>abs\<close> is exact.  The
  cell is read as the float64 nearest to it, which is the cell itself when it is a
  float64 and the value of the literal when it is written as a decimal such as 3.9.  A
  missing cell stays missing, a string raises.
\<close>

fun sub_cell :: "real \<Rightarrow> cell \<Rightarrow> cell option" where
  "sub_cell c (Num x) = Some (Num (float64_round (float64_round x - c)))"
| "sub_cell c NaN = Some NaN"
| "sub_cell c (Str s) = None"

fun abs_cell :: "cell \<Rightarrow> cell option" where
  "abs_cell (Num x) = Some (Num \<bar>x\<bar>)"
| "abs_cell NaN = Some NaN"
| "abs_cell (Str s) = None"

text \<open>An operator over a whole series raises when it raises on one cell.\<close>

definition series_apply :: "(cell \<Rightarrow> 'a option) \<Rightarrow> series \<Rightarrow> 'a list option" where
  "series_apply f s = those (map f s)"

definition series_sub :: "series \<Rightarrow> real \<Rightarrow> series option" where
  "series_sub s c = series_apply (sub_cell c) s"

definition series_abs :: "series \<Rightarrow> series option" where
  "series_abs s = series_apply abs_cell s"

definition series_ge :: "series \<Rightarrow> series \<Rightarrow> bool list option" where
  "series_ge s t =
     (if length s = length t then those (map (\<lambda>p. ge_cell (fst p) (snd p)) (zip s t))
      else None)"


subsection \<open>Loading the features\<close>

text \<open>
  \<^verbatim>\<open>pd.merge(left, right, on=key)\<close>, an inner join: one row for every pair of a left
  and a right row with the same key, in the order of the left rows; a row without a
  partner is dropped.  The result has the columns of the left frame, then those of the
  right frame but the key; a name both frames use for another column gets the suffix
  \<^verbatim>\<open>_x\<close> on the left and \<^verbatim>\<open>_y\<close> on the right.  The rows are labelled afresh from 0.
\<close>

definition pd_merge :: "dataframe \<Rightarrow> dataframe \<Rightarrow> string \<Rightarrow> dataframe option" where
  "pd_merge left right on = do {
     _ \<leftarrow> (if rectangular left \<and> rectangular right then Some () else None);
     left_key \<leftarrow> getcol left on;
     right_key \<leftarrow> getcol right on;
     let pairs = concat (map (\<lambda>i. map (Pair i)
                                      (filter (\<lambda>j. left_key ! i = right_key ! j)
                                              [0..<length right_key]))
                             [0..<length left_key]);
     let shared = filter (\<lambda>name. name \<noteq> on \<and> name \<in> set (map fst (columns right)))
                         (map fst (columns left));
     let left_columns =
           map (\<lambda>c. (if fst c \<in> set shared then fst c @ ''_x'' else fst c,
                      map (\<lambda>p. snd c ! fst p) pairs))
               (columns left);
     let right_columns =
           map (\<lambda>c. (if fst c \<in> set shared then fst c @ ''_y'' else fst c,
                      map (\<lambda>p. snd c ! snd p) pairs))
               (filter (\<lambda>c. fst c \<noteq> on) (columns right));
     Some \<lparr>index = [0..<length pairs], columns = left_columns @ right_columns\<rparr>
   }"

text \<open>
  Code cells 7 and 8: the base cohort is joined with the vital signs, laboratory values
  and treatments, and the result with the diagnosis groups.
\<close>

definition extract_cohort :: "dataframe \<Rightarrow> dataframe \<Rightarrow> dataframe \<Rightarrow> dataframe option" where
  "extract_cohort base_cohort feature_set dx_groups = do {
     cohort \<leftarrow> pd_merge base_cohort feature_set ''patientunitstayid'';
     pd_merge cohort dx_groups ''patientunitstayid''
   }"

subsection \<open>Inclusion and exclusion\<close>

text \<open>Comparisons of a column with a scalar, as in \<^verbatim>\<open>cohort.unit_los >= 240\<close>.\<close>

definition series_eq :: "series \<Rightarrow> cell \<Rightarrow> bool list" where
  "series_eq s v = map (\<lambda>c. eq_cell c v) s"

definition series_ne :: "series \<Rightarrow> cell \<Rightarrow> bool list" where
  "series_ne s v = map (\<lambda>c. ne_cell c v) s"

definition series_ge_scalar :: "series \<Rightarrow> real \<Rightarrow> bool list option" where
  "series_ge_scalar s v = series_apply (\<lambda>c. ge_cell c (Num v)) s"

definition series_lt_scalar :: "series \<Rightarrow> real \<Rightarrow> bool list option" where
  "series_lt_scalar s v = series_apply (\<lambda>c. lt_cell c (Num v)) s"

text \<open>
  \<^verbatim>\<open>astype('int64')\<close> on the age column calls Python's \<^verbatim>\<open>int\<close> on every cell.  What
  \<^verbatim>\<open>int\<close> makes of a string is the parameter \<open>to_int\<close> (\<open>None\<close> where it raises
  \<^verbatim>\<open>ValueError\<close>); a number is truncated towards zero; a missing value raises.
\<close>

fun int_cell :: "(string \<Rightarrow> int option) \<Rightarrow> cell \<Rightarrow> cell option" where
  "int_cell to_int (Str s) = map_option (\<lambda>k. Num (of_int k)) (to_int s)"
| "int_cell to_int (Num x) = Some (Num (of_int (if x \<ge> 0 then \<lfloor>x\<rfloor> else \<lceil>x\<rceil>)))"
| "int_cell to_int NaN = None"

definition astype_int64 :: "(string \<Rightarrow> int option) \<Rightarrow> series \<Rightarrow> series option" where
  "astype_int64 to_int s = series_apply (int_cell to_int) s"

text \<open>
  Code cells 9 to 14, in their order: not a readmission, not admitted from another
  ICU, at least four hours in the unit, less than a year in hospital, not a burn
  patient, and an age that is recorded, is not the top code and is at least 16.
\<close>

definition apply_exclusions :: "(string \<Rightarrow> int option) \<Rightarrow> dataframe \<Rightarrow> dataframe option" where
  "apply_exclusions to_int cohort = do {
     apache_readmit \<leftarrow> getcol cohort ''apache_readmit'';
     cohort \<leftarrow> loc cohort (series_eq apache_readmit (Num 0));
     unitadmitsource \<leftarrow> getcol cohort ''unitadmitsource'';
     cohort \<leftarrow> loc cohort (series_ne unitadmitsource (Str ''Other ICU''));
     unit_los \<leftarrow> getcol cohort ''unit_los'';
     mask \<leftarrow> series_ge_scalar unit_los 240;
     cohort \<leftarrow> loc cohort mask;
     hospital_los \<leftarrow> getcol cohort ''hospital_los'';
     mask \<leftarrow> series_lt_scalar hospital_los 525600;
     cohort \<leftarrow> loc cohort mask;
     admit_diagnosis \<leftarrow> getcol cohort ''admit_diagnosis'';
     cohort \<leftarrow> loc cohort (series_ne admit_diagnosis (Str ''BURN''));
     age \<leftarrow> getcol cohort ''age'';
     cohort \<leftarrow> loc cohort (series_ne age (Str ''> 89''));
     age \<leftarrow> getcol cohort ''age'';
     cohort \<leftarrow> loc cohort (series_ne age (Str ''''));
     age \<leftarrow> getcol cohort ''age'';
     age \<leftarrow> astype_int64 to_int age;
     cohort \<leftarrow> df_assign cohort ''age'' age;
     age \<leftarrow> getcol cohort ''age'';
     mask \<leftarrow> series_ge_scalar age 16;
     loc cohort mask
   }"

text \<open>
  A property of a column of a frame: the column is there, has one cell for each row,
  and every cell satisfies \<open>P\<close>.
\<close>

definition column_all :: "dataframe \<Rightarrow> string \<Rightarrow> (cell \<Rightarrow> bool) \<Rightarrow> bool" where
  "column_all df name P =
     (case getcol df name of
        None \<Rightarrow> False
      | Some s \<Rightarrow> length s = length (index df) \<and> list_all P s)"

subsection \<open>The most abnormal value of a laboratory pair\<close>

text \<open>
  A float64 column holds numbers and missing values, no strings.  A laboratory column of
  a frame is a float64 column with one cell for each row.
\<close>

definition float64 :: "series \<Rightarrow> bool" where
  "float64 s = list_all (\<lambda>c. \<not> is_Str c) s"

definition lab_column :: "dataframe \<Rightarrow> string \<Rightarrow> bool" where
  "lab_column df name =
     (case getcol df name of
        None \<Rightarrow> False
      | Some s \<Rightarrow> length s = length (index df) \<and> float64 s)"


text \<open>
  \<^verbatim>\<open>np.empty(n, dtype='float64')\<close> allocates without initialising: what the array
  holds is whatever was in memory.  The contents are a parameter \<open>u\<close> of the model, so
  that a result cannot depend on them unnoticed.
\<close>

definition np_empty :: "(nat \<Rightarrow> cell) \<Rightarrow> nat \<Rightarrow> series" where
  "np_empty u n = map u [0..<n]"

text \<open>
  \<^verbatim>\<open>arr[mask] = values\<close> on a float64 array: the values fill, in order, the positions
  where the mask is true; there must be as many values as such positions, and the mask
  is as long as the array.  The values the notebook stores are always \<^verbatim>\<open>s[mask]\<close> for
  the same mask.  A string cannot be stored (numpy would try to parse it as a float;
  the laboratory columns come from numeric SQL aggregates).
\<close>

fun setitem_mask :: "series \<Rightarrow> bool list \<Rightarrow> series \<Rightarrow> series option" where
  "setitem_mask [] [] [] = Some []"
| "setitem_mask (a # arr) (True # m) (Str s # vals) = None"
| "setitem_mask (a # arr) (True # m) (v # vals) = map_option (Cons v) (setitem_mask arr m vals)"
| "setitem_mask (a # arr) (False # m) vals = map_option (Cons a) (setitem_mask arr m vals)"
| "setitem_mask _ _ _ = None"

text \<open>
  The three statements the notebook repeats for each of the six derived columns:
  \<^verbatim>\<open>
  x = np.empty(len(cohort.index), dtype='float64')
  x[check] = cohort.x_min[check]
  x[~check] = cohort.x_max[~check]
  \<close>
\<close>

definition most_abnormal :: "(nat \<Rightarrow> cell) \<Rightarrow> nat \<Rightarrow> bool list \<Rightarrow> series \<Rightarrow> series \<Rightarrow> series option" where
  "most_abnormal u n check x_min x_max = do {
     let x = np_empty u n;
     lo \<leftarrow> series_getitem x_min check;
     x \<leftarrow> setitem_mask x check lo;
     hi \<leftarrow> series_getitem x_max (map Not check);
     setitem_mask x (map Not check) hi
   }"

text \<open>
  \<^verbatim>\<open>abs(cohort.x_min - low) >= abs(cohort.x_max - high)\<close>, the check of the pairs that
  deviate in both directions.
\<close>

definition deviation_check :: "series \<Rightarrow> real \<Rightarrow> series \<Rightarrow> real \<Rightarrow> bool list option" where
  "deviation_check x_min low x_max high = do {
     dl \<leftarrow> series_sub x_min low;
     dl \<leftarrow> series_abs dl;
     dh \<leftarrow> series_sub x_max high;
     dh \<leftarrow> series_abs dh;
     series_ge dl dh
   }"

text \<open>\<^verbatim>\<open>cohort.x_min < limit\<close>, the check of the white cell counts.\<close>

definition threshold_check :: "series \<Rightarrow> real \<Rightarrow> bool list option" where
  "threshold_check x_min limit = series_apply (\<lambda>c. lt_cell c (Num limit)) x_min"

text \<open>
  The tail every derived column shares: build the column from the check, add it under
  its name, drop the pair.
\<close>

definition replace_pair ::
  "(nat \<Rightarrow> cell) \<Rightarrow> dataframe \<Rightarrow> bool list \<Rightarrow> string \<Rightarrow> string \<Rightarrow> string \<Rightarrow> dataframe option" where
  "replace_pair u cohort check min_name max_name name = do {
     x_min \<leftarrow> getcol cohort min_name;
     x_max \<leftarrow> getcol cohort max_name;
     x \<leftarrow> most_abnormal u (length (index cohort)) check x_min x_max;
     cohort \<leftarrow> df_assign cohort name x;
     df_drop cohort [min_name, max_name]
   }"

definition bidirectional ::
  "(nat \<Rightarrow> cell) \<Rightarrow> dataframe \<Rightarrow> string \<Rightarrow> real \<Rightarrow> string \<Rightarrow> real \<Rightarrow> string \<Rightarrow> dataframe option" where
  "bidirectional u cohort min_name low max_name high name = do {
     x_min \<leftarrow> getcol cohort min_name;
     x_max \<leftarrow> getcol cohort max_name;
     check \<leftarrow> deviation_check x_min low x_max high;
     replace_pair u cohort check min_name max_name name
   }"

text \<open>The columns dropped for the analytes that are abnormal in one direction only.\<close>

definition lab_drop :: "string list" where
  "lab_drop =
     [''bicarbonate_max'', ''chloride_max'', ''calcium_max'', ''magnesium_max'',
      ''baseexcess_max'', ''platelet_max'', ''hemoglobin_max'', ''phosphate_max'',
      ''fibrinogen_max'', ''ph_max'', ''hematocrit_max'', ''creatinine_min'',
      ''bun_min'', ''bilirubin_min'', ''pt_min'', ''inr_min'', ''lactate_min'',
      ''tropi_min'', ''tropt_min'', ''amylase_min'', ''lipase_min'', ''bnp_min'',
      ''cpk_min'', ''albumin_max'', ''ioncalcium_max'', ''pao2_max'', ''pt_min'',
      ''ptt_min'', ''inr_min'', ''aniongap_min'']"

text \<open>
  Code cell 15.  The three white-cell checks are all computed before the first of
  their pairs is replaced.
\<close>

definition select_abnormal_values :: "(nat \<Rightarrow> cell) \<Rightarrow> dataframe \<Rightarrow> dataframe option" where
  "select_abnormal_values u cohort = do {
     cohort \<leftarrow> df_drop cohort lab_drop;
     cohort \<leftarrow> bidirectional u cohort ''sodium_min'' 135 ''sodium_max'' 145 ''sodium'';
     cohort \<leftarrow> bidirectional u cohort ''potassium_min'' 3.5 ''potassium_max'' 5.0 ''potassium'';
     cohort \<leftarrow> bidirectional u cohort ''glucose_min'' 70 ''glucose_max'' 130 ''glucose'';
     wbc_min \<leftarrow> getcol cohort ''wbc_min'';
     wbc_check \<leftarrow> threshold_check wbc_min 2;
     pmn_min \<leftarrow> getcol cohort ''pmn_min'';
     pmn_check \<leftarrow> threshold_check pmn_min 45;
     lymphs_min \<leftarrow> getcol cohort ''lymphs_min'';
     lym_check \<leftarrow> threshold_check lymphs_min 20;
     cohort \<leftarrow> replace_pair u cohort wbc_check ''wbc_min'' ''wbc_max'' ''wbc'';
     cohort \<leftarrow> replace_pair u cohort pmn_check ''pmn_min'' ''pmn_max'' ''pmn'';
     replace_pair u cohort lym_check ''lymphs_min'' ''lymphs_max'' ''lym''
   }"

subsection \<open>Missing values and the baseline prediction\<close>

text \<open>
  \<^verbatim>\<open>cohort.replace(old, new)\<close>: every cell of the frame that equals \<open>old\<close> becomes
  \<open>new\<close>; a string never equals a number.
\<close>

definition df_replace :: "dataframe \<Rightarrow> cell \<Rightarrow> cell \<Rightarrow> dataframe" where
  "df_replace df old new =
     df\<lparr>columns :=
          map (\<lambda>c. (fst c, map (\<lambda>x. if eq_cell x old then new else x) (snd c))) (columns df)\<rparr>"

text \<open>
  \<^verbatim>\<open>astype('float64')\<close> calls Python's \<^verbatim>\<open>float\<close> on every cell of an object column.
  What \<^verbatim>\<open>float\<close> makes of a string is the parameter \<open>to_float\<close>: a number or \<open>NaN\<close>,
  or \<open>None\<close> where it raises \<^verbatim>\<open>ValueError\<close>.  Numbers and missing values stay.
\<close>

fun float_cell :: "(string \<Rightarrow> cell option) \<Rightarrow> cell \<Rightarrow> cell option" where
  "float_cell to_float (Num x) = Some (Num x)"
| "float_cell to_float NaN = Some NaN"
| "float_cell to_float (Str s) = (case to_float s of Some (Str t) \<Rightarrow> None | r \<Rightarrow> r)"

definition astype_float64 :: "(string \<Rightarrow> cell option) \<Rightarrow> series \<Rightarrow> series option" where
  "astype_float64 to_float s = series_apply (float_cell to_float) s"

text \<open>
  Code cell 16: the value -1 is read as missing everywhere, then the stays without a
  baseline prediction of at least 0 go.
\<close>

definition replace_sentinel :: "(string \<Rightarrow> cell option) \<Rightarrow> dataframe \<Rightarrow> dataframe option" where
  "replace_sentinel to_float cohort = do {
     let cohort = df_replace cohort (Num (- 1)) NaN;
     apache_prediction \<leftarrow> getcol cohort ''apache_prediction'';
     apache_prediction \<leftarrow> astype_float64 to_float apache_prediction;
     cohort \<leftarrow> df_assign cohort ''apache_prediction'' apache_prediction;
     apache_prediction \<leftarrow> getcol cohort ''apache_prediction'';
     mask \<leftarrow> series_ge_scalar apache_prediction 0;
     loc cohort mask
   }"

text \<open>Code cell 17: the columns that are not used for modelling.\<close>

definition unused_columns :: "string list" where
  "unused_columns =
     [''sbp_periodic_mean'', ''dbp_periodic_mean'', ''map_periodic_mean'',
      ''Unnamed: 0'', ''tempc_mean'', ''apache_elect_surg'', ''apache_creatinine'',
      ''apache_pao2'', ''apache_fio2'', ''apache_o2ratio'', ''hospital_los'', ''unit_los'',
      ''unitadmitsource'', ''apache_score'']"

definition drop_unused :: "dataframe \<Rightarrow> dataframe option" where
  "drop_unused cohort = df_drop cohort unused_columns"

subsection \<open>Categorical columns as indicator columns\<close>

text \<open>
  \<^verbatim>\<open>s.str.replace(old, new)\<close> for one-character \<open>old\<close> and \<open>new\<close>: every occurrence in
  every string; a cell that is not a string becomes missing.
\<close>

definition str_replace :: "series \<Rightarrow> char \<Rightarrow> char \<Rightarrow> series" where
  "str_replace s old new =
     map (\<lambda>c. case c of
                 Str t \<Rightarrow> Str (map (\<lambda>x. if x = old then new else x) t)
               | _ \<Rightarrow> NaN) s"

text \<open>
  \<^verbatim>\<open>s.map(table)\<close> with a dictionary: a cell that is a key becomes the value of the
  key, every other cell becomes missing.  Nothing raises.
\<close>

definition series_map :: "series \<Rightarrow> (string \<times> string) list \<Rightarrow> series" where
  "series_map s table =
     map (\<lambda>c. case c of
                 Str k \<Rightarrow> (case map_of table k of Some v \<Rightarrow> Str v | None \<Rightarrow> NaN)
               | _ \<Rightarrow> NaN) s"

text \<open>\<^verbatim>\<open>(mask).astype('int')\<close>: true is 1, false is 0.\<close>

definition astype_int :: "bool list \<Rightarrow> series" where
  "astype_int m = map (\<lambda>b. Num (if b then 1 else 0)) m"

text \<open>
  \<^verbatim>\<open>pd.get_dummies(s, prefix, drop_first=True)\<close> on a column of strings.  The
  categories are the distinct strings of the column in sorted order; missing cells
  belong to no category.  There is one indicator column for each category but the
  first, named prefix, underscore, category.  Columns of numbers are not modelled; the
  notebook derives none.
\<close>

definition categories :: "series \<Rightarrow> string list" where
  "categories s = sort (remdups (List.map_filter (\<lambda>c. case c of Str t \<Rightarrow> Some t | _ \<Rightarrow> None) s))"

definition get_dummies :: "series \<Rightarrow> string \<Rightarrow> (string \<times> series) list option" where
  "get_dummies s prefix =
     (if list_ex is_Num s then None
      else Some (map (\<lambda>cat. (prefix @ ''_'' @ cat, map (\<lambda>c. Num (if c = Str cat then 1 else 0)) s))
                     (drop 1 (categories s))))"

text \<open>
  \<^verbatim>\<open>pd.concat([cohort, dummies], axis=1)\<close>: the indicator columns, which carry the row
  labels of the frame, are appended.
\<close>

definition pd_concat :: "dataframe \<Rightarrow> (string \<times> series) list \<Rightarrow> dataframe option" where
  "pd_concat df cols =
     (if list_all (\<lambda>c. length (snd c) = length (index df)) cols
      then Some (df\<lparr>columns := columns df @ cols\<rparr>)
      else None)"

text \<open>Code cell 18: the admitting diagnosis.\<close>

definition encode_admit_diagnosis :: "dataframe \<Rightarrow> dataframe option" where
  "encode_admit_diagnosis cohort = do {
     admit_diagnosis \<leftarrow> getcol cohort ''admit_diagnosis'';
     cohort \<leftarrow> df_assign cohort ''admit_diagnosis'' (str_replace admit_diagnosis CHR ''-'' CHR ''_'');
     admit_diagnosis \<leftarrow> getcol cohort ''admit_diagnosis'';
     cohort \<leftarrow> df_assign cohort ''admit_diagnosis'' (str_replace admit_diagnosis CHR ''/'' CHR ''_'');
     admit_diagnosis \<leftarrow> getcol cohort ''admit_diagnosis'';
     adx_dummies \<leftarrow> get_dummies admit_diagnosis ''adx'';
     cohort \<leftarrow> pd_concat cohort adx_dummies;
     df_drop cohort [''admit_diagnosis'']
   }"

text \<open>Code cell 19: gender and ethnicity.\<close>

definition eth_map :: "(string \<times> string) list" where
  "eth_map =
     [(''Caucasian'', ''caucasian''), (''Other/Unknown'', ''other''),
      (''Native American'', ''native_american''), (''African American'', ''african_american''),
      (''Asian'', ''asian''), (''Hispanic'', ''hispanic''), ('''', ''other'')]"

definition encode_gender_ethnicity :: "dataframe \<Rightarrow> dataframe option" where
  "encode_gender_ethnicity cohort = do {
     gender \<leftarrow> getcol cohort ''gender'';
     let male_gender = astype_int (series_eq gender (Str ''Male''));
     cohort \<leftarrow> df_assign cohort ''male_gender'' male_gender;
     cohort \<leftarrow> df_drop cohort [''gender''];
     ethnicity \<leftarrow> getcol cohort ''ethnicity'';
     cohort \<leftarrow> df_assign cohort ''ethnicity'' (series_map ethnicity eth_map);
     ethnicity \<leftarrow> getcol cohort ''ethnicity'';
     eth_dummies \<leftarrow> get_dummies ethnicity ''eth'';
     cohort \<leftarrow> pd_concat cohort eth_dummies;
     df_drop cohort [''ethnicity'']
   }"

text \<open>Code cell 20: the unit type.\<close>

definition encode_unit_type :: "dataframe \<Rightarrow> dataframe option" where
  "encode_unit_type cohort = do {
     unit_type \<leftarrow> getcol cohort ''unit_type'';
     cohort \<leftarrow> df_assign cohort ''unit_type'' (str_replace unit_type CHR ''-'' CHR ''_'');
     unit_type \<leftarrow> getcol cohort ''unit_type'';
     cohort \<leftarrow> df_assign cohort ''unit_type'' (str_replace unit_type CHR '' '' CHR ''_'');
     unit_type \<leftarrow> getcol cohort ''unit_type'';
     unit_dummies \<leftarrow> get_dummies unit_type ''unit'';
     cohort \<leftarrow> pd_concat cohort unit_dummies;
     df_drop cohort [''unit_type'']
   }"

subsection \<open>The indicator columns as the specification describes them\<close>

text \<open>
  The specification describes the three encodings in one way: every label is brought
  into a canonical form, and the column is expanded into one indicator column for each
  distinct canonical label but the first in sorted order.  \<open>underscored cs t\<close> is the
  label \<open>t\<close> with every character of \<open>cs\<close> replaced by an underscore.  The canonical
  form \<open>f\<close> may leave a label without one; such a row, like a row without a label,
  belongs to no indicator column.
\<close>

definition underscored :: "char list \<Rightarrow> string \<Rightarrow> string" where
  "underscored cs t = map (\<lambda>x. if x \<in> set cs then CHR ''_'' else x) t"

definition canonical_labels :: "(string \<Rightarrow> string option) \<Rightarrow> series \<Rightarrow> string list" where
  "canonical_labels f s =
     sort (remdups (List.map_filter (\<lambda>c. case c of Str t \<Rightarrow> f t | _ \<Rightarrow> None) s))"

definition indicator :: "(string \<Rightarrow> string option) \<Rightarrow> series \<Rightarrow> string \<Rightarrow> series" where
  "indicator f s v =
     map (\<lambda>c. Num (case c of Str t \<Rightarrow> if f t = Some v then 1 else 0 | _ \<Rightarrow> 0)) s"

definition indicator_columns ::
  "string \<Rightarrow> (string \<Rightarrow> string option) \<Rightarrow> series \<Rightarrow> (string \<times> series) list" where
  "indicator_columns prefix f s =
     map (\<lambda>v. (prefix @ ''_'' @ v, indicator f s v)) (drop 1 (canonical_labels f s))"

subsection \<open>Label, baseline prediction and the split\<close>

text \<open>A series on its own carries the row labels of the frame it was taken from.\<close>

record indexed_series =
  row_labels :: "nat list"
  cells :: series

text \<open>
  Code cell 21: the label is 1 where the stay ended in death, the baseline prediction
  is kept aside, and both columns leave the features.
\<close>

definition separate_label :: "dataframe \<Rightarrow> (dataframe \<times> indexed_series \<times> indexed_series) option" where
  "separate_label cohort = do {
     hospital_expiration \<leftarrow> getcol cohort ''hospital_expiration'';
     let label = \<lparr>row_labels = index cohort,
                  cells = astype_int (series_eq hospital_expiration (Str ''EXPIRED''))\<rparr>;
     apache_prediction \<leftarrow> getcol cohort ''apache_prediction'';
     let apache_pred = \<lparr>row_labels = index cohort, cells = apache_prediction\<rparr>;
     cohort \<leftarrow> df_drop cohort [''hospital_expiration'', ''apache_prediction''];
     Some (cohort, label, apache_pred)
   }"

text \<open>
  Positional indexing, \<^verbatim>\<open>iloc\<close>: the rows at the given positions, in the given
  order, with their labels.  A position outside the frame raises.
\<close>

definition take_rows :: "dataframe \<Rightarrow> nat list \<Rightarrow> dataframe option" where
  "take_rows df ps =
     (if rectangular df \<and> list_all (\<lambda>p. p < length (index df)) ps
      then Some \<lparr>index = map (\<lambda>p. index df ! p) ps,
                 columns = map (\<lambda>c. (fst c, map (\<lambda>p. snd c ! p) ps)) (columns df)\<rparr>
      else None)"

definition take_cells :: "indexed_series \<Rightarrow> nat list \<Rightarrow> indexed_series option" where
  "take_cells s ps =
     (if length (cells s) = length (row_labels s) \<and> list_all (\<lambda>p. p < length (row_labels s)) ps
      then Some \<lparr>row_labels = map (\<lambda>p. row_labels s ! p) ps, cells = map (\<lambda>p. cells s ! p) ps\<rparr>
      else None)"

text \<open>The six outputs of the split, which code cell 23 writes to six files.\<close>

record split =
  train_X :: dataframe
  test_X :: dataframe
  train_y :: indexed_series
  test_y :: indexed_series
  train_apache :: indexed_series
  test_apache :: indexed_series

text \<open>
  \<^verbatim>\<open>train_test_split(cohort, label, apache_pred, test_size=0.25, random_state=42)\<close>
  of scikit-learn.  The three arrays must have the same number of rows \<open>n\<close>.  The test
  part has \<open>\<lceil>0.25 n\<rceil>\<close> rows and the train part the others; an empty train part raises
  (scikit-learn before 0.21 returned it).  One permutation of the \<open>n\<close> positions is
  drawn from the generator seeded with 42: its first positions are the test rows, the
  rest the train rows, and each of the three arrays is indexed with the same two
  lists of positions.  What the seeded generator draws for \<open>n\<close> positions is the
  parameter \<open>permutation\<close>.
\<close>

definition train_test_split ::
  "(nat \<Rightarrow> nat list) \<Rightarrow> dataframe \<Rightarrow> indexed_series \<Rightarrow> indexed_series \<Rightarrow> split option" where
  "train_test_split permutation X y apache = do {
     let n_samples = length (index X);
     _ \<leftarrow> (if length (row_labels y) = n_samples \<and> length (row_labels apache) = n_samples
          then Some () else None);
     let n_test = nat \<lceil>0.25 * real n_samples\<rceil>;
     let n_train = n_samples - n_test;
     _ \<leftarrow> (if n_train = 0 then None else Some ());
     let ind_test = take n_test (permutation n_samples);
     let ind_train = take n_train (drop n_test (permutation n_samples));
     X_train \<leftarrow> take_rows X ind_train;
     X_test \<leftarrow> take_rows X ind_test;
     y_train \<leftarrow> take_cells y ind_train;
     y_test \<leftarrow> take_cells y ind_test;
     apache_train \<leftarrow> take_cells apache ind_train;
     apache_test \<leftarrow> take_cells apache ind_test;
     Some \<lparr>train_X = X_train, test_X = X_test, train_y = y_train, test_y = y_test,
           train_apache = apache_train, test_apache = apache_test\<rparr>
   }"

text \<open>Code cells 21 and 22.\<close>

definition split_features_label :: "(nat \<Rightarrow> nat list) \<Rightarrow> dataframe \<Rightarrow> split option" where
  "split_features_label permutation cohort = do {
     (cohort, label, apache_pred) \<leftarrow> separate_label cohort;
     train_test_split permutation cohort label apache_pred
   }"

subsection \<open>The whole notebook\<close>

text \<open>
  Code cells 7 to 22 in their order.  The parameters are what lies outside the
  notebook: what \<^verbatim>\<open>int\<close> and \<^verbatim>\<open>float\<close> make of a string, the contents of freshly
  allocated arrays, and the permutation the seeded generator draws.
\<close>

definition pipeline ::
  "(string \<Rightarrow> int option) \<Rightarrow> (nat \<Rightarrow> cell) \<Rightarrow> (string \<Rightarrow> cell option) \<Rightarrow> (nat \<Rightarrow> nat list) \<Rightarrow>
   dataframe \<Rightarrow> dataframe \<Rightarrow> dataframe \<Rightarrow> split option" where
  "pipeline to_int u to_float permutation base_cohort feature_set dx_groups = do {
     cohort \<leftarrow> extract_cohort base_cohort feature_set dx_groups;
     cohort \<leftarrow> apply_exclusions to_int cohort;
     cohort \<leftarrow> select_abnormal_values u cohort;
     cohort \<leftarrow> replace_sentinel to_float cohort;
     cohort \<leftarrow> drop_unused cohort;
     cohort \<leftarrow> encode_admit_diagnosis cohort;
     cohort \<leftarrow> encode_gender_ethnicity cohort;
     cohort \<leftarrow> encode_unit_type cohort;
     split_features_label permutation cohort
   }"

text \<open>
  The stay identifier of a frame.  In \<open>stays df P\<close> the frame has the column
  \<^verbatim>\<open>patientunitstayid\<close> with one cell for each row, no two rows have the same
  identifier, and every identifier satisfies \<open>P\<close>.  A source table is keyed by the stay
  when moreover every identifier is a number; a later frame has unique stays.
\<close>

definition stays :: "dataframe \<Rightarrow> (cell \<Rightarrow> bool) \<Rightarrow> bool" where
  "stays df P =
     (case getcol df ''patientunitstayid'' of
        None \<Rightarrow> False
      | Some ids \<Rightarrow> length ids = length (index df) \<and> distinct ids \<and> list_all P ids)"

definition keyed_by_stay :: "dataframe \<Rightarrow> bool" where
  "keyed_by_stay df = stays df is_Num"

definition unique_stays :: "dataframe \<Rightarrow> bool" where
  "unique_stays df = stays df (\<lambda>c. True)"

subsection \<open>A worked frame for the exclusions\<close>

text \<open>
  Ten stays: the first and the last pass every criterion (the last one on the
  boundaries: 240 minutes in the unit, one minute less than a year in hospital, age 16);
  each of the others fails exactly one.  The ages are plain decimal strings, on which
  \<^verbatim>\<open>int\<close> is \<open>digits_int\<close>.
\<close>

definition digits_int :: "string \<Rightarrow> int option" where
  "digits_int s =
     (if s \<noteq> [] \<and> list_all (\<lambda>c. CHR ''0'' \<le> c \<and> c \<le> CHR ''9'') s
      then Some (foldl (\<lambda>n c. 10 * n + (int (of_char c) - 48)) 0 s)
      else None)"

definition tiny_admissions :: dataframe where
  "tiny_admissions =
     \<lparr>index = [0, 1, 2, 3, 4, 5, 6, 7, 8, 9],
      columns =
        [(''patientunitstayid'',
            [Num 141168, Num 141194, Num 141203, Num 141227, Num 141233,
             Num 141244, Num 141260, Num 141265, Num 141266, Num 141270]),
         (''apache_readmit'',
            [Num 0, Num 1, Num 0, Num 0, Num 0, Num 0, Num 0, Num 0, Num 0, Num 0]),
         (''unitadmitsource'',
            [Str ''Emergency Department'', Str ''Floor'', Str ''Other ICU'', Str ''Floor'',
             Str ''Operating Room'', Str ''Floor'', Str ''Floor'', NaN, Str ''Floor'',
             Str ''Direct Admit'']),
         (''unit_los'',
            [Num 1500, Num 3000, Num 2000, Num 239, Num 4000,
             Num 900, Num 700, Num 650, Num 5000, Num 240]),
         (''hospital_los'',
            [Num 8000, Num 9000, Num 7000, Num 6000, Num 525600,
             Num 10000, Num 3000, Num 2500, Num 12000, Num 525599]),
         (''admit_diagnosis'',
            [Str ''SEPSISPULM'', Str ''CHF'', Str ''S-CABG'', Str ''AMI'', Str ''CVASTROKE'',
             Str ''BURN'', Str ''DKA'', Str ''CHF'', Str ''AMI'', Str ''S-VALVAO'']),
         (''age'',
            [Str ''67'', Str ''54'', Str ''71'', Str ''80'', Str ''33'',
             Str ''45'', Str ''> 89'', Str '''', Str ''15'', Str ''16''])]\<rparr>"

definition tiny_included :: dataframe where
  "tiny_included =
     \<lparr>index = [0, 9],
      columns =
        [(''patientunitstayid'', [Num 141168, Num 141270]),
         (''apache_readmit'', [Num 0, Num 0]),
         (''unitadmitsource'', [Str ''Emergency Department'', Str ''Direct Admit'']),
         (''unit_los'', [Num 1500, Num 240]),
         (''hospital_los'', [Num 8000, Num 525599]),
         (''admit_diagnosis'', [Str ''SEPSISPULM'', Str ''S-VALVAO'']),
         (''age'', [Num 67, Num 16])]\<rparr>"

subsection \<open>A worked frame for code cell 15\<close>

text \<open>
  Four stays.  Row 0 has the tie of the sodium pair and a white cell count under its
  limit, row 1 has the larger deviation on the maximum side, row 2 has no laboratory
  value at all, and row 3 has one end of each pair missing.
\<close>

definition tiny_labs :: dataframe where
  "tiny_labs =
     \<lparr>index = [0, 1, 2, 3],
      columns =
        map (\<lambda>name. (name, [Num 1, NaN, Num 2, Num 3])) (remdups lab_drop) @
        [(''patientunitstayid'', [Num 141168, Num 141194, Num 141203, Num 141227]),
         (''sodium_min'', [Num 130, Num 133, NaN, Num 120]),
         (''sodium_max'', [Num 140, Num 150, NaN, NaN]),
         (''potassium_min'', [Num 3, Num 3.25, NaN, Num 2]),
         (''potassium_max'', [Num 5.5, Num 6, NaN, NaN]),
         (''glucose_min'', [Num 60, Num 65, NaN, Num 40]),
         (''glucose_max'', [Num 140, Num 300, NaN, NaN]),
         (''wbc_min'', [Num 1.5, Num 5.0, NaN, NaN]),
         (''wbc_max'', [Num 12, Num 9, NaN, Num 11]),
         (''pmn_min'', [Num 44, Num 45, NaN, NaN]),
         (''pmn_max'', [Num 80, Num 70, NaN, Num 90]),
         (''lymphs_min'', [Num 10, Num 20, NaN, NaN]),
         (''lymphs_max'', [Num 30, Num 40, NaN, Num 35])]\<rparr>"

text \<open>
  Two stays whose potassium cells are the float64 values of the literals \<^verbatim>\<open>1.3\<close>,
  \<^verbatim>\<open>2.8\<close>, \<^verbatim>\<open>3.9\<close> and \<^verbatim>\<open>5.4\<close>, none of which is a float64 itself.
\<close>

definition rounded_labs :: dataframe where
  "rounded_labs =
     \<lparr>index = [0, 1],
      columns =
        map (\<lambda>name. (name, [Num 1, NaN])) (remdups lab_drop) @
        [(''patientunitstayid'', [Num 141168, Num 141194]),
         (''sodium_min'', [Num 130, Num 133]),
         (''sodium_max'', [Num 140, Num 150]),
         (''potassium_min'', [Num (float64_round 1.3), Num (float64_round 3.9)]),
         (''potassium_max'', [Num (float64_round 2.8), Num (float64_round 5.4)]),
         (''glucose_min'', [Num 60, Num 65]),
         (''glucose_max'', [Num 140, Num 300]),
         (''wbc_min'', [Num 1.5, Num 5]),
         (''wbc_max'', [Num 12, Num 9]),
         (''pmn_min'', [Num 44, Num 45]),
         (''pmn_max'', [Num 80, Num 70]),
         (''lymphs_min'', [Num 10, Num 20]),
         (''lymphs_max'', [Num 30, Num 40])]\<rparr>"

subsection \<open>A worked frame for code cell 16\<close>

text \<open>
  Five stays.  The predictions are strings, as the database stores them; \<open>tiny_float\<close>
  is \<^verbatim>\<open>float\<close> on the strings that occur.  The second stay has the prediction -1,
  the fourth has none, and a heart rate and a creatinine are coded -1.
\<close>

definition tiny_float :: "string \<Rightarrow> cell option" where
  "tiny_float s =
     (if s = ''0.25'' then Some (Num 0.25)
      else if s = ''-1'' then Some (Num (- 1))
      else if s = ''0.75'' then Some (Num 0.75)
      else if s = ''0'' then Some (Num 0)
      else None)"

definition tiny_scored :: dataframe where
  "tiny_scored =
     \<lparr>index = [0, 9, 12, 15, 20],
      columns =
        [(''patientunitstayid'', [Num 141168, Num 141270, Num 141284, Num 141288, Num 141304]),
         (''hr_mean'', [Num 88, Num 75, Num (- 1), Num 101, Num 64]),
         (''creatinine_max'', [Num (- 1), Num 1.25, Num 0.75, Num 2.5, Num (- 1)]),
         (''apache_prediction'', [Str ''0.25'', Str ''-1'', Str ''0.75'', NaN, Str ''0''])]\<rparr>"

definition tiny_scored_out :: dataframe where
  "tiny_scored_out =
     \<lparr>index = [0, 12, 20],
      columns =
        [(''patientunitstayid'', [Num 141168, Num 141284, Num 141304]),
         (''hr_mean'', [Num 88, NaN, Num 64]),
         (''creatinine_max'', [NaN, Num 0.75, NaN]),
         (''apache_prediction'', [Num 0.25, Num 0.75, Num 0])]\<rparr>"

subsection \<open>Worked frames for the categorical columns\<close>

text \<open>
  Three stays with two admitting diagnoses, the second with a hyphen, a slash and a
  space in its label; the same stays with a recorded ethnicity, an ethnicity the
  table does not list, and none; and three stays with three unit types, the third with
  a slash in its label.
\<close>

definition tiny_diagnoses :: dataframe where
  "tiny_diagnoses =
     \<lparr>index = [0, 12, 20],
      columns =
        [(''patientunitstayid'', [Num 141168, Num 141284, Num 141304]),
         (''admit_diagnosis'', [Str ''CHF'', Str ''S-CABG/VALVE REDO'', Str ''CHF''])]\<rparr>"

definition tiny_diagnoses_out :: dataframe where
  "tiny_diagnoses_out =
     \<lparr>index = [0, 12, 20],
      columns =
        [(''patientunitstayid'', [Num 141168, Num 141284, Num 141304]),
         (''adx_S_CABG_VALVE REDO'', [Num 0, Num 1, Num 0])]\<rparr>"

definition tiny_people :: dataframe where
  "tiny_people =
     \<lparr>index = [0, 12, 20, 31],
      columns =
        [(''patientunitstayid'', [Num 141168, Num 141284, Num 141304, Num 141392]),
         (''gender'', [Str ''Male'', Str ''Female'', Str '''', Str ''Male'']),
         (''ethnicity'', [Str ''African American'', Str ''Pacific Islander'', Str '''', Str ''Hispanic''])]\<rparr>"

definition tiny_people_out :: dataframe where
  "tiny_people_out =
     \<lparr>index = [0, 12, 20, 31],
      columns =
        [(''patientunitstayid'', [Num 141168, Num 141284, Num 141304, Num 141392]),
         (''male_gender'', [Num 1, Num 0, Num 0, Num 1]),
         (''eth_hispanic'', [Num 0, Num 0, Num 0, Num 1]),
         (''eth_other'', [Num 0, Num 0, Num 1, Num 0])]\<rparr>"

definition tiny_units :: dataframe where
  "tiny_units =
     \<lparr>index = [0, 12, 20],
      columns =
        [(''patientunitstayid'', [Num 141168, Num 141284, Num 141304]),
         (''unit_type'', [Str ''CCU-CTICU'', Str ''Med-Surg ICU'', Str ''Neuro/Trauma ICU'']),
         (''male_gender'', [Num 1, Num 0, Num 0])]\<rparr>"

definition tiny_units_out :: dataframe where
  "tiny_units_out =
     \<lparr>index = [0, 12, 20],
      columns =
        [(''patientunitstayid'', [Num 141168, Num 141284, Num 141304]),
         (''male_gender'', [Num 1, Num 0, Num 0]),
         (''unit_Med_Surg_ICU'', [Num 0, Num 1, Num 0]),
         (''unit_Neuro/Trauma_ICU'', [Num 0, Num 0, Num 1])]\<rparr>"

subsection \<open>A worked frame for the split\<close>

text \<open>
  Five stays after the encoding, and a permutation of five positions: of
  \<open>\<lceil>0.25 \<cdot> 5\<rceil> = 2\<close> test rows and three train rows.
\<close>

definition tiny_final :: dataframe where
  "tiny_final =
     \<lparr>index = [0, 9, 12, 20, 31],
      columns =
        [(''patientunitstayid'', [Num 141168, Num 141270, Num 141284, Num 141304, Num 141392]),
         (''sodium'', [Num 130, Num 150, NaN, Num 141, Num 138]),
         (''apache_prediction'', [Num 0.25, Num 0.5, Num 0.75, Num 0, Num 0.125]),
         (''hospital_expiration'', [Str ''ALIVE'', Str ''EXPIRED'', Str ''EXPIRED'', Str ''ALIVE'', Str ''ALIVE'']),
         (''male_gender'', [Num 1, Num 0, Num 0, Num 1, Num 1])]\<rparr>"

definition tiny_permutation :: "nat \<Rightarrow> nat list" where
  "tiny_permutation n = (if n = 5 then [1, 4, 2, 0, 3] else [0..<n])"

definition tiny_split :: split where
  "tiny_split =
     \<lparr>train_X =
        \<lparr>index = [12, 0, 20],
         columns =
           [(''patientunitstayid'', [Num 141284, Num 141168, Num 141304]),
            (''sodium'', [NaN, Num 130, Num 141]),
            (''male_gender'', [Num 0, Num 1, Num 1])]\<rparr>,
      test_X =
        \<lparr>index = [9, 31],
         columns =
           [(''patientunitstayid'', [Num 141270, Num 141392]),
            (''sodium'', [Num 150, Num 138]),
            (''male_gender'', [Num 0, Num 1])]\<rparr>,
      train_y = \<lparr>row_labels = [12, 0, 20], cells = [Num 1, Num 0, Num 0]\<rparr>,
      test_y = \<lparr>row_labels = [9, 31], cells = [Num 1, Num 0]\<rparr>,
      train_apache = \<lparr>row_labels = [12, 0, 20], cells = [Num 0.75, Num 0.25, Num 0]\<rparr>,
      test_apache = \<lparr>row_labels = [9, 31], cells = [Num 0.5, Num 0.125]\<rparr>\<rparr>"

subsection \<open>Three worked source tables\<close>

text \<open>
  Five stays in the base cohort, five in the feature set and five in the diagnosis
  groups; four are in all three.  Of these, one is a readmission and one has the
  prediction -1, so that two stays reach the split.
\<close>

definition tiny_base :: dataframe where
  "tiny_base =
     \<lparr>index = [0, 1, 2, 3, 4],
      columns =
        [(''patientunitstayid'', [Num 141168, Num 141194, Num 141203, Num 141227, Num 141233]),
         (''age'', [Str ''67'', Str ''54'', Str ''71'', Str ''80'', Str ''33'']),
         (''gender'', [Str ''Male'', Str ''Female'', Str ''Male'', Str ''Female'', Str ''Female'']),
         (''ethnicity'', [Str ''Caucasian'', Str ''Hispanic'', Str ''Asian'', Str '''', Str ''African American'']),
         (''unit_type'', [Str ''Med-Surg ICU'', Str ''CTICU'', Str ''MICU'', Str ''Neuro ICU'', Str ''CCU-CTICU'']),
         (''unitadmitsource'', [Str ''Emergency Department'', Str ''Floor'', Str ''Floor'', Str ''Operating Room'', Str ''Direct Admit'']),
         (''unit_los'', [Num 1500, Num 3000, Num 2000, Num 900, Num 4000]),
         (''hospital_los'', [Num 8000, Num 9000, Num 7000, Num 6000, Num 12000]),
         (''admit_diagnosis'', [Str ''SEPSISPULM'', Str ''CHF'', Str ''S-CABG'', Str ''AMI'', Str ''S-VALVAO'']),
         (''apache_readmit'', [Num 0, Num 1, Num 0, Num 0, Num 0]),
         (''apache_elect_surg'', [NaN, NaN, Num 1, NaN, Num 1]),
         (''apache_fio2'', [Num (- 1), Num 40, Num (- 1), Num 21, Num 60]),
         (''apache_pao2'', [Num (- 1), Num 80, Num (- 1), Num 95, Num 70]),
         (''apache_o2ratio'', [Num 1, Num 2, Num 1, Num 4.5, Num 1.25]),
         (''apache_creatinine'', [Num 1.25, Num (- 1), Num 0.75, Num 2, Num (- 1)]),
         (''apache_prediction'', [Str ''0.25'', Str ''0.75'', Str ''0.25'', Str ''-1'', Str ''0.75'']),
         (''apache_score'', [Num 40, Num 95, Num 38, Num 60, Num 88]),
         (''hospital_expiration'', [Str ''ALIVE'', Str ''EXPIRED'', Str ''ALIVE'', Str ''ALIVE'', Str ''EXPIRED''])]\<rparr>"

definition tiny_features :: dataframe where
  "tiny_features =
     \<lparr>index = [0, 1, 2, 3, 4],
      columns =
        [(''patientunitstayid'', [Num 141168, Num 141194, Num 141227, Num 141233, Num 141999]),
         (''hr_mean'', [Num 88, Num 75, Num 101, Num 64, Num 90]),
         (''sbp_periodic_mean'', [NaN, Num 120, NaN, NaN, Num 110]),
         (''dbp_periodic_mean'', [NaN, Num 70, NaN, NaN, Num 60]),
         (''map_periodic_mean'', [NaN, Num 85, NaN, NaN, Num 75]),
         (''tempc_mean'', [NaN, NaN, Num 37, NaN, NaN])] @
        map (\<lambda>name. (name, [Num 1, NaN, Num 2, Num 3, Num 1])) (remdups lab_drop) @
        [(''sodium_min'', [Num 130, Num 133, NaN, Num 120, Num 140]),
         (''sodium_max'', [Num 140, Num 150, NaN, NaN, Num 141]),
         (''potassium_min'', [Num 3, Num 3.25, NaN, Num 2, Num 4]),
         (''potassium_max'', [Num 5.5, Num 6, NaN, NaN, Num 4.25]),
         (''glucose_min'', [Num 60, Num 65, NaN, Num 40, Num 90]),
         (''glucose_max'', [Num 140, Num 300, NaN, NaN, Num 110]),
         (''wbc_min'', [Num 1.5, Num 5.0, NaN, NaN, Num 7]),
         (''wbc_max'', [Num 12, Num 9, NaN, Num 11, Num 8]),
         (''pmn_min'', [Num 44, Num 45, NaN, NaN, Num 60]),
         (''pmn_max'', [Num 80, Num 70, NaN, Num 90, Num 65]),
         (''lymphs_min'', [Num 10, Num 20, NaN, NaN, Num 25]),
         (''lymphs_max'', [Num 30, Num 40, NaN, Num 35, Num 28])]\<rparr>"

definition tiny_dx :: dataframe where
  "tiny_dx =
     \<lparr>index = [0, 1, 2, 3, 4],
      columns =
        [(''Unnamed: 0'', [Num 1, Num 2, Num 3, Num 4, Num 5]),
         (''patientunitstayid'', [Num 141168, Num 141194, Num 141203, Num 141227, Num 141233]),
         (''chf'', [Num 0, Num 1, Num 0, Num 0, Num 1])]\<rparr>"

section \<open>Code cell 15: proofs\<close>

lemma those_eq_Some: "those xs = Some ys \<longleftrightarrow> xs = map Some ys"
  by (induction xs arbitrary: ys) (auto split: option.splits)

lemma those_map_Some_iff:
  "those (map f xs) = Some ys \<longleftrightarrow> length ys = length xs \<and> (\<forall>i<length xs. f (xs ! i) = Some (ys ! i))"
  unfolding those_eq_Some by (auto simp: list_eq_iff_nth_eq)

lemma series_apply_Some:
  "series_apply f s = Some r \<longleftrightarrow> length r = length s \<and> (\<forall>i<length s. f (s ! i) = Some (r ! i))"
  by (simp add: series_apply_def those_map_Some_iff)

lemma setitem_mask_length:
  "setitem_mask arr m vals = Some r \<Longrightarrow> length m = length arr \<and> length r = length arr"
  by (induction arr m vals arbitrary: r rule: setitem_mask.induct) auto

lemma setitem_mask_select:
  "length arr = length m \<Longrightarrow> length m = length xs \<Longrightarrow> 
   setitem_mask arr m (mask_select xs m) =
     (if list_ex (\<lambda>p. fst p \<and> is_Str (snd p)) (zip m xs) then None
      else Some (map (\<lambda>(a, c, x). if c then x else a) (zip arr (zip m xs))))"
proof (induction arr m xs rule: list_induct3)
  case Nil
  then show ?case by (simp add: mask_select_def)
next
  case (Cons a arr c m x xs)
  then show ?case by (cases c; cases x) (simp_all add: mask_select_def)
qed

lemma setitem_mask_nth:
  assumes "setitem_mask arr m (mask_select xs m) = Some r" "length xs = length m"
  shows "length r = length m \<and> length arr = length m \<and>
         (\<forall>i<length m. r ! i = (if m ! i then xs ! i else arr ! i))"
proof -
  from setitem_mask_length[OF assms(1)] have len: "length arr = length m" "length r = length m" by simp_all
  from setitem_mask_select[OF len(1) assms(2)[symmetric]] assms(1)
  have "r = map (\<lambda>(a, c, x). if c then x else a) (zip arr (zip m xs))"
    by (simp split: if_splits)
  then show ?thesis using len assms(2) by simp
qed

lemma most_abnormal_SomeD:
  assumes "most_abnormal u n check x_min x_max = Some r"
  shows "length check = n \<and> length x_min = n \<and> length x_max = n \<and> length r = n \<and>
         (\<forall>i<n. r ! i = (if check ! i then x_min ! i else x_max ! i))"
proof -
  from assms obtain x1 where
    l1: "length check = length x_min" and
    s1: "setitem_mask (np_empty u n) check (mask_select x_min check) = Some x1" and
    l2: "length check = length x_max" and
    s2: "setitem_mask x1 (map Not check) (mask_select x_max (map Not check)) = Some r"
    by (auto simp: most_abnormal_def series_getitem_def Let_def bind_eq_Some_conv split: if_splits)
  from setitem_mask_nth[OF s1] l1
  have a: "length x1 = length check" "length (np_empty u n) = length check"
    "\<forall>i<length check. x1 ! i = (if check ! i then x_min ! i else np_empty u n ! i)" by simp_all
  from setitem_mask_nth[OF s2] l2
  have b: "length r = length check"
    "\<forall>i<length check. r ! i = (if \<not> check ! i then x_max ! i else x1 ! i)" by simp_all
  from a(2) have n: "length check = n" by (simp add: np_empty_def)
  show ?thesis using a b l1 l2 n by auto
qed

lemma most_abnormal_Some:
  assumes "length check = n" "length x_min = n" "length x_max = n"
    and "\<forall>i<n. \<not> is_Str (if check ! i then x_min ! i else x_max ! i)"
  shows "\<exists>r. most_abnormal u n check x_min x_max = Some r"
proof -
  have e1: "\<not> list_ex (\<lambda>p. fst p \<and> is_Str (snd p)) (zip check x_min)"
  proof
    assume "list_ex (\<lambda>p. fst p \<and> is_Str (snd p)) (zip check x_min)"
    then obtain i where "i < n" "check ! i" "is_Str (x_min ! i)"
      using assms(1,2) by (auto simp: list_ex_iff in_set_zip)
    with assms(4) show False by (auto dest: spec[of _ i])
  qed
  have l0: "length (np_empty u n) = length check" using assms by (simp add: np_empty_def)
  define x1 where "x1 = map (\<lambda>(a, c, x). if c then x else a) (zip (np_empty u n) (zip check x_min))"
  have s1: "setitem_mask (np_empty u n) check (mask_select x_min check) = Some x1"
    using setitem_mask_select[OF l0, of x_min] assms e1 by (simp add: x1_def)
  have lx: "length x1 = length (map Not check)" using assms l0 by (simp add: x1_def)
  have e2: "\<not> list_ex (\<lambda>p. fst p \<and> is_Str (snd p)) (zip (map Not check) x_max)"
  proof
    assume "list_ex (\<lambda>p. fst p \<and> is_Str (snd p)) (zip (map Not check) x_max)"
    then obtain i where "i < n" "\<not> check ! i" "is_Str (x_max ! i)"
      using assms(1,3) by (auto simp: list_ex_iff in_set_zip)
    with assms(4) show False by (auto dest: spec[of _ i])
  qed
  have s2: "\<exists>r. setitem_mask x1 (map Not check) (mask_select x_max (map Not check)) = Some r"
    using setitem_mask_select[OF lx, of x_max] assms e2 by simp
  show ?thesis using s1 s2 assms
    by (auto simp: most_abnormal_def series_getitem_def Let_def)
qed


lemma deviation_pointwise:
  assumes "sub_cell low a = Some d" "abs_cell d = Some d'"
    "sub_cell high b = Some e" "abs_cell e = Some e'" "ge_cell d' e' = Some c"
  shows "c = (\<exists>x y. a = Num x \<and> b = Num y \<and> \<bar>float64_round (float64_round x - low)\<bar> \<ge> \<bar>float64_round (float64_round y - high)\<bar>)"
  using assms by (cases a; cases b) auto

lemma threshold_pointwise:
  assumes "lt_cell a (Num limit) = Some c"
  shows "c = (\<exists>x. a = Num x \<and> x < limit)"
  using assms by (cases a) auto

lemma deviation_check_SomeD:
  assumes "deviation_check x_min low x_max high = Some check"
  shows "length x_min = length check \<and> length x_max = length check \<and>
         (\<forall>i<length check.
            check ! i = (\<exists>a b. x_min ! i = Num a \<and> x_max ! i = Num b \<and> \<bar>float64_round (float64_round a - low)\<bar> \<ge> \<bar>float64_round (float64_round b - high)\<bar>))"
proof -
  from assms obtain dl dl' dh dh' where
    a: "series_apply (sub_cell low) x_min = Some dl" "series_apply abs_cell dl = Some dl'"
       "series_apply (sub_cell high) x_max = Some dh" "series_apply abs_cell dh = Some dh'"
       "series_ge dl' dh' = Some check"
    by (auto simp: deviation_check_def series_sub_def series_abs_def bind_eq_Some_conv)
  from a(5) have len: "length dl' = length dh'" "length check = length dl'"
    and ge: "\<forall>i<length dl'. ge_cell (dl' ! i) (dh' ! i) = Some (check ! i)"
    by (auto simp: series_ge_def those_map_Some_iff split: if_splits)
  from a(1-4) have ls: "length dl = length x_min" "length dl' = length dl"
      "length dh = length x_max" "length dh' = length dh"
    and pt: "\<forall>i<length x_min. sub_cell low (x_min ! i) = Some (dl ! i)"
      "\<forall>i<length dl. abs_cell (dl ! i) = Some (dl' ! i)"
      "\<forall>i<length x_max. sub_cell high (x_max ! i) = Some (dh ! i)"
      "\<forall>i<length dh. abs_cell (dh ! i) = Some (dh' ! i)"
    by (simp_all add: series_apply_Some)
  have "check ! i = (\<exists>a b. x_min ! i = Num a \<and> x_max ! i = Num b \<and> \<bar>float64_round (float64_round a - low)\<bar> \<ge> \<bar>float64_round (float64_round b - high)\<bar>)"
    if "i < length check" for i
  proof -
    from that len ls have i: "i < length x_min" "i < length dl" "i < length x_max" "i < length dh" "i < length dl'"
      by simp_all
    from pt i ge have
      "sub_cell low (x_min ! i) = Some (dl ! i)" "abs_cell (dl ! i) = Some (dl' ! i)"
      "sub_cell high (x_max ! i) = Some (dh ! i)" "abs_cell (dh ! i) = Some (dh' ! i)"
      "ge_cell (dl' ! i) (dh' ! i) = Some (check ! i)" by simp_all
    then show ?thesis by (rule deviation_pointwise)
  qed
  then show ?thesis using len ls by simp
qed

lemma threshold_check_SomeD:
  assumes "threshold_check x_min limit = Some check"
  shows "length x_min = length check \<and>
         (\<forall>i<length check. check ! i = (\<exists>a. x_min ! i = Num a \<and> a < limit))"
proof -
  from assms have len: "length check = length x_min"
    and pt: "\<forall>i<length x_min. lt_cell (x_min ! i) (Num limit) = Some (check ! i)"
    by (simp_all add: threshold_check_def series_apply_Some)
  have "check ! i = (\<exists>a. x_min ! i = Num a \<and> a < limit)" if "i < length check" for i
  proof -
    from that len pt have "lt_cell (x_min ! i) (Num limit) = Some (check ! i)" by simp
    then show ?thesis by (rule threshold_pointwise)
  qed
  then show ?thesis using len by simp
qed

lemma df_drop_SomeD:
  assumes "df_drop df labels = Some df'"
  shows "index df' = index df \<and> getcol df' = (\<lambda>c. if c \<in> set labels then None else getcol df c)"
proof -
  from assms have eq: "df' = df\<lparr>columns := filter (\<lambda>c. fst c \<notin> set labels) (columns df)\<rparr>"
    by (simp add: df_drop_def split: if_splits)
  have "map_of (filter (\<lambda>c. fst c \<notin> set labels) xs) c = (if c \<in> set labels then None else map_of xs c)"
    for xs :: "(string \<times> series) list" and c
    by (induction xs) auto
  then show ?thesis using eq by (auto simp: getcol_def fun_eq_iff)
qed

lemma df_assign_SomeD:
  assumes "df_assign df name vals = Some df'"
  shows "index df' = index df \<and> length vals = length (index df) \<and>
         getcol df' = (\<lambda>c. if c = name then Some vals else getcol df c)"
  using assms by (auto simp: df_assign_def getcol_def fun_eq_iff update_conv' split: if_splits)

lemma replace_pair_SomeD:
  assumes "replace_pair u df check min_name max_name name = Some df'"
  shows "\<exists>x_min x_max x.
           getcol df min_name = Some x_min \<and> getcol df max_name = Some x_max \<and>
           length check = length (index df) \<and>
           length x_min = length (index df) \<and> length x_max = length (index df) \<and>
           length x = length (index df) \<and>
           (\<forall>i<length (index df). x ! i = (if check ! i then x_min ! i else x_max ! i)) \<and>
           index df' = index df \<and>
           getcol df' = (\<lambda>c. if c = min_name \<or> c = max_name then None
                              else if c = name then Some x else getcol df c)"
proof -
  from assms obtain x_min x_max x df1 where
    a: "getcol df min_name = Some x_min" "getcol df max_name = Some x_max"
       "most_abnormal u (length (index df)) check x_min x_max = Some x"
       "df_assign df name x = Some df1" "df_drop df1 [min_name, max_name] = Some df'"
    by (auto simp: replace_pair_def bind_eq_Some_conv)
  from most_abnormal_SomeD[OF a(3)] df_assign_SomeD[OF a(4)] df_drop_SomeD[OF a(5)] a(1,2)
  show ?thesis by (auto simp: fun_eq_iff)
qed


lemma bidirectional_SomeD:
  assumes "bidirectional u df min_name low max_name high name = Some df'"
  shows "\<exists>x_min x_max x.
           getcol df min_name = Some x_min \<and> getcol df max_name = Some x_max \<and>
           length x_min = length (index df) \<and> length x_max = length (index df) \<and>
           length x = length (index df) \<and>
           (\<forall>i<length (index df).
              x ! i = (if \<exists>a b. x_min ! i = Num a \<and> x_max ! i = Num b \<and> \<bar>float64_round (float64_round a - low)\<bar> \<ge> \<bar>float64_round (float64_round b - high)\<bar>
                       then x_min ! i else x_max ! i)) \<and>
           index df' = index df \<and>
           getcol df' = (\<lambda>c. if c = min_name \<or> c = max_name then None
                              else if c = name then Some x else getcol df c)"
proof -
  from assms obtain x_min x_max check where
    a: "getcol df min_name = Some x_min" "getcol df max_name = Some x_max"
       "deviation_check x_min low x_max high = Some check"
       "replace_pair u df check min_name max_name name = Some df'"
    by (auto simp: bidirectional_def bind_eq_Some_conv)
  from replace_pair_SomeD[OF a(4)] a(1,2) obtain x where
    b: "length check = length (index df)" "length x_min = length (index df)"
       "length x_max = length (index df)" "length x = length (index df)"
       "\<forall>i<length (index df). x ! i = (if check ! i then x_min ! i else x_max ! i)"
       "index df' = index df"
       "getcol df' = (\<lambda>c. if c = min_name \<or> c = max_name then None
                              else if c = name then Some x else getcol df c)"
    by auto
  from deviation_check_SomeD[OF a(3)] b(1)
  have c: "\<forall>i<length (index df).
            check ! i = (\<exists>a b. x_min ! i = Num a \<and> x_max ! i = Num b \<and> \<bar>float64_round (float64_round a - low)\<bar> \<ge> \<bar>float64_round (float64_round b - high)\<bar>)"
    by simp
  have "\<forall>i<length (index df).
              x ! i = (if \<exists>a b. x_min ! i = Num a \<and> x_max ! i = Num b \<and> \<bar>float64_round (float64_round a - low)\<bar> \<ge> \<bar>float64_round (float64_round b - high)\<bar>
                       then x_min ! i else x_max ! i)"
    using b(5) c by simp
  with a(1,2) b(2,3,4,6,7) show ?thesis by blast
qed

lemma select_abnormal_values_frames:
  assumes "select_abnormal_values u cohort = Some out"
  obtains d0 d1 d2 d3 d4 d5 wbc_min pmn_min lymphs_min wbc_check pmn_check lym_check where
    "df_drop cohort lab_drop = Some d0"
    "bidirectional u d0 ''sodium_min'' 135 ''sodium_max'' 145 ''sodium'' = Some d1"
    "bidirectional u d1 ''potassium_min'' 3.5 ''potassium_max'' 5.0 ''potassium'' = Some d2"
    "bidirectional u d2 ''glucose_min'' 70 ''glucose_max'' 130 ''glucose'' = Some d3"
    "getcol d3 ''wbc_min'' = Some wbc_min" "threshold_check wbc_min 2 = Some wbc_check"
    "getcol d3 ''pmn_min'' = Some pmn_min" "threshold_check pmn_min 45 = Some pmn_check"
    "getcol d3 ''lymphs_min'' = Some lymphs_min" "threshold_check lymphs_min 20 = Some lym_check"
    "replace_pair u d3 wbc_check ''wbc_min'' ''wbc_max'' ''wbc'' = Some d4"
    "replace_pair u d4 pmn_check ''pmn_min'' ''pmn_max'' ''pmn'' = Some d5"
    "replace_pair u d5 lym_check ''lymphs_min'' ''lymphs_max'' ''lym'' = Some out"
  using assms unfolding select_abnormal_values_def bind_eq_Some_conv by blast


lemma bidirectional_columns:
  assumes "select_abnormal_values u cohort = Some out"
    and "(min_name, low, max_name, high, name) \<in>
           {(''sodium_min'', 135, ''sodium_max'', 145, ''sodium''),
            (''potassium_min'', 3.5, ''potassium_max'', 5.0, ''potassium''),
            (''glucose_min'', 70, ''glucose_max'', 130, ''glucose'')}"
  shows "\<exists>x_min x_max x.
           getcol cohort min_name = Some x_min \<and> getcol cohort max_name = Some x_max \<and>
           getcol out name = Some x \<and> getcol out min_name = None \<and> getcol out max_name = None \<and>
           index out = index cohort \<and>
           length x_min = length (index cohort) \<and> length x_max = length (index cohort) \<and>
           length x = length (index cohort) \<and>
           (\<forall>i<length (index cohort).
              x ! i = (if \<exists>a b. x_min ! i = Num a \<and> x_max ! i = Num b \<and> \<bar>float64_round (float64_round a - low)\<bar> \<ge> \<bar>float64_round (float64_round b - high)\<bar>
                       then x_min ! i else x_max ! i))"
proof -
  from assms(1) obtain d0 d1 d2 d3 d4 d5 wbc_check pmn_check lym_check where
    f: "df_drop cohort lab_drop = Some d0"
    "bidirectional u d0 ''sodium_min'' 135 ''sodium_max'' 145 ''sodium'' = Some d1"
    "bidirectional u d1 ''potassium_min'' 3.5 ''potassium_max'' 5.0 ''potassium'' = Some d2"
    "bidirectional u d2 ''glucose_min'' 70 ''glucose_max'' 130 ''glucose'' = Some d3"
    "replace_pair u d3 wbc_check ''wbc_min'' ''wbc_max'' ''wbc'' = Some d4"
    "replace_pair u d4 pmn_check ''pmn_min'' ''pmn_max'' ''pmn'' = Some d5"
    "replace_pair u d5 lym_check ''lymphs_min'' ''lymphs_max'' ''lym'' = Some out"
    by (rule select_abnormal_values_frames)
  from df_drop_SomeD[OF f(1)] have
    g0: "index d0 = index cohort" "getcol d0 = (\<lambda>c. if c \<in> set lab_drop then None else getcol cohort c)"
    by simp_all
  from replace_pair_SomeD[OF f(5)] have
    g4: "getcol d4 ''sodium'' = getcol d3 ''sodium''" "getcol d4 ''potassium'' = getcol d3 ''potassium''"
        "getcol d4 ''glucose'' = getcol d3 ''glucose''"
        "getcol d4 ''sodium_min'' = getcol d3 ''sodium_min''" "getcol d4 ''sodium_max'' = getcol d3 ''sodium_max''"
        "getcol d4 ''potassium_min'' = getcol d3 ''potassium_min''" "getcol d4 ''potassium_max'' = getcol d3 ''potassium_max''"
        "getcol d4 ''glucose_min'' = getcol d3 ''glucose_min''" "getcol d4 ''glucose_max'' = getcol d3 ''glucose_max''"
    by auto
  from replace_pair_SomeD[OF f(6)] have
    g5: "getcol d5 ''sodium'' = getcol d4 ''sodium''" "getcol d5 ''potassium'' = getcol d4 ''potassium''"
        "getcol d5 ''glucose'' = getcol d4 ''glucose''"
        "getcol d5 ''sodium_min'' = getcol d4 ''sodium_min''" "getcol d5 ''sodium_max'' = getcol d4 ''sodium_max''"
        "getcol d5 ''potassium_min'' = getcol d4 ''potassium_min''" "getcol d5 ''potassium_max'' = getcol d4 ''potassium_max''"
        "getcol d5 ''glucose_min'' = getcol d4 ''glucose_min''" "getcol d5 ''glucose_max'' = getcol d4 ''glucose_max''"
    by auto
  from replace_pair_SomeD[OF f(7)] have
    g6: "getcol out ''sodium'' = getcol d5 ''sodium''" "getcol out ''potassium'' = getcol d5 ''potassium''"
        "getcol out ''glucose'' = getcol d5 ''glucose''"
        "getcol out ''sodium_min'' = getcol d5 ''sodium_min''" "getcol out ''sodium_max'' = getcol d5 ''sodium_max''"
        "getcol out ''potassium_min'' = getcol d5 ''potassium_min''" "getcol out ''potassium_max'' = getcol d5 ''potassium_max''"
        "getcol out ''glucose_min'' = getcol d5 ''glucose_min''" "getcol out ''glucose_max'' = getcol d5 ''glucose_max''"
    by auto
  note later = g4 g5 g6
  from replace_pair_SomeD[OF f(5)] replace_pair_SomeD[OF f(6)] replace_pair_SomeD[OF f(7)]
  have io: "index out = index d3" by auto
  from bidirectional_SomeD[OF f(2)] obtain na_min na_max na where
    s: "getcol d0 ''sodium_min'' = Some na_min" "getcol d0 ''sodium_max'' = Some na_max"
       "length na_min = length (index d0)" "length na_max = length (index d0)" "length na = length (index d0)"
       "\<forall>i<length (index d0). na ! i =
          (if \<exists>a b. na_min ! i = Num a \<and> na_max ! i = Num b \<and> \<bar>float64_round (float64_round a - 135)\<bar> \<ge> \<bar>float64_round (float64_round b - 145)\<bar>
           then na_min ! i else na_max ! i)"
       "index d1 = index d0"
       "getcol d1 = (\<lambda>c. if c = ''sodium_min'' \<or> c = ''sodium_max'' then None
                          else if c = ''sodium'' then Some na else getcol d0 c)"
    by blast
  from bidirectional_SomeD[OF f(3)] obtain k_min k_max k where
    p: "getcol d1 ''potassium_min'' = Some k_min" "getcol d1 ''potassium_max'' = Some k_max"
       "length k_min = length (index d1)" "length k_max = length (index d1)" "length k = length (index d1)"
       "\<forall>i<length (index d1). k ! i =
          (if \<exists>a b. k_min ! i = Num a \<and> k_max ! i = Num b \<and> \<bar>float64_round (float64_round a - 3.5)\<bar> \<ge> \<bar>float64_round (float64_round b - 5.0)\<bar>
           then k_min ! i else k_max ! i)"
       "index d2 = index d1"
       "getcol d2 = (\<lambda>c. if c = ''potassium_min'' \<or> c = ''potassium_max'' then None
                          else if c = ''potassium'' then Some k else getcol d1 c)"
    by blast
  from bidirectional_SomeD[OF f(4)] obtain g_min g_max g where
    q: "getcol d2 ''glucose_min'' = Some g_min" "getcol d2 ''glucose_max'' = Some g_max"
       "length g_min = length (index d2)" "length g_max = length (index d2)" "length g = length (index d2)"
       "\<forall>i<length (index d2). g ! i =
          (if \<exists>a b. g_min ! i = Num a \<and> g_max ! i = Num b \<and> \<bar>float64_round (float64_round a - 70)\<bar> \<ge> \<bar>float64_round (float64_round b - 130)\<bar>
           then g_min ! i else g_max ! i)"
       "index d3 = index d2"
       "getcol d3 = (\<lambda>c. if c = ''glucose_min'' \<or> c = ''glucose_max'' then None
                          else if c = ''glucose'' then Some g else getcol d2 c)"
    by blast
  from assms(2) consider
    (sodium) "min_name = ''sodium_min''" "low = 135" "max_name = ''sodium_max''" "high = 145" "name = ''sodium''"
  | (potassium) "min_name = ''potassium_min''" "low = 3.5" "max_name = ''potassium_max''" "high = 5.0" "name = ''potassium''"
  | (glucose) "min_name = ''glucose_min''" "low = 70" "max_name = ''glucose_max''" "high = 130" "name = ''glucose''"
    by auto
  then show ?thesis
  proof cases
    case sodium
    have "getcol cohort ''sodium_min'' = Some na_min" "getcol cohort ''sodium_max'' = Some na_max"
      using s(1,2) by (simp_all add: g0 lab_drop_def)
    moreover have "getcol out ''sodium'' = Some na" "getcol out ''sodium_min'' = None" "getcol out ''sodium_max'' = None"
      by (simp_all add: later q(8) p(8) s(8))
    ultimately show ?thesis using s(3-7) p(7) q(7) io g0(1) unfolding sodium by simp
  next
    case potassium
    have "getcol cohort ''potassium_min'' = Some k_min" "getcol cohort ''potassium_max'' = Some k_max"
      using p(1,2) by (simp_all add: s(8) g0 lab_drop_def)
    moreover have "getcol out ''potassium'' = Some k" "getcol out ''potassium_min'' = None" "getcol out ''potassium_max'' = None"
      by (simp_all add: later q(8) p(8))
    ultimately show ?thesis using p(3-7) s(7) q(7) io g0(1) unfolding potassium by simp
  next
    case glucose
    have "getcol cohort ''glucose_min'' = Some g_min" "getcol cohort ''glucose_max'' = Some g_max"
      using q(1,2) by (simp_all add: p(8) s(8) g0 lab_drop_def)
    moreover have "getcol out ''glucose'' = Some g" "getcol out ''glucose_min'' = None" "getcol out ''glucose_max'' = None"
      by (simp_all add: later q(8))
    ultimately show ?thesis using q(3-7) p(7) s(7) io g0(1) unfolding glucose by simp
  qed
qed

lemma threshold_columns:
  assumes "select_abnormal_values u cohort = Some out"
    and "(min_name, limit, max_name, name) \<in>
           {(''wbc_min'', 2, ''wbc_max'', ''wbc''),
            (''pmn_min'', 45, ''pmn_max'', ''pmn''),
            (''lymphs_min'', 20, ''lymphs_max'', ''lym'')}"
  shows "\<exists>x_min x_max x.
           getcol cohort min_name = Some x_min \<and> getcol cohort max_name = Some x_max \<and>
           getcol out name = Some x \<and> getcol out min_name = None \<and> getcol out max_name = None \<and>
           index out = index cohort \<and>
           length x_min = length (index cohort) \<and> length x_max = length (index cohort) \<and>
           length x = length (index cohort) \<and>
           (\<forall>i<length (index cohort).
              x ! i = (if \<exists>a. x_min ! i = Num a \<and> a < limit then x_min ! i else x_max ! i))"
proof -
  from assms(1) obtain d0 d1 d2 d3 d4 d5 wbc_min pmn_min lymphs_min wbc_check pmn_check lym_check where
    f: "df_drop cohort lab_drop = Some d0"
    "bidirectional u d0 ''sodium_min'' 135 ''sodium_max'' 145 ''sodium'' = Some d1"
    "bidirectional u d1 ''potassium_min'' 3.5 ''potassium_max'' 5.0 ''potassium'' = Some d2"
    "bidirectional u d2 ''glucose_min'' 70 ''glucose_max'' 130 ''glucose'' = Some d3"
    "getcol d3 ''wbc_min'' = Some wbc_min" "threshold_check wbc_min 2 = Some wbc_check"
    "getcol d3 ''pmn_min'' = Some pmn_min" "threshold_check pmn_min 45 = Some pmn_check"
    "getcol d3 ''lymphs_min'' = Some lymphs_min" "threshold_check lymphs_min 20 = Some lym_check"
    "replace_pair u d3 wbc_check ''wbc_min'' ''wbc_max'' ''wbc'' = Some d4"
    "replace_pair u d4 pmn_check ''pmn_min'' ''pmn_max'' ''pmn'' = Some d5"
    "replace_pair u d5 lym_check ''lymphs_min'' ''lymphs_max'' ''lym'' = Some out"
    by (rule select_abnormal_values_frames)
  from df_drop_SomeD[OF f(1)] have
    g0: "index d0 = index cohort" "getcol d0 = (\<lambda>c. if c \<in> set lab_drop then None else getcol cohort c)"
    by simp_all
  from bidirectional_SomeD[OF f(2)] obtain na where
    g1: "index d1 = index d0"
        "getcol d1 = (\<lambda>c. if c = ''sodium_min'' \<or> c = ''sodium_max'' then None
                          else if c = ''sodium'' then Some na else getcol d0 c)"
    by blast
  from bidirectional_SomeD[OF f(3)] obtain k where
    g2: "index d2 = index d1"
        "getcol d2 = (\<lambda>c. if c = ''potassium_min'' \<or> c = ''potassium_max'' then None
                          else if c = ''potassium'' then Some k else getcol d1 c)"
    by blast
  from bidirectional_SomeD[OF f(4)] obtain g where
    g3: "index d3 = index d2"
        "getcol d3 = (\<lambda>c. if c = ''glucose_min'' \<or> c = ''glucose_max'' then None
                          else if c = ''glucose'' then Some g else getcol d2 c)"
    by blast
  have early:
    "getcol d3 ''wbc_min'' = getcol cohort ''wbc_min''" "getcol d3 ''wbc_max'' = getcol cohort ''wbc_max''"
    "getcol d3 ''pmn_min'' = getcol cohort ''pmn_min''" "getcol d3 ''pmn_max'' = getcol cohort ''pmn_max''"
    "getcol d3 ''lymphs_min'' = getcol cohort ''lymphs_min''" "getcol d3 ''lymphs_max'' = getcol cohort ''lymphs_max''"
    by (simp_all add: g3(2) g2(2) g1(2) g0(2) lab_drop_def)
  have idx: "index d3 = index cohort" by (simp add: g3 g2 g1 g0)
  from replace_pair_SomeD[OF f(11)] f(5) obtain w_max w where
    w: "getcol d3 ''wbc_max'' = Some w_max"
       "length wbc_min = length (index d3)" "length w_max = length (index d3)" "length w = length (index d3)"
       "\<forall>i<length (index d3). w ! i = (if wbc_check ! i then wbc_min ! i else w_max ! i)"
       "length wbc_check = length (index d3)"
       "index d4 = index d3"
       "getcol d4 = (\<lambda>c. if c = ''wbc_min'' \<or> c = ''wbc_max'' then None
                          else if c = ''wbc'' then Some w else getcol d3 c)"
    by auto
  from f(7,9) have f4: "getcol d4 ''pmn_min'' = Some pmn_min" by (simp add: w(8))
  from replace_pair_SomeD[OF f(12)] f4 obtain p_max p where
    p: "getcol d4 ''pmn_max'' = Some p_max"
       "length pmn_min = length (index d4)" "length p_max = length (index d4)" "length p = length (index d4)"
       "\<forall>i<length (index d4). p ! i = (if pmn_check ! i then pmn_min ! i else p_max ! i)"
       "length pmn_check = length (index d4)"
       "index d5 = index d4"
       "getcol d5 = (\<lambda>c. if c = ''pmn_min'' \<or> c = ''pmn_max'' then None
                          else if c = ''pmn'' then Some p else getcol d4 c)"
    by auto
  from f(9) have f5: "getcol d5 ''lymphs_min'' = Some lymphs_min" by (simp add: p(8) w(8))
  from replace_pair_SomeD[OF f(13)] f5 obtain l_max l where
    l: "getcol d5 ''lymphs_max'' = Some l_max"
       "length lymphs_min = length (index d5)" "length l_max = length (index d5)" "length l = length (index d5)"
       "\<forall>i<length (index d5). l ! i = (if lym_check ! i then lymphs_min ! i else l_max ! i)"
       "length lym_check = length (index d5)"
       "index out = index d5"
       "getcol out = (\<lambda>c. if c = ''lymphs_min'' \<or> c = ''lymphs_max'' then None
                          else if c = ''lym'' then Some l else getcol d5 c)"
    by auto
  from assms(2) consider
    (wbc) "min_name = ''wbc_min''" "limit = 2" "max_name = ''wbc_max''" "name = ''wbc''"
  | (pmn) "min_name = ''pmn_min''" "limit = 45" "max_name = ''pmn_max''" "name = ''pmn''"
  | (lym) "min_name = ''lymphs_min''" "limit = 20" "max_name = ''lymphs_max''" "name = ''lym''"
    by auto
  then show ?thesis
  proof cases
    case wbc
    have "getcol cohort ''wbc_min'' = Some wbc_min" "getcol cohort ''wbc_max'' = Some w_max"
      using f(5) w(1) early by simp_all
    moreover have "getcol out ''wbc'' = Some w" "getcol out ''wbc_min'' = None" "getcol out ''wbc_max'' = None"
      by (simp_all add: l(8) p(8) w(8))
    moreover have "\<forall>i<length (index cohort). w ! i = (if \<exists>a. wbc_min ! i = Num a \<and> a < 2 then wbc_min ! i else w_max ! i)"
      using threshold_check_SomeD[OF f(6)] w(5,6) idx by simp
    ultimately show ?thesis using w(2-4,7) p(7) l(7) idx unfolding wbc by simp
  next
    case pmn
    have "getcol cohort ''pmn_min'' = Some pmn_min" "getcol cohort ''pmn_max'' = Some p_max"
      using f(7) p(1) early by (simp_all add: w(8))
    moreover have "getcol out ''pmn'' = Some p" "getcol out ''pmn_min'' = None" "getcol out ''pmn_max'' = None"
      by (simp_all add: l(8) p(8))
    moreover have "\<forall>i<length (index cohort). p ! i = (if \<exists>a. pmn_min ! i = Num a \<and> a < 45 then pmn_min ! i else p_max ! i)"
      using threshold_check_SomeD[OF f(8)] p(5,6) w(7) idx by simp
    ultimately show ?thesis using p(2-4,7) w(7) l(7) idx unfolding pmn by simp
  next
    case lym
    have "getcol cohort ''lymphs_min'' = Some lymphs_min" "getcol cohort ''lymphs_max'' = Some l_max"
      using f(9) l(1) early by (simp_all add: p(8) w(8))
    moreover have "getcol out ''lym'' = Some l" "getcol out ''lymphs_min'' = None" "getcol out ''lymphs_max'' = None"
      by (simp_all add: l(8))
    moreover have "\<forall>i<length (index cohort). l ! i = (if \<exists>a. lymphs_min ! i = Num a \<and> a < 20 then lymphs_min ! i else l_max ! i)"
      using threshold_check_SomeD[OF f(10)] l(5,6) p(7) w(7) idx by simp
    ultimately show ?thesis using l(2-4,7) p(7) w(7) idx unfolding lym by simp
  qed
qed

lemma those_map_total:
  assumes "\<forall>x\<in>set xs. f x \<noteq> None"
  shows "those (map f xs) = Some (map (\<lambda>x. the (f x)) xs)"
  using assms by (induction xs) auto

lemma series_apply_total:
  assumes "\<forall>c\<in>set s. f c \<noteq> None"
  shows "series_apply f s = Some (map (\<lambda>c. the (f c)) s)"
  using assms by (simp add: series_apply_def those_map_total)

lemma sub_cell_float64: "\<not> is_Str x \<Longrightarrow> \<exists>y. sub_cell c x = Some y \<and> \<not> is_Str y"
  by (cases x) auto

lemma abs_cell_float64: "\<not> is_Str x \<Longrightarrow> \<exists>y. abs_cell x = Some y \<and> \<not> is_Str y"
  by (cases x) auto

lemma ge_cell_float64: "\<not> is_Str x \<Longrightarrow> \<not> is_Str y \<Longrightarrow> \<exists>b. ge_cell x y = Some b"
  by (cases x; cases y) auto

lemma lt_cell_float64: "\<not> is_Str x \<Longrightarrow> \<exists>b. lt_cell x (Num limit) = Some b"
  by (cases x) auto

lemma series_apply_float64:
  assumes "float64 s" and "\<And>x. \<not> is_Str x \<Longrightarrow> \<exists>y. f x = Some y \<and> \<not> is_Str y"
  shows "\<exists>r. series_apply f s = Some r \<and> float64 r \<and> length r = length s"
proof -
  have a: "\<forall>x\<in>set s. f x \<noteq> None"
    using assms by (fastforce simp: float64_def list_all_iff)
  have "float64 (map (\<lambda>x. the (f x)) s)"
    using assms by (fastforce simp: float64_def list_all_iff)
  with series_apply_total[OF a] show ?thesis by simp
qed

lemma deviation_check_Some:
  assumes "float64 x_min" "float64 x_max" "length x_min = length x_max"
  shows "\<exists>check. deviation_check x_min low x_max high = Some check"
proof -
  from series_apply_float64[where f="sub_cell low", OF assms(1) sub_cell_float64] obtain dl where
    dl: "series_sub x_min low = Some dl" "float64 dl" "length dl = length x_min"
    by (auto simp: series_sub_def)
  from series_apply_float64[where f=abs_cell, OF dl(2) abs_cell_float64] obtain dl' where
    dl': "series_abs dl = Some dl'" "float64 dl'" "length dl' = length dl"
    by (auto simp: series_abs_def)
  from series_apply_float64[where f="sub_cell high", OF assms(2) sub_cell_float64] obtain dh where
    dh: "series_sub x_max high = Some dh" "float64 dh" "length dh = length x_max"
    by (auto simp: series_sub_def)
  from series_apply_float64[where f=abs_cell, OF dh(2) abs_cell_float64] obtain dh' where
    dh': "series_abs dh = Some dh'" "float64 dh'" "length dh' = length dh"
    by (auto simp: series_abs_def)
  have "\<forall>p\<in>set (zip dl' dh'). ge_cell (fst p) (snd p) \<noteq> None"
  proof
    fix p assume "p \<in> set (zip dl' dh')"
    then have "fst p \<in> set dl'" "snd p \<in> set dh'"
      by (metis prod.collapse set_zip_leftD, metis prod.collapse set_zip_rightD)
    with dl'(2) dh'(2) have "\<not> is_Str (fst p)" "\<not> is_Str (snd p)"
      by (auto simp: float64_def list_all_iff)
    with ge_cell_float64 show "ge_cell (fst p) (snd p) \<noteq> None" by fastforce
  qed
  then have "those (map (\<lambda>p. ge_cell (fst p) (snd p)) (zip dl' dh')) =
             Some (map (\<lambda>p. the (ge_cell (fst p) (snd p))) (zip dl' dh'))"
    by (rule those_map_total)
  then have "\<exists>check. series_ge dl' dh' = Some check"
    using dl dl' dh dh' assms(3) by (simp add: series_ge_def)
  then show ?thesis using dl(1) dl'(1) dh(1) dh'(1) by (auto simp: deviation_check_def)
qed

lemma threshold_check_Some:
  assumes "float64 x_min"
  shows "\<exists>check. threshold_check x_min limit = Some check \<and> length check = length x_min"
proof -
  have "\<forall>x\<in>set x_min. lt_cell x (Num limit) \<noteq> None"
    using assms lt_cell_float64 by (fastforce simp: float64_def list_all_iff)
  from series_apply_total[OF this] show ?thesis by (simp add: threshold_check_def)
qed

lemma lab_column_cong:
  "index df' = index df \<Longrightarrow> getcol df' c = getcol df c \<Longrightarrow> lab_column df' c = lab_column df c"
  by (simp add: lab_column_def split: option.splits)

lemma lab_columnD:
  assumes "lab_column df c"
  obtains s where "getcol df c = Some s" "length s = length (index df)" "float64 s"
  using assms by (auto simp: lab_column_def split: option.splits)

lemma replace_pair_Some:
  assumes "lab_column df min_name" "lab_column df max_name" "length check = length (index df)"
  shows "\<exists>df'. replace_pair u df check min_name max_name name = Some df'"
proof -
  from assms(1) obtain x_min where
    lo: "getcol df min_name = Some x_min" "length x_min = length (index df)" "float64 x_min"
    by (rule lab_columnD)
  from assms(2) obtain x_max where
    hi: "getcol df max_name = Some x_max" "length x_max = length (index df)" "float64 x_max"
    by (rule lab_columnD)
  have "\<forall>i<length (index df). \<not> is_Str (if check ! i then x_min ! i else x_max ! i)"
    using lo(2,3) hi(2,3) by (auto simp: float64_def list_all_length)
  from most_abnormal_Some[OF assms(3) lo(2) hi(2) this] obtain x where
    x: "most_abnormal u (length (index df)) check x_min x_max = Some x" by blast
  from most_abnormal_SomeD[OF x] have lx: "length x = length (index df)" by simp
  define df1 where "df1 = df\<lparr>columns := AList.update name x (columns df)\<rparr>"
  have a: "df_assign df name x = Some df1" using lx by (simp add: df_assign_def df1_def)
  have "min_name \<in> fst ` set (columns df)" "max_name \<in> fst ` set (columns df)"
    using lo(1) hi(1) by (auto simp: getcol_def dest!: map_of_SomeD intro: rev_image_eqI)
  then have "min_name \<in> set (map fst (columns df1))" "max_name \<in> set (map fst (columns df1))"
    by (simp_all add: df1_def dom_update)
  then have "\<exists>df'. df_drop df1 [min_name, max_name] = Some df'"
    by (simp add: df_drop_def)
  with lo(1) hi(1) x a show ?thesis by (auto simp: replace_pair_def)
qed

lemma replace_pair_lab_column:
  assumes "replace_pair u df check min_name max_name name = Some df'"
    and "c \<noteq> min_name" "c \<noteq> max_name" "c \<noteq> name"
  shows "lab_column df' c = lab_column df c"
  using replace_pair_SomeD[OF assms(1)] assms(2-) by (auto intro!: lab_column_cong)

lemma bidirectional_Some:
  assumes "lab_column df min_name" "lab_column df max_name"
  shows "\<exists>df'. bidirectional u df min_name low max_name high name = Some df'"
proof -
  from assms(1) obtain x_min where
    lo: "getcol df min_name = Some x_min" "length x_min = length (index df)" "float64 x_min"
    by (rule lab_columnD)
  from assms(2) obtain x_max where
    hi: "getcol df max_name = Some x_max" "length x_max = length (index df)" "float64 x_max"
    by (rule lab_columnD)
  from deviation_check_Some[OF lo(3) hi(3), of low high] lo(2) hi(2) obtain check where
    c: "deviation_check x_min low x_max high = Some check" by auto
  from deviation_check_SomeD[OF c] lo(2) have "length check = length (index df)" by simp
  from replace_pair_Some[OF assms this] lo(1) hi(1) c show ?thesis
    by (auto simp: bidirectional_def)
qed

lemma bidirectional_lab_column:
  assumes "bidirectional u df min_name low max_name high name = Some df'"
    and "c \<noteq> min_name" "c \<noteq> max_name" "c \<noteq> name"
  shows "lab_column df' c = lab_column df c"
  using bidirectional_SomeD[OF assms(1)] assms(2-) by (auto intro!: lab_column_cong)

lemma df_drop_lab_column:
  assumes "df_drop df labels = Some df'" and "c \<notin> set labels"
  shows "lab_column df' c = lab_column df c"
  using df_drop_SomeD[OF assms(1)] assms(2) by (auto intro!: lab_column_cong)

lemma select_abnormal_values_Some:
  assumes "list_all (\<lambda>l. l \<in> set (map fst (columns cohort))) lab_drop"
    and "list_all (lab_column cohort)
           [''sodium_min'', ''sodium_max'', ''potassium_min'', ''potassium_max'',
            ''glucose_min'', ''glucose_max'', ''wbc_min'', ''wbc_max'',
            ''pmn_min'', ''pmn_max'', ''lymphs_min'', ''lymphs_max'']"
  shows "\<exists>out. select_abnormal_values u cohort = Some out"
proof -
  from assms(1) obtain d0 where f0: "df_drop cohort lab_drop = Some d0"
    by (simp add: df_drop_def)
  note k0 = df_drop_lab_column[OF f0]
  have l0: "lab_column d0 ''sodium_min''" "lab_column d0 ''sodium_max''"
    "lab_column d0 ''potassium_min''" "lab_column d0 ''potassium_max''"
    "lab_column d0 ''glucose_min''" "lab_column d0 ''glucose_max''"
    "lab_column d0 ''wbc_min''" "lab_column d0 ''wbc_max''"
    "lab_column d0 ''pmn_min''" "lab_column d0 ''pmn_max''"
    "lab_column d0 ''lymphs_min''" "lab_column d0 ''lymphs_max''"
    using assms(2) by (simp_all add: k0 lab_drop_def)
  from bidirectional_Some[OF l0(1,2)] obtain d1 where
    f1: "bidirectional u d0 ''sodium_min'' 135 ''sodium_max'' 145 ''sodium'' = Some d1" by blast
  note k1 = bidirectional_lab_column[OF f1]
  have l1: "lab_column d1 ''potassium_min''" "lab_column d1 ''potassium_max''"
    "lab_column d1 ''glucose_min''" "lab_column d1 ''glucose_max''"
    "lab_column d1 ''wbc_min''" "lab_column d1 ''wbc_max''"
    "lab_column d1 ''pmn_min''" "lab_column d1 ''pmn_max''"
    "lab_column d1 ''lymphs_min''" "lab_column d1 ''lymphs_max''"
    using l0 by (simp_all add: k1)
  from bidirectional_Some[OF l1(1,2)] obtain d2 where
    f2: "bidirectional u d1 ''potassium_min'' 3.5 ''potassium_max'' 5.0 ''potassium'' = Some d2" by blast
  note k2 = bidirectional_lab_column[OF f2]
  have l2: "lab_column d2 ''glucose_min''" "lab_column d2 ''glucose_max''"
    "lab_column d2 ''wbc_min''" "lab_column d2 ''wbc_max''"
    "lab_column d2 ''pmn_min''" "lab_column d2 ''pmn_max''"
    "lab_column d2 ''lymphs_min''" "lab_column d2 ''lymphs_max''"
    using l1 by (simp_all add: k2)
  from bidirectional_Some[OF l2(1,2)] obtain d3 where
    f3: "bidirectional u d2 ''glucose_min'' 70 ''glucose_max'' 130 ''glucose'' = Some d3" by blast
  note k3 = bidirectional_lab_column[OF f3]
  have l3: "lab_column d3 ''wbc_min''" "lab_column d3 ''wbc_max''"
    "lab_column d3 ''pmn_min''" "lab_column d3 ''pmn_max''"
    "lab_column d3 ''lymphs_min''" "lab_column d3 ''lymphs_max''"
    using l2 by (simp_all add: k3)
  from l3(1) obtain wbc_min where
    w: "getcol d3 ''wbc_min'' = Some wbc_min" "length wbc_min = length (index d3)" "float64 wbc_min"
    by (rule lab_columnD)
  from l3(3) obtain pmn_min where
    p: "getcol d3 ''pmn_min'' = Some pmn_min" "length pmn_min = length (index d3)" "float64 pmn_min"
    by (rule lab_columnD)
  from l3(5) obtain lymphs_min where
    l: "getcol d3 ''lymphs_min'' = Some lymphs_min" "length lymphs_min = length (index d3)" "float64 lymphs_min"
    by (rule lab_columnD)
  from threshold_check_Some[OF w(3)] w(2) obtain wbc_check where
    wc: "threshold_check wbc_min 2 = Some wbc_check" "length wbc_check = length (index d3)" by force
  from threshold_check_Some[OF p(3)] p(2) obtain pmn_check where
    pc: "threshold_check pmn_min 45 = Some pmn_check" "length pmn_check = length (index d3)" by force
  from threshold_check_Some[OF l(3)] l(2) obtain lym_check where
    lc: "threshold_check lymphs_min 20 = Some lym_check" "length lym_check = length (index d3)" by force
  from replace_pair_Some[OF l3(1,2) wc(2)] obtain d4 where
    f4: "replace_pair u d3 wbc_check ''wbc_min'' ''wbc_max'' ''wbc'' = Some d4" by blast
  note k4 = replace_pair_lab_column[OF f4]
  from replace_pair_SomeD[OF f4] have i4: "index d4 = index d3" by blast
  have l4: "lab_column d4 ''pmn_min''" "lab_column d4 ''pmn_max''"
    "lab_column d4 ''lymphs_min''" "lab_column d4 ''lymphs_max''"
    using l3 by (simp_all add: k4)
  from replace_pair_Some[OF l4(1,2)] pc(2) i4 obtain d5 where
    f5: "replace_pair u d4 pmn_check ''pmn_min'' ''pmn_max'' ''pmn'' = Some d5" by force
  note k5 = replace_pair_lab_column[OF f5]
  from replace_pair_SomeD[OF f5] have i5: "index d5 = index d4" by blast
  have l5: "lab_column d5 ''lymphs_min''" "lab_column d5 ''lymphs_max''"
    using l4 by (simp_all add: k5)
  from replace_pair_Some[OF l5(1,2)] lc(2) i4 i5 obtain out where
    f6: "replace_pair u d5 lym_check ''lymphs_min'' ''lymphs_max'' ''lym'' = Some out" by force
  show ?thesis
    unfolding select_abnormal_values_def f0 f1 f2 f3 w(1) p(1) l(1) wc(1) pc(1) lc(1) f4 f5 f6
      Option.bind.simps
    by simp
qed

subsection \<open>The worked frame\<close>

lemma tiny_labs_runs: "\<exists>out. select_abnormal_values (\<lambda>_. Num 0) tiny_labs = Some out"
proof -
  have "\<not> Option.is_none (select_abnormal_values (\<lambda>_. Num 0) tiny_labs)" by code_simp
  then show ?thesis by (simp add: Option.is_none_def)
qed

lemma tiny_labs_columns:
  "getcol tiny_labs ''sodium_min'' = Some [Num 130, Num 133, NaN, Num 120]"
  "getcol tiny_labs ''sodium_max'' = Some [Num 140, Num 150, NaN, NaN]"
  "getcol tiny_labs ''wbc_min'' = Some [Num 1.5, Num 5.0, NaN, NaN]"
  "getcol tiny_labs ''wbc_max'' = Some [Num 12, Num 9, NaN, Num 11]"
  "length (index tiny_labs) = 4"
  by (simp_all add: tiny_labs_def getcol_def lab_drop_def)

lemma tiny_labs_wellformed:
  "list_all (\<lambda>l. l \<in> set (map fst (columns tiny_labs))) lab_drop"
  "list_all (lab_column tiny_labs)
           [''sodium_min'', ''sodium_max'', ''potassium_min'', ''potassium_max'',
            ''glucose_min'', ''glucose_max'', ''wbc_min'', ''wbc_max'',
            ''pmn_min'', ''pmn_max'', ''lymphs_min'', ''lymphs_max'']"
  by code_simp+

lemma rounded_labs_runs: "\<exists>out. select_abnormal_values (\<lambda>_. Num 0) rounded_labs = Some out"
proof -
  have "\<not> Option.is_none (select_abnormal_values (\<lambda>_. Num 0) rounded_labs)" by code_simp
  then show ?thesis by (simp add: Option.is_none_def)
qed

lemma rounded_labs_columns:
  "getcol rounded_labs ''potassium_min'' = Some [Num (float64_round 1.3), Num (float64_round 3.9)]"
  "getcol rounded_labs ''potassium_max'' = Some [Num (float64_round 2.8), Num (float64_round 5.4)]"
  "length (index rounded_labs) = 2"
  by (simp_all add: rounded_labs_def getcol_def lab_drop_def)


subsection \<open>The pairs that deviate in both directions\<close>

text \<open>
  Claim C1, as the specification states it, compares the deviations
  \<open>\<bar>min - low\<bar>\<close> and \<open>\<bar>max - high\<bar>\<close> themselves.  Code cell 15 compares the float64
  results of the two subtractions.  Row 0 of the frame \<open>rounded_labs\<close> holds the
  potassium pair \<^verbatim>\<open>1.3\<close> and \<^verbatim>\<open>2.8\<close>: the deviation of the stored minimum from 3.5 is
  strictly smaller than the deviation of the stored maximum from 5.0, the two
  subtractions round to the same float64, and the cell selects the minimum where the
  claim selects the maximum.  Row 1 holds the pair \<^verbatim>\<open>3.9\<close> and \<^verbatim>\<open>5.4\<close>: the decimals
  deviate by 0.4 on both sides, a tie, and the cell selects the maximum.
\<close>

theorem rounded_deviations_select_other_end:
  "getcol rounded_labs ''potassium_min'' = Some [Num (float64_round 1.3), Num (float64_round 3.9)] \<and>
   getcol rounded_labs ''potassium_max'' = Some [Num (float64_round 2.8), Num (float64_round 5.4)] \<and>
   \<bar>float64_round 1.3 - 3.5\<bar> < \<bar>float64_round 2.8 - 5.0\<bar> \<and>
   float64_round 1.3 < float64_round 2.8 \<and>
   \<bar>3.9 - 3.5 :: real\<bar> = \<bar>5.4 - 5.0\<bar> \<and>
   float64_round 3.9 < float64_round 5.4 \<and>
   map_option (\<lambda>out. getcol out ''potassium'') (select_abnormal_values (\<lambda>_. Num 0) rounded_labs)
     = Some (Some [Num (float64_round 1.3), Num (float64_round 5.4)])"
  by code_simp

text \<open>
  Claim C1, amended.  Whenever code cell 15 runs through, each of the pairs sodium
  (135, 145), potassium (3.5, 5.0) and glucose (70, 130) is replaced by one column of
  the same rows.  In every row the new cell is the minimum of the pair when both ends
  are numbers and the float64 result of \<^verbatim>\<open>min - low\<close> is, in absolute value, at least
  the float64 result of \<^verbatim>\<open>max - high\<close> (so on a tie of the two computed deviations as
  well), and the maximum otherwise.  Neither source column is left in the frame.  The
  ends \<open>a\<close> and \<open>b\<close> are read as float64 values, \<open>float64_round a\<close> and
  \<open>float64_round b\<close>, which are \<open>a\<close> and \<open>b\<close> for the cells of a float column.
\<close>

theorem bidirectional_selection:
  assumes "select_abnormal_values u cohort = Some out"
    and "(min_name, low, max_name, high, name) \<in>
           {(''sodium_min'', 135::real, ''sodium_max'', 145::real, ''sodium''),
            (''potassium_min'', 3.5, ''potassium_max'', 5.0, ''potassium''),
            (''glucose_min'', 70, ''glucose_max'', 130, ''glucose'')}"
  shows "\<exists>x_min x_max x.
           getcol cohort min_name = Some x_min \<and> getcol cohort max_name = Some x_max \<and>
           getcol out name = Some x \<and> getcol out min_name = None \<and> getcol out max_name = None \<and>
           index out = index cohort \<and> length x = length (index cohort) \<and>
           (\<forall>i<length (index cohort).
              x ! i = (if \<exists>a b. x_min ! i = Num a \<and> x_max ! i = Num b \<and>
                            \<bar>float64_round (float64_round a - low)\<bar> \<ge> \<bar>float64_round (float64_round b - high)\<bar>
                       then x_min ! i else x_max ! i))"
  using bidirectional_columns[OF assms] by blast

text \<open>
  On the worked frames: sodium 130/140 deviates by 5 on both sides and the minimum 130
  is taken; sodium 133/150 deviates by 2 and 5 and the maximum 150 is taken; the
  potassium pair \<^verbatim>\<open>1.3\<close> and \<^verbatim>\<open>2.8\<close> has two computed deviations that are equal,
  and the minimum is taken.
\<close>

theorem bidirectional_selection_witness:
  "(\<exists>out. select_abnormal_values (\<lambda>_. Num 0) tiny_labs = Some out \<and>
     (\<exists>x. getcol out ''sodium'' = Some x \<and> getcol out ''sodium_min'' = None \<and>
          getcol out ''sodium_max'' = None \<and> x ! 0 = Num 130 \<and> x ! 1 = Num 150)) \<and>
   (\<exists>out. select_abnormal_values (\<lambda>_. Num 0) rounded_labs = Some out \<and>
     (\<exists>x. getcol out ''potassium'' = Some x \<and> getcol out ''potassium_min'' = None \<and>
          getcol out ''potassium_max'' = None \<and>
          float64_round (float64_round 1.3) = float64_round 1.3 \<and>
          float64_round (float64_round 2.8) = float64_round 2.8 \<and>
          \<bar>float64_round (float64_round 1.3 - 3.5)\<bar> = \<bar>float64_round (float64_round 2.8 - 5.0)\<bar> \<and>
          x ! 0 = Num (float64_round 1.3)))"
proof (rule conjI)
  from tiny_labs_runs obtain out where
    run: "select_abnormal_values (\<lambda>_. Num 0) tiny_labs = Some out" by blast
  have "(''sodium_min'', 135::real, ''sodium_max'', 145::real, ''sodium'') \<in>
           {(''sodium_min'', 135::real, ''sodium_max'', 145::real, ''sodium''),
            (''potassium_min'', 3.5, ''potassium_max'', 5.0, ''potassium''),
            (''glucose_min'', 70, ''glucose_max'', 130, ''glucose'')}" by simp
  from bidirectional_selection[OF run this] obtain x where
    x: "getcol out ''sodium'' = Some x" "getcol out ''sodium_min'' = None" "getcol out ''sodium_max'' = None"
    "\<forall>i<4. x ! i = (if \<exists>a b. [Num 130, Num 133, NaN, Num 120] ! i = Num a \<and>
                               [Num 140, Num 150, NaN, NaN] ! i = Num b \<and>
                               \<bar>float64_round (float64_round a - 135)\<bar> \<ge> \<bar>float64_round (float64_round b - 145)\<bar>
                       then [Num 130, Num 133, NaN, Num 120] ! i else [Num 140, Num 150, NaN, NaN] ! i)"
    by (auto simp: tiny_labs_columns)
  have r: "float64_round (- 5) = - 5" "float64_round (- 2) = - 2" "float64_round 5 = 5"
    "float64_round 130 = 130" "float64_round 133 = 133" "float64_round 140 = 140"
    "float64_round 150 = 150"
    by code_simp+
  from x(4) have "x ! 0 = Num 130" "x ! 1 = Num 150"
    by (auto dest: spec[of _ 0] spec[of _ 1] simp: r)
  with x(1-3) run show "\<exists>out. select_abnormal_values (\<lambda>_. Num 0) tiny_labs = Some out \<and>
     (\<exists>x. getcol out ''sodium'' = Some x \<and> getcol out ''sodium_min'' = None \<and>
          getcol out ''sodium_max'' = None \<and> x ! 0 = Num 130 \<and> x ! 1 = Num 150)" by simp
next
  from rounded_labs_runs obtain out where
    run: "select_abnormal_values (\<lambda>_. Num 0) rounded_labs = Some out" by blast
  have "(''potassium_min'', 3.5::real, ''potassium_max'', 5.0::real, ''potassium'') \<in>
           {(''sodium_min'', 135::real, ''sodium_max'', 145::real, ''sodium''),
            (''potassium_min'', 3.5, ''potassium_max'', 5.0, ''potassium''),
            (''glucose_min'', 70, ''glucose_max'', 130, ''glucose'')}" by simp
  from bidirectional_selection[OF run this] obtain x_min x_max x where
    h: "getcol rounded_labs ''potassium_min'' = Some x_min"
       "getcol rounded_labs ''potassium_max'' = Some x_max"
       "getcol out ''potassium'' = Some x" "getcol out ''potassium_min'' = None"
       "getcol out ''potassium_max'' = None"
       "\<forall>i<length (index rounded_labs).
          x ! i = (if \<exists>a b. x_min ! i = Num a \<and> x_max ! i = Num b \<and>
                        \<bar>float64_round (float64_round a - 3.5)\<bar> \<ge> \<bar>float64_round (float64_round b - 5.0)\<bar>
                   then x_min ! i else x_max ! i)"
    by blast
  from h(1,2) have "x_min = [Num (float64_round 1.3), Num (float64_round 3.9)]"
    "x_max = [Num (float64_round 2.8), Num (float64_round 5.4)]"
    by (simp_all add: rounded_labs_columns)
  then have v: "x_min ! 0 = Num (float64_round 1.3)" "x_max ! 0 = Num (float64_round 2.8)"
    by simp_all
  have i: "float64_round (float64_round 1.3) = float64_round 1.3"
    "float64_round (float64_round 2.8) = float64_round 2.8"
    by code_simp+
  have r: "\<bar>float64_round (float64_round 1.3 - 3.5)\<bar> = \<bar>float64_round (float64_round 2.8 - 5.0)\<bar>"
    by code_simp
  have c: "\<exists>a b. x_min ! 0 = Num a \<and> x_max ! 0 = Num b \<and>
                 \<bar>float64_round (float64_round a - 3.5)\<bar> \<ge> \<bar>float64_round (float64_round b - 5.0)\<bar>"
    unfolding v
    by (rule exI[of _ "float64_round 1.3"], rule exI[of _ "float64_round 2.8"]) (simp only: i r order_refl simp_thms)
  have "0 < length (index rounded_labs)" by (simp add: rounded_labs_columns)
  from h(6)[rule_format, OF this] c v have "x ! 0 = Num (float64_round 1.3)"
    by (simp only: if_True)
  with h(3-5) run i r show "\<exists>out. select_abnormal_values (\<lambda>_. Num 0) rounded_labs = Some out \<and>
     (\<exists>x. getcol out ''potassium'' = Some x \<and> getcol out ''potassium_min'' = None \<and>
          getcol out ''potassium_max'' = None \<and>
          float64_round (float64_round 1.3) = float64_round 1.3 \<and>
          float64_round (float64_round 2.8) = float64_round 2.8 \<and>
          \<bar>float64_round (float64_round 1.3 - 3.5)\<bar> = \<bar>float64_round (float64_round 2.8 - 5.0)\<bar> \<and>
          x ! 0 = Num (float64_round 1.3))" by (intro exI conjI)
qed

subsection \<open>The white cell counts\<close>

text \<open>
  Claim C2.  Whenever code cell 15 runs through, each of the pairs white cell count
  (limit 2), neutrophils (limit 45) and lymphocytes (limit 20) is replaced by one column
  of the same rows.  In every row the new cell is the minimum of the pair exactly when
  that minimum is a number strictly under the limit of its own analyte, and the
  maximum otherwise, whatever the maximum is.  The cell is a function of the two ends
  of its own pair only.  Neither source column is left in the frame.
\<close>

theorem threshold_selection:
  assumes "select_abnormal_values u cohort = Some out"
    and "(min_name, limit, max_name, name) \<in>
           {(''wbc_min'', 2::real, ''wbc_max'', ''wbc''),
            (''pmn_min'', 45, ''pmn_max'', ''pmn''),
            (''lymphs_min'', 20, ''lymphs_max'', ''lym'')}"
  shows "\<exists>x_min x_max x.
           getcol cohort min_name = Some x_min \<and> getcol cohort max_name = Some x_max \<and>
           getcol out name = Some x \<and> getcol out min_name = None \<and> getcol out max_name = None \<and>
           index out = index cohort \<and> length x = length (index cohort) \<and>
           (\<forall>i<length (index cohort).
              x ! i = (if \<exists>a. x_min ! i = Num a \<and> a < limit then x_min ! i else x_max ! i))"
  using threshold_columns[OF assms] by blast

text \<open>
  On the worked frame: a white cell minimum of 1.5 is under 2 and is taken; a minimum
  of 5.0 is not, and the maximum 9 is taken.
\<close>

theorem threshold_selection_witness:
  "\<exists>out. select_abnormal_values (\<lambda>_. Num 0) tiny_labs = Some out \<and>
     (\<exists>x. getcol out ''wbc'' = Some x \<and> getcol out ''wbc_min'' = None \<and>
          getcol out ''wbc_max'' = None \<and> x ! 0 = Num 1.5 \<and> x ! 1 = Num 9)"
proof -
  from tiny_labs_runs obtain out where
    run: "select_abnormal_values (\<lambda>_. Num 0) tiny_labs = Some out" by blast
  have "(''wbc_min'', 2::real, ''wbc_max'', ''wbc'') \<in>
           {(''wbc_min'', 2::real, ''wbc_max'', ''wbc''),
            (''pmn_min'', 45, ''pmn_max'', ''pmn''),
            (''lymphs_min'', 20, ''lymphs_max'', ''lym'')}" by simp
  from threshold_selection[OF run this] obtain x_min x_max x where
    h: "getcol tiny_labs ''wbc_min'' = Some x_min" "getcol tiny_labs ''wbc_max'' = Some x_max"
       "getcol out ''wbc'' = Some x" "getcol out ''wbc_min'' = None" "getcol out ''wbc_max'' = None"
       "\<forall>i<length (index tiny_labs).
          x ! i = (if \<exists>a. x_min ! i = Num a \<and> a < 2 then x_min ! i else x_max ! i)"
    by blast
  from h(1,2) have "x_min = [Num 1.5, Num 5.0, NaN, NaN]" "x_max = [Num 12, Num 9, NaN, Num 11]"
    by (simp_all add: tiny_labs_columns)
  then have v: "x_min ! 0 = Num 1.5" "x_max ! 1 = Num 9" "x_min ! 1 = Num 5.0"
    by simp_all
  have c: "\<exists>a. x_min ! 0 = Num a \<and> a < 2" "\<not> (\<exists>a. x_min ! 1 = Num a \<and> a < 2)"
    unfolding v by (rule exI[of _ "1.5"]) simp_all
  have "0 < length (index tiny_labs)" "1 < length (index tiny_labs)"
    by (simp_all add: tiny_labs_columns)
  from h(6)[rule_format, OF this(1)] h(6)[rule_format, OF this(2)] c v
  have "x ! 0 = Num 1.5" "x ! 1 = Num 9"
    by (simp_all only: if_True if_False)
  with h(3-5) run show ?thesis by simp
qed

subsection \<open>Pairs with a missing end\<close>

text \<open>
  Claim C10.  In a row where the maximum of a bidirectional pair is missing and the
  minimum is a number, the comparison of the deviations is false, the maximum is
  selected and the derived cell is missing.  In a row where the minimum of a
  threshold-gated pair is missing, the comparison with the limit is false and the
  derived cell is the maximum.
\<close>

theorem missing_operand_selects_maximum:
  assumes "select_abnormal_values u cohort = Some out" and "i < length (index cohort)"
  shows "((min_name, low, max_name, high, name) \<in>
             {(''sodium_min'', 135::real, ''sodium_max'', 145::real, ''sodium''),
              (''potassium_min'', 3.5, ''potassium_max'', 5.0, ''potassium''),
              (''glucose_min'', 70, ''glucose_max'', 130, ''glucose'')} \<and>
          getcol cohort min_name = Some x_min \<and> getcol cohort max_name = Some x_max \<and>
          x_min ! i = Num a \<and> x_max ! i = NaN
          \<longrightarrow> (\<exists>x. getcol out name = Some x \<and> x ! i = NaN)) \<and>
         ((min_name', limit, max_name', name') \<in>
             {(''wbc_min'', 2::real, ''wbc_max'', ''wbc''),
              (''pmn_min'', 45, ''pmn_max'', ''pmn''),
              (''lymphs_min'', 20, ''lymphs_max'', ''lym'')} \<and>
          getcol cohort min_name' = Some y_min \<and> getcol cohort max_name' = Some y_max \<and>
          y_min ! i = NaN
          \<longrightarrow> (\<exists>y. getcol out name' = Some y \<and> y ! i = y_max ! i))"
proof (intro conjI impI; elim conjE)
  assume m: "(min_name, low, max_name, high, name) \<in>
             {(''sodium_min'', 135::real, ''sodium_max'', 145::real, ''sodium''),
              (''potassium_min'', 3.5, ''potassium_max'', 5.0, ''potassium''),
              (''glucose_min'', 70, ''glucose_max'', 130, ''glucose'')}"
    and c: "getcol cohort min_name = Some x_min" "getcol cohort max_name = Some x_max"
      "x_min ! i = Num a" "x_max ! i = NaN"
  from bidirectional_columns[OF assms(1) m] c assms(2)
  show "\<exists>x. getcol out name = Some x \<and> x ! i = NaN" by auto
next
  assume m: "(min_name', limit, max_name', name') \<in>
             {(''wbc_min'', 2::real, ''wbc_max'', ''wbc''),
              (''pmn_min'', 45, ''pmn_max'', ''pmn''),
              (''lymphs_min'', 20, ''lymphs_max'', ''lym'')}"
    and c: "getcol cohort min_name' = Some y_min" "getcol cohort max_name' = Some y_max"
      "y_min ! i = NaN"
  from threshold_columns[OF assms(1) m] c assms(2)
  show "\<exists>y. getcol out name' = Some y \<and> y ! i = y_max ! i" by auto
qed

text \<open>
  Row 3 of the worked frame: sodium 120 with no maximum gives a missing sodium; no
  white cell minimum and a maximum of 11 gives 11.
\<close>

theorem missing_operand_selects_maximum_witness:
  "\<exists>out. select_abnormal_values (\<lambda>_. Num 0) tiny_labs = Some out \<and> 3 < length (index tiny_labs) \<and>
     (\<exists>x. getcol out ''sodium'' = Some x \<and> x ! 3 = NaN) \<and>
     (\<exists>y. getcol out ''wbc'' = Some y \<and> y ! 3 = Num 11)"
proof -
  from tiny_labs_runs obtain out where
    run: "select_abnormal_values (\<lambda>_. Num 0) tiny_labs = Some out" by blast
  have i: "3 < length (index tiny_labs)" by (simp add: tiny_labs_columns)
  from missing_operand_selects_maximum[OF run i,
      of "''sodium_min''" 135 "''sodium_max''" 145 "''sodium''"
         "[Num 130, Num 133, NaN, Num 120]" "[Num 140, Num 150, NaN, NaN]" 120
         "''wbc_min''" 2 "''wbc_max''" "''wbc''"
         "[Num 1.5, Num 5.0, NaN, NaN]" "[Num 12, Num 9, NaN, Num 11]"]
  show ?thesis using run i by (simp add: tiny_labs_columns)
qed

text \<open>
  Claim C9.  On a frame that has the columns code cell 15 names, the twelve columns of
  the six pairs being float64 columns, the cell runs through without raising, and in
  every row where both ends of a pair are missing the derived cell of that pair is
  missing.  This holds for the bidirectional and for the threshold-gated pairs.
\<close>

theorem both_ends_missing:
  assumes "list_all (\<lambda>l. l \<in> set (map fst (columns cohort))) lab_drop"
    and "list_all (lab_column cohort)
           [''sodium_min'', ''sodium_max'', ''potassium_min'', ''potassium_max'',
            ''glucose_min'', ''glucose_max'', ''wbc_min'', ''wbc_max'',
            ''pmn_min'', ''pmn_max'', ''lymphs_min'', ''lymphs_max'']"
  shows "\<exists>out. select_abnormal_values u cohort = Some out \<and>
           (\<forall>min_name max_name name x_min x_max i.
              (min_name, max_name, name) \<in>
                 {(''sodium_min'', ''sodium_max'', ''sodium''),
                  (''potassium_min'', ''potassium_max'', ''potassium''),
                  (''glucose_min'', ''glucose_max'', ''glucose''),
                  (''wbc_min'', ''wbc_max'', ''wbc''),
                  (''pmn_min'', ''pmn_max'', ''pmn''),
                  (''lymphs_min'', ''lymphs_max'', ''lym'')} \<and>
              getcol cohort min_name = Some x_min \<and> getcol cohort max_name = Some x_max \<and>
              i < length (index cohort) \<and> x_min ! i = NaN \<and> x_max ! i = NaN
              \<longrightarrow> (\<exists>x. getcol out name = Some x \<and> x ! i = NaN))"
proof -
  from select_abnormal_values_Some[OF assms] obtain out where
    run: "select_abnormal_values u cohort = Some out" by blast
  have *: "\<exists>x. getcol out name = Some x \<and> x ! i = NaN"
    if m: "(min_name, max_name, name) \<in>
                 {(''sodium_min'', ''sodium_max'', ''sodium''),
                  (''potassium_min'', ''potassium_max'', ''potassium''),
                  (''glucose_min'', ''glucose_max'', ''glucose''),
                  (''wbc_min'', ''wbc_max'', ''wbc''),
                  (''pmn_min'', ''pmn_max'', ''pmn''),
                  (''lymphs_min'', ''lymphs_max'', ''lym'')}"
      and c: "getcol cohort min_name = Some x_min" "getcol cohort max_name = Some x_max"
        "i < length (index cohort)" "x_min ! i = NaN" "x_max ! i = NaN"
    for min_name max_name name x_min x_max i
  proof -
    let ?B = "{(''sodium_min'', 135::real, ''sodium_max'', 145::real, ''sodium''),
            (''potassium_min'', 3.5, ''potassium_max'', 5.0, ''potassium''),
            (''glucose_min'', 70, ''glucose_max'', 130, ''glucose'')}"
    let ?T = "{(''wbc_min'', 2::real, ''wbc_max'', ''wbc''),
            (''pmn_min'', 45, ''pmn_max'', ''pmn''),
            (''lymphs_min'', 20, ''lymphs_max'', ''lym'')}"
    from m consider
      (na) "min_name = ''sodium_min''" "max_name = ''sodium_max''" "name = ''sodium''"
    | (k) "min_name = ''potassium_min''" "max_name = ''potassium_max''" "name = ''potassium''"
    | (glu) "min_name = ''glucose_min''" "max_name = ''glucose_max''" "name = ''glucose''"
    | (wbc) "min_name = ''wbc_min''" "max_name = ''wbc_max''" "name = ''wbc''"
    | (pmn) "min_name = ''pmn_min''" "max_name = ''pmn_max''" "name = ''pmn''"
    | (lym) "min_name = ''lymphs_min''" "max_name = ''lymphs_max''" "name = ''lym''"
      by (elim insertE emptyE) simp_all
    then show ?thesis
    proof cases
      case na
      have "(''sodium_min'', 135::real, ''sodium_max'', 145::real, ''sodium'') \<in> ?B" by simp
      from bidirectional_columns[OF run this] c show ?thesis unfolding na by auto
    next
      case k
      have "(''potassium_min'', 3.5, ''potassium_max'', 5.0, ''potassium'') \<in> ?B" by simp
      from bidirectional_columns[OF run this] c show ?thesis unfolding k by auto
    next
      case glu
      have "(''glucose_min'', 70, ''glucose_max'', 130, ''glucose'') \<in> ?B" by simp
      from bidirectional_columns[OF run this] c show ?thesis unfolding glu by auto
    next
      case wbc
      have "(''wbc_min'', 2, ''wbc_max'', ''wbc'') \<in> ?T" by simp
      from threshold_columns[OF run this] c show ?thesis unfolding wbc by auto
    next
      case pmn
      have "(''pmn_min'', 45, ''pmn_max'', ''pmn'') \<in> ?T" by simp
      from threshold_columns[OF run this] c show ?thesis unfolding pmn by auto
    next
      case lym
      have "(''lymphs_min'', 20, ''lymphs_max'', ''lym'') \<in> ?T" by simp
      from threshold_columns[OF run this] c show ?thesis unfolding lym by auto
    qed
  qed
  show ?thesis
  proof (rule exI[of _ out], intro conjI allI impI)
    show "select_abnormal_values u cohort = Some out" by (rule run)
  next
    fix min_name max_name name x_min x_max i
    assume "(min_name, max_name, name) \<in>
                 {(''sodium_min'', ''sodium_max'', ''sodium''),
                  (''potassium_min'', ''potassium_max'', ''potassium''),
                  (''glucose_min'', ''glucose_max'', ''glucose''),
                  (''wbc_min'', ''wbc_max'', ''wbc''),
                  (''pmn_min'', ''pmn_max'', ''pmn''),
                  (''lymphs_min'', ''lymphs_max'', ''lym'')} \<and>
              getcol cohort min_name = Some x_min \<and> getcol cohort max_name = Some x_max \<and>
              i < length (index cohort) \<and> x_min ! i = NaN \<and> x_max ! i = NaN"
    then show "\<exists>x. getcol out name = Some x \<and> x ! i = NaN"
      by (elim conjE) (rule *)
  qed
qed

text \<open>Row 2 of the worked frame has no laboratory value at all.\<close>

theorem both_ends_missing_witness:
  "list_all (\<lambda>l. l \<in> set (map fst (columns tiny_labs))) lab_drop \<and>
   list_all (lab_column tiny_labs)
           [''sodium_min'', ''sodium_max'', ''potassium_min'', ''potassium_max'',
            ''glucose_min'', ''glucose_max'', ''wbc_min'', ''wbc_max'',
            ''pmn_min'', ''pmn_max'', ''lymphs_min'', ''lymphs_max''] \<and>
   (\<exists>out. select_abnormal_values (\<lambda>_. Num 0) tiny_labs = Some out \<and>
      (\<exists>x. getcol out ''sodium'' = Some x \<and> x ! 2 = NaN) \<and>
      (\<exists>y. getcol out ''wbc'' = Some y \<and> y ! 2 = NaN))"
proof -
  from both_ends_missing[OF tiny_labs_wellformed, of "\<lambda>_. Num 0"] obtain out where
    o: "select_abnormal_values (\<lambda>_. Num 0) tiny_labs = Some out \<and>
        (\<forall>min_name max_name name x_min x_max i.
              (min_name, max_name, name) \<in>
                 {(''sodium_min'', ''sodium_max'', ''sodium''),
                  (''potassium_min'', ''potassium_max'', ''potassium''),
                  (''glucose_min'', ''glucose_max'', ''glucose''),
                  (''wbc_min'', ''wbc_max'', ''wbc''),
                  (''pmn_min'', ''pmn_max'', ''pmn''),
                  (''lymphs_min'', ''lymphs_max'', ''lym'')} \<and>
              getcol tiny_labs min_name = Some x_min \<and> getcol tiny_labs max_name = Some x_max \<and>
              i < length (index tiny_labs) \<and> x_min ! i = NaN \<and> x_max ! i = NaN
              \<longrightarrow> (\<exists>x. getcol out name = Some x \<and> x ! i = NaN))"
    by (rule exE)
  note run = o[THEN conjunct1] and r = o[THEN conjunct2, rule_format]
  have s1: "\<exists>x. getcol out ''sodium'' = Some x \<and> x ! 2 = NaN"
    by (rule r[of "''sodium_min''" "''sodium_max''" _ "[Num 130, Num 133, NaN, Num 120]"
                  "[Num 140, Num 150, NaN, NaN]"])
       (simp add: tiny_labs_columns)
  have s2: "\<exists>y. getcol out ''wbc'' = Some y \<and> y ! 2 = NaN"
    by (rule r[of "''wbc_min''" "''wbc_max''" _ "[Num 1.5, Num 5.0, NaN, NaN]"
                  "[Num 12, Num 9, NaN, Num 11]"])
       (simp add: tiny_labs_columns)
  show ?thesis
    by (intro conjI exI[of _ out] tiny_labs_wellformed run s1 s2)
qed

section \<open>Inclusion and exclusion: proofs\<close>

lemma length_mask_select:
  "length xs = length m \<Longrightarrow> length (mask_select xs m) = length (filter id m)"
  by (induction xs m rule: list_induct2) (auto simp: mask_select_def)

lemma set_mask_select: "set (mask_select xs m) \<subseteq> set xs"
  by (auto simp: mask_select_def dest: set_zip_leftD)

lemma mask_select_map_test:
  "x \<in> set (mask_select xs (map p xs)) \<Longrightarrow> p x"
  by (induction xs) (auto simp: mask_select_def split: if_splits)

lemma mask_select_test:
  assumes "length m = length xs" "\<forall>i<length xs. m ! i \<longrightarrow> P (xs ! i)"
  shows "\<forall>x\<in>set (mask_select xs m). P x"
  using assms by (auto simp: mask_select_def in_set_zip)

lemma loc_SomeD:
  assumes "loc df m = Some df'"
  shows "length m = length (index df) \<and> index df' = mask_select (index df) m \<and>
         getcol df' = (\<lambda>c. map_option (\<lambda>s. mask_select s m) (getcol df c))"
proof -
  from assms have len: "length m = length (index df)"
    and eq: "df' = \<lparr>index = mask_select (index df) m,
                    columns = map (\<lambda>c. (fst c, mask_select (snd c) m)) (columns df)\<rparr>"
    by (auto simp: loc_def split: if_splits)
  have "map_of (map (\<lambda>c. (fst c, mask_select (snd c) m)) xs) c =
        map_option (\<lambda>s. mask_select s m) (map_of xs c)" for xs :: "(string \<times> series) list" and c
    by (induction xs) auto
  with len eq show ?thesis by (simp add: getcol_def fun_eq_iff)
qed

lemma loc_column_all:
  assumes "loc df m = Some df'" "column_all df c P"
  shows "column_all df' c P"
proof -
  from loc_SomeD[OF assms(1)] have
    l: "length m = length (index df)" "index df' = mask_select (index df) m"
       "getcol df' c = map_option (\<lambda>s. mask_select s m) (getcol df c)" by simp_all
  from assms(2) obtain s where s: "getcol df c = Some s" "length s = length (index df)" "list_all P s"
    by (auto simp: column_all_def split: option.splits)
  have "length (mask_select s m) = length (mask_select (index df) m)"
    using l(1) s(2) by (simp add: length_mask_select)
  moreover have "list_all P (mask_select s m)"
    using s(3) set_mask_select[of s m] by (auto simp: list_all_iff)
  ultimately show ?thesis using l s(1) by (simp add: column_all_def)
qed

lemma loc_tested:
  assumes "loc df m = Some df'" "getcol df c = Some s" "length s = length m"
    and "\<forall>i<length s. m ! i \<longrightarrow> P (s ! i)"
  shows "column_all df' c P"
proof -
  from loc_SomeD[OF assms(1)] have
    l: "length m = length (index df)" "index df' = mask_select (index df) m"
       "getcol df' c = map_option (\<lambda>s. mask_select s m) (getcol df c)" by simp_all
  have "length (mask_select s m) = length (mask_select (index df) m)"
    using l(1) assms(3) by (simp add: length_mask_select)
  moreover have "list_all P (mask_select s m)"
    using mask_select_test[of m s P] assms(3,4) by (simp add: list_all_iff)
  ultimately show ?thesis using l assms(2) by (simp add: column_all_def)
qed

lemma df_assign_column_all:
  assumes "df_assign df name vals = Some df'" "column_all df c P" "c \<noteq> name"
  shows "column_all df' c P"
  using df_assign_SomeD[OF assms(1)] assms(2,3) by (simp add: column_all_def split: option.splits)

lemma column_all_mono:
  assumes "column_all df c P" "\<And>x. P x \<Longrightarrow> Q x"
  shows "column_all df c Q"
  using assms by (auto simp: column_all_def list_all_iff split: option.splits)

lemma column_all_nth:
  assumes "column_all df c P" "i < length (index df)"
  shows "\<exists>s. getcol df c = Some s \<and> P (s ! i)"
  using assms by (auto simp: column_all_def list_all_length split: option.splits)


lemma ge_cell_scalar_True: "ge_cell c (Num v) = Some True \<Longrightarrow> \<exists>x. c = Num x \<and> x \<ge> v"
  by (cases c) auto

lemma lt_cell_scalar_True: "lt_cell c (Num v) = Some True \<Longrightarrow> \<exists>x. c = Num x \<and> x < v"
  by (cases c) auto

lemma int_cell_Some: "int_cell to_int c = Some d \<Longrightarrow> \<exists>k. d = Num (of_int k)"
  by (cases c) auto

lemma eq_cell_Num: "eq_cell c (Num v) \<Longrightarrow> c = Num v"
  by (cases c) auto

lemma ne_cell_Str: "ne_cell c (Str s) \<Longrightarrow> c \<noteq> Str s"
  by (cases c) (auto simp: ne_cell_def)

lemma keep_eq:
  assumes "getcol df c = Some s" "loc df (series_eq s (Num v)) = Some df'"
  shows "column_all df' c (\<lambda>x. x = Num v)"
  by (rule loc_tested[OF assms(2,1)]) (auto simp: series_eq_def eq_cell_Num)

lemma keep_ne:
  assumes "getcol df c = Some s" "loc df (series_ne s (Str v)) = Some df'"
  shows "column_all df' c (\<lambda>x. x \<noteq> Str v)"
  by (rule loc_tested[OF assms(2,1)]) (auto simp: series_ne_def ne_cell_Str)

lemma keep_ge:
  assumes "getcol df c = Some s" "series_ge_scalar s v = Some m" "loc df m = Some df'"
  shows "column_all df' c (\<lambda>x. \<exists>r. x = Num r \<and> r \<ge> v)"
proof (rule loc_tested[OF assms(3,1)])
  from assms(2) show "length s = length m"
    by (simp add: series_ge_scalar_def series_apply_Some)
  from assms(2) show "\<forall>i<length s. m ! i \<longrightarrow> (\<exists>r. s ! i = Num r \<and> r \<ge> v)"
    by (auto simp: series_ge_scalar_def series_apply_Some intro: ge_cell_scalar_True)
qed

lemma keep_lt:
  assumes "getcol df c = Some s" "series_lt_scalar s v = Some m" "loc df m = Some df'"
  shows "column_all df' c (\<lambda>x. \<exists>r. x = Num r \<and> r < v)"
proof (rule loc_tested[OF assms(3,1)])
  from assms(2) show "length s = length m"
    by (simp add: series_lt_scalar_def series_apply_Some)
  from assms(2) show "\<forall>i<length s. m ! i \<longrightarrow> (\<exists>r. s ! i = Num r \<and> r < v)"
    by (auto simp: series_lt_scalar_def series_apply_Some intro: lt_cell_scalar_True)
qed

lemma keep_age:
  assumes "getcol df c = Some s" "astype_int64 to_int s = Some a" "df_assign df c a = Some d1"
    "getcol d1 c = Some a'" "series_ge_scalar a' v = Some m" "loc d1 m = Some df'"
  shows "column_all df' c (\<lambda>x. \<exists>k. x = Num (of_int k) \<and> of_int k \<ge> v)"
proof (rule loc_tested[OF assms(6,4)])
  from df_assign_SomeD[OF assms(3)] assms(4) have a': "a' = a" by simp
  from assms(5) show "length a' = length m"
    by (simp add: series_ge_scalar_def series_apply_Some)
  show "\<forall>i<length a'. m ! i \<longrightarrow> (\<exists>k. a' ! i = Num (of_int k) \<and> of_int k \<ge> v)"
  proof (intro allI impI)
    fix i assume i: "i < length a'" "m ! i"
    from assms(2) i(1) a' have "int_cell to_int (s ! i) = Some (a' ! i)"
      by (simp add: astype_int64_def series_apply_Some)
    then obtain k where k: "a' ! i = Num (of_int k)" by (auto dest: int_cell_Some)
    from assms(5) i have "ge_cell (a' ! i) (Num v) = Some True"
      by (auto simp: series_ge_scalar_def series_apply_Some)
    with k show "\<exists>k. a' ! i = Num (of_int k) \<and> of_int k \<ge> v" by auto
  qed
qed

lemma apply_exclusions_columns:
  assumes "apply_exclusions to_int cohort = Some out"
  shows "column_all out ''apache_readmit'' (\<lambda>x. x = Num 0)"
    and "column_all out ''unitadmitsource'' (\<lambda>x. x \<noteq> Str ''Other ICU'')"
    and "column_all out ''unit_los'' (\<lambda>x. \<exists>r. x = Num r \<and> r \<ge> 240)"
    and "column_all out ''hospital_los'' (\<lambda>x. \<exists>r. x = Num r \<and> r < 525600)"
    and "column_all out ''admit_diagnosis'' (\<lambda>x. x \<noteq> Str ''BURN'')"
    and "column_all out ''age'' (\<lambda>x. \<exists>k. x = Num (of_int k) \<and> (of_int k :: real) \<ge> 16)"
    and "set (index out) \<subseteq> set (index cohort)"
proof -
  from assms obtain readmit d1 source d2 unit_los m3 d3 hospital_los m4 d4 diagnosis d5
      age5 d6 age6 d7 age7 a d8 age8 m9 where
    f: "getcol cohort ''apache_readmit'' = Some readmit"
       "loc cohort (series_eq readmit (Num 0)) = Some d1"
       "getcol d1 ''unitadmitsource'' = Some source"
       "loc d1 (series_ne source (Str ''Other ICU'')) = Some d2"
       "getcol d2 ''unit_los'' = Some unit_los"
       "series_ge_scalar unit_los 240 = Some m3"
       "loc d2 m3 = Some d3"
       "getcol d3 ''hospital_los'' = Some hospital_los"
       "series_lt_scalar hospital_los 525600 = Some m4"
       "loc d3 m4 = Some d4"
       "getcol d4 ''admit_diagnosis'' = Some diagnosis"
       "loc d4 (series_ne diagnosis (Str ''BURN'')) = Some d5"
       "getcol d5 ''age'' = Some age5"
       "loc d5 (series_ne age5 (Str ''> 89'')) = Some d6"
       "getcol d6 ''age'' = Some age6"
       "loc d6 (series_ne age6 (Str '''')) = Some d7"
       "getcol d7 ''age'' = Some age7"
       "astype_int64 to_int age7 = Some a"
       "df_assign d7 ''age'' a = Some d8"
       "getcol d8 ''age'' = Some age8"
       "series_ge_scalar age8 16 = Some m9"
       "loc d8 m9 = Some out"
    unfolding apply_exclusions_def bind_eq_Some_conv by (elim exE conjE) (rule that)
  note later1 = loc_column_all[OF f(22)] df_assign_column_all[OF f(19)] loc_column_all[OF f(16)]
    loc_column_all[OF f(14)]
  have c1: "column_all d5 ''apache_readmit'' (\<lambda>x. x = Num 0)"
    by (intro loc_column_all[OF f(12)] loc_column_all[OF f(10)] loc_column_all[OF f(7)]
          loc_column_all[OF f(4)] keep_eq[OF f(1,2)])
  have c2: "column_all d5 ''unitadmitsource'' (\<lambda>x. x \<noteq> Str ''Other ICU'')"
    by (intro loc_column_all[OF f(12)] loc_column_all[OF f(10)] loc_column_all[OF f(7)]
          keep_ne[OF f(3,4)])
  have c3: "column_all d5 ''unit_los'' (\<lambda>x. \<exists>r. x = Num r \<and> r \<ge> 240)"
    by (intro loc_column_all[OF f(12)] loc_column_all[OF f(10)] keep_ge[OF f(5,6,7)])
  have c4: "column_all d5 ''hospital_los'' (\<lambda>x. \<exists>r. x = Num r \<and> r < 525600)"
    by (intro loc_column_all[OF f(12)] keep_lt[OF f(8,9,10)])
  have c5: "column_all d5 ''admit_diagnosis'' (\<lambda>x. x \<noteq> Str ''BURN'')"
    by (rule keep_ne[OF f(11,12)])
  have through: "column_all out c P" if "column_all d5 c P" "c \<noteq> ''age''" for c P
    using that
    by (intro loc_column_all[OF f(22)] df_assign_column_all[OF f(19)] loc_column_all[OF f(16)]
          loc_column_all[OF f(14)])
  show "column_all out ''apache_readmit'' (\<lambda>x. x = Num 0)" by (rule through[OF c1]) simp
  show "column_all out ''unitadmitsource'' (\<lambda>x. x \<noteq> Str ''Other ICU'')" by (rule through[OF c2]) simp
  show "column_all out ''unit_los'' (\<lambda>x. \<exists>r. x = Num r \<and> r \<ge> 240)" by (rule through[OF c3]) simp
  show "column_all out ''hospital_los'' (\<lambda>x. \<exists>r. x = Num r \<and> r < 525600)" by (rule through[OF c4]) simp
  show "column_all out ''admit_diagnosis'' (\<lambda>x. x \<noteq> Str ''BURN'')" by (rule through[OF c5]) simp
  show "column_all out ''age'' (\<lambda>x. \<exists>k. x = Num (of_int k) \<and> (of_int k :: real) \<ge> 16)"
    by (rule keep_age[OF f(17,18,19,20,21,22)])
  have "set (index d') \<subseteq> set (index d)" if "loc d m = Some d'" for d d' m
    using loc_SomeD[OF that] set_mask_select[of "index d" m] by simp
  from this[OF f(2)] this[OF f(4)] this[OF f(7)] this[OF f(10)] this[OF f(12)] this[OF f(14)]
    this[OF f(16)] this[OF f(22)] df_assign_SomeD[OF f(19)]
  show "set (index out) \<subseteq> set (index cohort)" by simp
qed

lemma tiny_admissions_run: "apply_exclusions digits_int tiny_admissions = Some tiny_included"
  by code_simp

text \<open>
  Claim C3.  Every row that is left after code cells 9 to 14 satisfies the six criteria
  at once: the readmission indicator is 0, the admission source is not \<^verbatim>\<open>Other ICU\<close>,
  the stay in the unit is at least 240 minutes, the stay in hospital is less than 525600
  minutes, the admitting diagnosis is not \<^verbatim>\<open>BURN\<close>, and the age is recorded, is
  not the top code \<^verbatim>\<open>> 89\<close> and is an integer of at least 16, with no upper bound.
  The criteria are read off the rows of the frame the cells leave.
\<close>

theorem retained_rows_satisfy_all_predicates:
  assumes "apply_exclusions to_int cohort = Some out" and "i < length (index out)"
  shows "\<exists>readmit source unit_los hospital_los diagnosis age.
           getcol out ''apache_readmit'' = Some readmit \<and> readmit ! i = Num 0 \<and>
           getcol out ''unitadmitsource'' = Some source \<and> source ! i \<noteq> Str ''Other ICU'' \<and>
           getcol out ''unit_los'' = Some unit_los \<and>
           (\<exists>minutes. unit_los ! i = Num minutes \<and> minutes \<ge> 240) \<and>
           getcol out ''hospital_los'' = Some hospital_los \<and>
           (\<exists>minutes. hospital_los ! i = Num minutes \<and> minutes < 525600) \<and>
           getcol out ''admit_diagnosis'' = Some diagnosis \<and> diagnosis ! i \<noteq> Str ''BURN'' \<and>
           getcol out ''age'' = Some age \<and>
           age ! i \<noteq> NaN \<and> age ! i \<noteq> Str '''' \<and> age ! i \<noteq> Str ''> 89'' \<and>
           (\<exists>years::int. age ! i = Num (of_int years) \<and> years \<ge> 16)"
proof -
  note c = apply_exclusions_columns[OF assms(1)]
  from column_all_nth[OF c(1) assms(2)] obtain readmit where
    1: "getcol out ''apache_readmit'' = Some readmit" "readmit ! i = Num 0" by blast
  from column_all_nth[OF c(2) assms(2)] obtain source where
    2: "getcol out ''unitadmitsource'' = Some source" "source ! i \<noteq> Str ''Other ICU''" by blast
  from column_all_nth[OF c(3) assms(2)] obtain unit_los where
    3: "getcol out ''unit_los'' = Some unit_los" "\<exists>r. unit_los ! i = Num r \<and> r \<ge> 240" by blast
  from column_all_nth[OF c(4) assms(2)] obtain hospital_los where
    4: "getcol out ''hospital_los'' = Some hospital_los"
       "\<exists>r. hospital_los ! i = Num r \<and> r < 525600" by blast
  from column_all_nth[OF c(5) assms(2)] obtain diagnosis where
    5: "getcol out ''admit_diagnosis'' = Some diagnosis" "diagnosis ! i \<noteq> Str ''BURN''" by blast
  from column_all_nth[OF c(6) assms(2)] obtain age k where
    6: "getcol out ''age'' = Some age" "age ! i = Num (of_int k)" "(of_int k :: real) \<ge> 16" by blast
  from 6(3) have "k \<ge> 16" by linarith
  with 6(2) have 7: "age ! i \<noteq> NaN" "age ! i \<noteq> Str ''''" "age ! i \<noteq> Str ''> 89''"
    "\<exists>years::int. age ! i = Num (of_int years) \<and> years \<ge> 16" by auto
  from 1 2 3 4 5 6(1) 7 show ?thesis by blast
qed

text \<open>The second retained row of the worked frame sits on every boundary.\<close>

theorem retained_rows_satisfy_all_predicates_witness:
  "apply_exclusions digits_int tiny_admissions = Some tiny_included \<and>
   1 < length (index tiny_included) \<and>
   (\<exists>readmit source unit_los hospital_los diagnosis age.
           getcol tiny_included ''apache_readmit'' = Some readmit \<and> readmit ! 1 = Num 0 \<and>
           getcol tiny_included ''unitadmitsource'' = Some source \<and> source ! 1 \<noteq> Str ''Other ICU'' \<and>
           getcol tiny_included ''unit_los'' = Some unit_los \<and>
           (\<exists>minutes. unit_los ! 1 = Num minutes \<and> minutes \<ge> 240) \<and>
           getcol tiny_included ''hospital_los'' = Some hospital_los \<and>
           (\<exists>minutes. hospital_los ! 1 = Num minutes \<and> minutes < 525600) \<and>
           getcol tiny_included ''admit_diagnosis'' = Some diagnosis \<and> diagnosis ! 1 \<noteq> Str ''BURN'' \<and>
           getcol tiny_included ''age'' = Some age \<and>
           age ! 1 \<noteq> NaN \<and> age ! 1 \<noteq> Str '''' \<and> age ! 1 \<noteq> Str ''> 89'' \<and>
           (\<exists>years::int. age ! 1 = Num (of_int years) \<and> years \<ge> 16))"
proof -
  have i: "1 < length (index tiny_included)" by (simp add: tiny_included_def)
  from retained_rows_satisfy_all_predicates[OF tiny_admissions_run i] tiny_admissions_run i
  show ?thesis by (intro conjI)
qed

section \<open>Code cell 16: proofs\<close>

lemma df_replace_getcol:
  "index (df_replace df old new) = index df"
  "getcol (df_replace df old new) c =
     map_option (map (\<lambda>x. if eq_cell x old then new else x)) (getcol df c)"
proof -
  have "map_of (map (\<lambda>c. (fst c, f (snd c))) xs) c = map_option f (map_of xs c)"
    for xs :: "(string \<times> series) list" and f
    by (induction xs) auto
  then show "getcol (df_replace df old new) c =
     map_option (map (\<lambda>x. if eq_cell x old then new else x)) (getcol df c)"
    by (simp add: df_replace_def getcol_def)
qed (simp add: df_replace_def)

lemma float_cell_Some:
  assumes "float_cell to_float c = Some d"
  shows "\<not> is_Str d"
  using assms by (cases c) (auto split: option.splits cell.splits)

lemma astype_float64_SomeD:
  assumes "astype_float64 to_float s = Some r"
  shows "length r = length s \<and> float64 r"
proof -
  from assms have l: "length r = length s" and p: "\<forall>i<length s. float_cell to_float (s ! i) = Some (r ! i)"
    by (simp_all add: astype_float64_def series_apply_Some)
  have "\<not> is_Str (r ! i)" if "i < length r" for i
    using p l that float_cell_Some by auto
  with l show ?thesis by (simp add: float64_def list_all_length)
qed

lemma astype_float64_Some:
  assumes "\<forall>t. Str t \<in> set s \<longrightarrow> (\<exists>c. to_float t = Some c \<and> \<not> is_Str c)"
  shows "\<exists>r. astype_float64 to_float s = Some r"
proof -
  have "\<forall>x\<in>set s. float_cell to_float x \<noteq> None"
  proof
    fix x assume x: "x \<in> set s"
    show "float_cell to_float x \<noteq> None"
    proof (cases x)
      case (Str t)
      with x assms obtain c where "to_float t = Some c" "\<not> is_Str c" by blast
      with Str show ?thesis by (cases c) auto
    qed auto
  qed
  from series_apply_total[OF this] show ?thesis by (simp add: astype_float64_def)
qed

lemma series_ge_scalar_float64:
  assumes "float64 s"
  shows "series_ge_scalar s v = Some (map (\<lambda>x. \<exists>r. x = Num r \<and> r \<ge> v) s)"
proof -
  have "ge_cell x (Num v) = Some (\<exists>r. x = Num r \<and> r \<ge> v)" if "\<not> is_Str x" for x
    using that by (cases x) auto
  then have "map (\<lambda>c. ge_cell c (Num v)) s = map Some (map (\<lambda>x. \<exists>r. x = Num r \<and> r \<ge> v) s)"
    using assms by (auto simp: float64_def list_all_iff)
  then show ?thesis by (simp add: series_ge_scalar_def series_apply_def those_eq_Some)
qed

lemma set_update_subset: "set (AList.update k v al) \<subseteq> insert (k, v) (set al)"
  by (induction al) auto

lemma eq_cell_Num_iff: "eq_cell x (Num v) \<longleftrightarrow> x = Num v"
  by (cases x) auto

lemma tiny_scored_run: "replace_sentinel tiny_float tiny_scored = Some tiny_scored_out"
  by code_simp

text \<open>
  Claim C6.  On a frame whose baseline prediction has one cell for each row, each cell
  a number, missing, or a string that \<^verbatim>\<open>float\<close> reads, code cell 16 runs through
  without raising.  Every cell equal to -1 is first made missing; \<open>p'\<close> is the
  prediction column after that and after the conversion to float64.  The rows that
  are dropped are exactly those whose prediction in \<open>p'\<close> is missing or negative.  In
  the frame that is left the prediction is a number of at least 0 in every row, every
  other column is the column it was, with -1 made missing, on the rows that are kept,
  and no column holds the number -1.
\<close>

theorem sentinel_and_prediction_filter:
  assumes "getcol cohort ''apache_prediction'' = Some p" and "length p = length (index cohort)"
    and "\<forall>t. Str t \<in> set p \<longrightarrow> (\<exists>c. to_float t = Some c \<and> \<not> is_Str c)"
  shows "\<exists>out p' kept.
           replace_sentinel to_float cohort = Some out \<and>
           astype_float64 to_float (map (\<lambda>x. if x = Num (- 1) then NaN else x) p) = Some p' \<and>
           kept = map (\<lambda>x. \<not> (x = NaN \<or> (\<exists>r. x = Num r \<and> r < 0))) p' \<and>
           index out = mask_select (index cohort) kept \<and>
           column_all out ''apache_prediction'' (\<lambda>x. \<exists>r. x = Num r \<and> r \<ge> 0) \<and>
           (\<forall>name s. name \<noteq> ''apache_prediction'' \<and> getcol cohort name = Some s \<longrightarrow>
              getcol out name =
                Some (mask_select (map (\<lambda>x. if x = Num (- 1) then NaN else x) s) kept)) \<and>
           (\<forall>c\<in>set (columns out). Num (- 1) \<notin> set (snd c))"
proof -
  let ?f = "\<lambda>x. if x = Num (- 1) then NaN else x"
  let ?d0 = "df_replace cohort (Num (- 1)) NaN"
  have f_eq: "(\<lambda>x. if eq_cell x (Num (- 1)) then NaN else x) = ?f"
    by (simp add: eq_cell_Num_iff fun_eq_iff)
  have g0: "getcol ?d0 c = map_option (map ?f) (getcol cohort c)" for c
    by (simp add: df_replace_getcol f_eq)
  have i0: "index ?d0 = index cohort" by (simp add: df_replace_getcol)
  have c0: "columns ?d0 = map (\<lambda>c. (fst c, map ?f (snd c))) (columns cohort)"
    by (simp add: df_replace_def f_eq)
  have "\<forall>t. Str t \<in> set (map ?f p) \<longrightarrow> (\<exists>c. to_float t = Some c \<and> \<not> is_Str c)"
    using assms(3) by (auto split: if_splits)
  from astype_float64_Some[OF this] obtain p' where
    p': "astype_float64 to_float (map ?f p) = Some p'" by blast
  from astype_float64_SomeD[OF p'] have lp: "length p' = length p" and fl: "float64 p'" by simp_all
  define d1 where "d1 = ?d0\<lparr>columns := AList.update ''apache_prediction'' p' (columns ?d0)\<rparr>"
  have a1: "df_assign ?d0 ''apache_prediction'' p' = Some d1"
    using lp assms(2) i0 by (simp add: df_assign_def d1_def)
  from df_assign_SomeD[OF a1] have
    g1: "getcol d1 = (\<lambda>c. if c = ''apache_prediction'' then Some p' else getcol ?d0 c)"
    and i1: "index d1 = index cohort" using i0 by simp_all
  define kept where "kept = map (\<lambda>x. \<not> (x = NaN \<or> (\<exists>r. x = Num r \<and> r < 0))) p'"
  have "(\<exists>r. x = Num r \<and> r \<ge> 0) = (\<not> (x = NaN \<or> (\<exists>r. x = Num r \<and> r < 0)))" if "\<not> is_Str x" for x
    using that by (cases x) auto
  then have "map (\<lambda>x. \<exists>r. x = Num r \<and> r \<ge> 0) p' = kept"
    using fl by (auto simp: kept_def float64_def list_all_iff)
  with series_ge_scalar_float64[OF fl, of 0] have m: "series_ge_scalar p' 0 = Some kept" by simp
  have lk: "length kept = length (index cohort)" using lp assms(2) by (simp add: kept_def)
  define out where "out = \<lparr>index = mask_select (index d1) kept,
                 columns = map (\<lambda>c. (fst c, mask_select (snd c) kept)) (columns d1)\<rparr>"
  have l1: "loc d1 kept = Some out" using lk i1 by (simp add: loc_def out_def)
  have run: "replace_sentinel to_float cohort = Some out"
    unfolding replace_sentinel_def Let_def
    by (simp add: g0 assms(1) p' a1 g1 m l1)
  have idx: "index out = mask_select (index cohort) kept" by (simp add: out_def i1)
  have pred: "column_all out ''apache_prediction'' (\<lambda>x. \<exists>r. x = Num r \<and> r \<ge> 0)"
    by (rule keep_ge[OF _ m l1]) (simp add: g1)
  have others: "getcol out name = Some (mask_select (map ?f s) kept)"
    if "name \<noteq> ''apache_prediction''" "getcol cohort name = Some s" for name s
    using loc_SomeD[OF l1] that by (simp add: g1 g0)
  have clean: "Num (- 1) \<notin> set (snd c)" if "c \<in> set (columns out)" for c
  proof -
    from that obtain c1 where c1: "c1 \<in> set (columns d1)" "snd c = mask_select (snd c1) kept"
      by (auto simp: out_def)
    from c1(1) set_update_subset[of "''apache_prediction''" p' "columns ?d0"]
    consider "c1 = (''apache_prediction'', p')" | "c1 \<in> set (columns ?d0)"
      by (auto simp: d1_def)
    then show ?thesis
    proof cases
      case 1
      have "\<forall>x\<in>set (mask_select p' kept). \<not> (x = NaN \<or> (\<exists>r. x = Num r \<and> r < 0))"
        unfolding kept_def by (auto dest: mask_select_map_test)
      then show ?thesis using c1(2) 1 by auto
    next
      case 2
      then have "Num (- 1) \<notin> set (snd c1)" by (auto simp: c0)
      with set_mask_select[of "snd c1" kept] c1(2) show ?thesis by auto
    qed
  qed
  show ?thesis
    by (intro exI[of _ out] exI[of _ p'] exI[of _ kept] conjI run p' kept_def idx pred ballI clean)
       (use others in blast)
qed

text \<open>
  On the worked frame the stays with the predictions \<^verbatim>\<open>-1\<close> and missing go, and a
  heart rate of -1 is missing afterwards.
\<close>

theorem sentinel_and_prediction_filter_witness:
  "getcol tiny_scored ''apache_prediction'' =
     Some [Str ''0.25'', Str ''-1'', Str ''0.75'', NaN, Str ''0''] \<and>
   replace_sentinel tiny_float tiny_scored = Some tiny_scored_out \<and>
   index tiny_scored_out = mask_select (index tiny_scored) [True, False, True, False, True] \<and>
   column_all tiny_scored_out ''apache_prediction'' (\<lambda>x. \<exists>r. x = Num r \<and> r \<ge> 0) \<and>
   getcol tiny_scored_out ''hr_mean'' = Some [Num 88, NaN, Num 64]"
proof -
  let ?p = "[Str ''0.25'', Str ''-1'', Str ''0.75'', NaN, Str ''0'']"
  have h1: "getcol tiny_scored ''apache_prediction'' = Some ?p"
    by (simp add: tiny_scored_def getcol_def)
  have h2: "length ?p = length (index tiny_scored)" by (simp add: tiny_scored_def)
  have h3: "\<forall>t. Str t \<in> set ?p \<longrightarrow> (\<exists>c. tiny_float t = Some c \<and> \<not> is_Str c)"
    by (auto simp: tiny_float_def)
  from sentinel_and_prediction_filter[OF h1 h2 h3] obtain out where
    o: "replace_sentinel tiny_float tiny_scored = Some out"
       "column_all out ''apache_prediction'' (\<lambda>x. \<exists>r. x = Num r \<and> r \<ge> 0)"
    by (elim exE conjE)
  from o(1) have eq: "out = tiny_scored_out" by (simp add: tiny_scored_run)
  have "index tiny_scored_out = mask_select (index tiny_scored) [True, False, True, False, True]"
    by (simp add: tiny_scored_out_def tiny_scored_def mask_select_def)
  moreover have "getcol tiny_scored_out ''hr_mean'' = Some [Num 88, NaN, Num 64]"
    by (simp add: tiny_scored_out_def getcol_def)
  ultimately show ?thesis using h1 o unfolding eq by (intro conjI)
qed

section \<open>Code cells 18 to 20: proofs\<close>

lemma names_df_assign:
  assumes "df_assign df name vals = Some df'"
  shows "set (map fst (columns df')) = insert name (set (map fst (columns df)))"
proof -
  from assms have "df' = df\<lparr>columns := AList.update name vals (columns df)\<rparr>"
    by (simp add: df_assign_def split: if_splits)
  then show ?thesis by (simp add: dom_update)
qed

lemma names_df_drop:
  assumes "df_drop df labels = Some df'"
  shows "set (map fst (columns df')) = set (map fst (columns df)) - set labels"
proof -
  from assms have "df' = df\<lparr>columns := filter (\<lambda>c. fst c \<notin> set labels) (columns df)\<rparr>"
    by (simp add: df_drop_def split: if_splits)
  then show ?thesis by auto
qed

lemma names_pd_concat:
  assumes "pd_concat df cols = Some df'"
  shows "set (map fst (columns df')) = set (map fst (columns df)) \<union> set (map fst cols)"
proof -
  from assms have "df' = df\<lparr>columns := columns df @ cols\<rparr>"
    by (simp add: pd_concat_def split: if_splits)
  then show ?thesis by simp
qed

lemma getcol_name: "getcol df name = Some s \<Longrightarrow> name \<in> set (map fst (columns df))"
  by (auto simp: getcol_def dest!: map_of_SomeD intro: rev_image_eqI)

lemma set_categories: "set (categories s) = {t. Str t \<in> set s}"
proof -
  have "set (List.map_filter (\<lambda>c. case c of Str t \<Rightarrow> Some t | _ \<Rightarrow> None) s) = {t. Str t \<in> set s}"
    by (induction s) (auto split: cell.splits)
  then show ?thesis by (simp add: categories_def)
qed

lemma get_dummies_names:
  assumes "get_dummies s prefix = Some d" "name \<in> set (map fst d)"
  shows "\<exists>t. name = prefix @ ''_'' @ t \<and> Str t \<in> set s"
proof -
  from assms obtain cat where "cat \<in> set (drop 1 (categories s))" "name = prefix @ ''_'' @ cat"
    by (auto simp: get_dummies_def split: if_splits)
  moreover from this(1) have "cat \<in> set (categories s)" by (rule in_set_dropD)
  ultimately show ?thesis by (auto simp: set_categories)
qed

lemma str_replace_strings:
  assumes "Str t \<in> set (str_replace s old new)"
  shows "\<exists>t0. Str t0 \<in> set s \<and> t = map (\<lambda>x. if x = old then new else x) t0"
  using assms by (auto simp: str_replace_def split: cell.splits)

lemma series_map_strings:
  assumes "Str v \<in> set (series_map s table)"
  shows "v \<in> snd ` set table"
proof -
  from assms obtain k where "map_of table k = Some v"
    by (auto simp: series_map_def split: cell.splits option.splits)
  then have "(k, v) \<in> set table" by (rule map_of_SomeD)
  then show ?thesis by (rule rev_image_eqI) simp
qed

lemma twice_replaced:
  assumes "Str t \<in> set (str_replace (str_replace s a new) b new)" "a \<noteq> new" "b \<noteq> new"
  shows "a \<notin> set t \<and> b \<notin> set t"
proof -
  from str_replace_strings[OF assms(1)] obtain t1 where
    t1: "Str t1 \<in> set (str_replace s a new)" "t = map (\<lambda>x. if x = b then new else x) t1" by blast
  from str_replace_strings[OF t1(1)] obtain t0 where
    t0: "t1 = map (\<lambda>x. if x = a then new else x) t0" by blast
  show ?thesis using assms(2,3) unfolding t1(2) t0 by auto
qed

lemma encode_twice_replaced_names:
  assumes g0: "getcol cohort column = Some s0"
    and a1: "df_assign cohort column (str_replace s0 a new) = Some d1"
    and g1: "getcol d1 column = Some s1"
    and a2: "df_assign d1 column (str_replace s1 b new) = Some d2"
    and g2: "getcol d2 column = Some s2"
    and gd: "get_dummies s2 prefix = Some dummies"
    and pc: "pd_concat d2 dummies = Some d3"
    and dd: "df_drop d3 [column] = Some out"
    and ne: "a \<noteq> new" "b \<noteq> new"
    and name: "name \<in> set (map fst (columns out))"
  shows "name \<in> set (map fst (columns cohort)) \<or>
         (\<exists>v. name = prefix @ ''_'' @ v \<and> a \<notin> set v \<and> b \<notin> set v)"
proof -
  from df_assign_SomeD[OF a1] g1 have s1: "s1 = str_replace s0 a new" by simp
  from df_assign_SomeD[OF a2] g2 have s2: "s2 = str_replace (str_replace s0 a new) b new"
    by (simp add: s1)
  from name names_df_drop[OF dd] names_pd_concat[OF pc] names_df_assign[OF a2] names_df_assign[OF a1]
    getcol_name[OF g0]
  consider "name \<in> set (map fst (columns cohort))" | "name \<in> set (map fst dummies)"
    by auto
  then show ?thesis
  proof cases
    case 1
    then show ?thesis by simp
  next
    case 2
    from get_dummies_names[OF gd 2] obtain t where
      t: "name = prefix @ ''_'' @ t" "Str t \<in> set s2" by blast
    from twice_replaced[OF t(2)[unfolded s2] ne] t(1) show ?thesis by blast
  qed
qed

lemma encode_admit_diagnosis_names:
  assumes "encode_admit_diagnosis cohort = Some out" "name \<in> set (map fst (columns out))"
  shows "name \<in> set (map fst (columns cohort)) \<or>
         (\<exists>v. name = ''adx_'' @ v \<and> CHR ''-'' \<notin> set v \<and> CHR ''/'' \<notin> set v)"
proof -
  from assms(1) obtain s0 d1 s1 d2 s2 dummies d3 where
    "getcol cohort ''admit_diagnosis'' = Some s0"
    "df_assign cohort ''admit_diagnosis'' (str_replace s0 CHR ''-'' CHR ''_'') = Some d1"
    "getcol d1 ''admit_diagnosis'' = Some s1"
    "df_assign d1 ''admit_diagnosis'' (str_replace s1 CHR ''/'' CHR ''_'') = Some d2"
    "getcol d2 ''admit_diagnosis'' = Some s2"
    "get_dummies s2 ''adx'' = Some dummies"
    "pd_concat d2 dummies = Some d3"
    "df_drop d3 [''admit_diagnosis''] = Some out"
    unfolding encode_admit_diagnosis_def bind_eq_Some_conv by (elim exE conjE) (rule that)
  from encode_twice_replaced_names[OF this _ _ assms(2)] show ?thesis by simp
qed

lemma encode_unit_type_names:
  assumes "encode_unit_type cohort = Some out" "name \<in> set (map fst (columns out))"
  shows "name \<in> set (map fst (columns cohort)) \<or>
         (\<exists>v. name = ''unit_'' @ v \<and> CHR ''-'' \<notin> set v \<and> CHR '' '' \<notin> set v)"
proof -
  from assms(1) obtain s0 d1 s1 d2 s2 dummies d3 where
    "getcol cohort ''unit_type'' = Some s0"
    "df_assign cohort ''unit_type'' (str_replace s0 CHR ''-'' CHR ''_'') = Some d1"
    "getcol d1 ''unit_type'' = Some s1"
    "df_assign d1 ''unit_type'' (str_replace s1 CHR '' '' CHR ''_'') = Some d2"
    "getcol d2 ''unit_type'' = Some s2"
    "get_dummies s2 ''unit'' = Some dummies"
    "pd_concat d2 dummies = Some d3"
    "df_drop d3 [''unit_type''] = Some out"
    unfolding encode_unit_type_def bind_eq_Some_conv by (elim exE conjE) (rule that)
  from encode_twice_replaced_names[OF this _ _ assms(2)] show ?thesis by simp
qed

lemma encode_gender_ethnicity_names:
  assumes "encode_gender_ethnicity cohort = Some out" "name \<in> set (map fst (columns out))"
  shows "name \<in> set (map fst (columns cohort)) \<or> name = ''male_gender'' \<or>
         (\<exists>v. name = ''eth_'' @ v \<and>
              v \<in> {''caucasian'', ''other'', ''native_american'', ''african_american'',
                   ''asian'', ''hispanic''})"
proof -
  from assms(1) obtain gender d1 d2 e0 d3 e1 dummies d4 where
    f: "getcol cohort ''gender'' = Some gender"
    "df_assign cohort ''male_gender'' (astype_int (series_eq gender (Str ''Male''))) = Some d1"
    "df_drop d1 [''gender''] = Some d2"
    "getcol d2 ''ethnicity'' = Some e0"
    "df_assign d2 ''ethnicity'' (series_map e0 eth_map) = Some d3"
    "getcol d3 ''ethnicity'' = Some e1"
    "get_dummies e1 ''eth'' = Some dummies"
    "pd_concat d3 dummies = Some d4"
    "df_drop d4 [''ethnicity''] = Some out"
    unfolding encode_gender_ethnicity_def Let_def bind_eq_Some_conv by (elim exE conjE) (rule that)
  from df_assign_SomeD[OF f(5)] f(6) have e1: "e1 = series_map e0 eth_map" by simp
  from assms(2) names_df_drop[OF f(9)] names_pd_concat[OF f(8)] names_df_assign[OF f(5)]
    names_df_drop[OF f(3)] names_df_assign[OF f(2)] getcol_name[OF f(4)]
  consider "name \<in> set (map fst (columns cohort))" | "name = ''male_gender''"
    | "name \<in> set (map fst dummies)"
    by auto
  then show ?thesis
  proof cases
    case 3
    from get_dummies_names[OF f(7) 3] obtain t where
      t: "name = ''eth'' @ ''_'' @ t" "Str t \<in> set e1" by blast
    from series_map_strings[OF t(2)[unfolded e1]]
    have "t \<in> {''caucasian'', ''other'', ''native_american'', ''african_american'',
                   ''asian'', ''hispanic''}"
      by (auto simp: eth_map_def)
    with t(1) show ?thesis by simp
  qed simp_all
qed

lemma series_map_nth:
  assumes "i < length s"
  shows "series_map s eth_map ! i =
           (case s ! i of
              Str k \<Rightarrow>
                if k = ''Caucasian'' then Str ''caucasian''
                else if k = ''Other/Unknown'' \<or> k = '''' then Str ''other''
                else if k = ''Native American'' then Str ''native_american''
                else if k = ''African American'' then Str ''african_american''
                else if k = ''Asian'' then Str ''asian''
                else if k = ''Hispanic'' then Str ''hispanic''
                else NaN
            | _ \<Rightarrow> NaN)"
  using assms by (simp add: series_map_def eth_map_def split: cell.splits)

lemma series_map_no_numbers: "\<not> list_ex is_Num (series_map s table)"
  by (auto simp: series_map_def list_ex_iff split: cell.splits option.splits)

lemma get_dummies_lengths:
  assumes "get_dummies s prefix = Some d" "c \<in> set d"
  shows "length (snd c) = length s"
  using assms by (auto simp: get_dummies_def split: if_splits)

lemma df_drop_Some:
  assumes "set labels \<subseteq> set (map fst (columns df))"
  shows "\<exists>df'. df_drop df labels = Some df'"
  using assms by (auto simp: df_drop_def list_all_iff)

lemma encode_gender_ethnicity_Some:
  assumes "getcol cohort ''gender'' = Some g" "getcol cohort ''ethnicity'' = Some e"
    "length g = length (index cohort)" "length e = length (index cohort)"
  shows "\<exists>out. encode_gender_ethnicity cohort = Some out"
proof -
  let ?male = "astype_int (series_eq g (Str ''Male''))"
  have "length ?male = length (index cohort)"
    using assms(3) by (simp add: astype_int_def series_eq_def)
  then obtain d1 where d1: "df_assign cohort ''male_gender'' ?male = Some d1"
    by (simp add: df_assign_def)
  from names_df_assign[OF d1] getcol_name[OF assms(1)]
  have "set [''gender''] \<subseteq> set (map fst (columns d1))" by auto
  from df_drop_Some[OF this] obtain d2 where d2: "df_drop d1 [''gender''] = Some d2" by blast
  from df_drop_SomeD[OF d2] df_assign_SomeD[OF d1] assms(2)
  have e2: "getcol d2 ''ethnicity'' = Some e" and i2: "index d2 = index cohort" by simp_all
  have "length (series_map e eth_map) = length (index d2)"
    using assms(4) i2 by (simp add: series_map_def)
  then obtain d3 where d3: "df_assign d2 ''ethnicity'' (series_map e eth_map) = Some d3"
    by (simp add: df_assign_def)
  from df_assign_SomeD[OF d3] have e3: "getcol d3 ''ethnicity'' = Some (series_map e eth_map)"
    and i3: "index d3 = index cohort" using i2 by simp_all
  obtain dummies where gd: "get_dummies (series_map e eth_map) ''eth'' = Some dummies"
    by (simp add: get_dummies_def series_map_no_numbers)
  have "length (series_map e eth_map) = length (index d3)"
    using assms(4) i3 by (simp add: series_map_def)
  with get_dummies_lengths[OF gd] have "list_all (\<lambda>c. length (snd c) = length (index d3)) dummies"
    by (simp add: list_all_iff)
  then obtain d4 where d4: "pd_concat d3 dummies = Some d4" by (simp add: pd_concat_def)
  from names_pd_concat[OF d4] getcol_name[OF e3]
  have "set [''ethnicity''] \<subseteq> set (map fst (columns d4))" by auto
  from df_drop_Some[OF this] obtain out where out: "df_drop d4 [''ethnicity''] = Some out" by blast
  show ?thesis
    unfolding encode_gender_ethnicity_def Let_def
    by (simp add: assms(1) d1 d2 e2 d3 e3 gd d4 out)
qed

lemma tiny_diagnoses_run: "encode_admit_diagnosis tiny_diagnoses = Some tiny_diagnoses_out"
  by code_simp

lemma tiny_people_run: "encode_gender_ethnicity tiny_people = Some tiny_people_out"
  by code_simp

lemma tiny_units_run: "encode_unit_type tiny_units = Some tiny_units_out"
  by code_simp

subsection \<open>The indicator columns of the three cells\<close>

lemma filter_update_same:
  "filter (\<lambda>p. fst p \<noteq> k) (AList.update k v xs) = filter (\<lambda>p. fst p \<noteq> k) xs"
  by (induction xs) auto

lemma map_filter_map: "List.map_filter h (map g s) = List.map_filter (\<lambda>c. h (g c)) s"
  by (induction s) (simp_all add: List.map_filter_simps split: option.splits)

lemma set_canonical_labels:
  "set (canonical_labels f s) = {v. \<exists>t. Str t \<in> set s \<and> f t = Some v}"
proof -
  have "set (List.map_filter (\<lambda>c. case c of Str t \<Rightarrow> f t | _ \<Rightarrow> None) s)
          = {v. \<exists>t. Str t \<in> set s \<and> f t = Some v}"
    by (induction s) (auto simp: List.map_filter_simps split: cell.splits option.splits)
  then show ?thesis by (simp add: canonical_labels_def)
qed

lemma get_dummies_relabel:
  "get_dummies (map (\<lambda>c. case c of
                            Str t \<Rightarrow> (case f t of Some v \<Rightarrow> Str v | None \<Rightarrow> NaN)
                          | _ \<Rightarrow> NaN) s) prefix
     = Some (indicator_columns prefix f s)"
proof -
  let ?g = "\<lambda>c. case c of Str t \<Rightarrow> (case f t of Some v \<Rightarrow> Str v | None \<Rightarrow> NaN) | _ \<Rightarrow> NaN"
  have n: "\<not> list_ex is_Num (map ?g s)"
    by (auto simp: list_ex_iff split: cell.splits option.splits)
  have "(\<lambda>c. case ?g c of Str t \<Rightarrow> Some t | _ \<Rightarrow> None) = (\<lambda>c. case c of Str t \<Rightarrow> f t | _ \<Rightarrow> None)"
    by (auto simp: fun_eq_iff split: cell.splits option.splits)
  then have c: "categories (map ?g s) = canonical_labels f s"
    by (simp add: categories_def canonical_labels_def map_filter_map)
  have i: "map (\<lambda>c. Num (if c = Str v then 1 else 0)) (map ?g s) = indicator f s v" for v
    by (auto simp: indicator_def split: cell.splits option.splits)
  show ?thesis
    unfolding get_dummies_def indicator_columns_def using n by (simp only: c i if_False)
qed

lemma str_replace_twice:
  "str_replace (str_replace s a CHR ''_'') b CHR ''_''
     = map (\<lambda>c. case c of
                   Str t \<Rightarrow> (case Some (underscored [a, b] t) of Some v \<Rightarrow> Str v | None \<Rightarrow> NaN)
                 | _ \<Rightarrow> NaN) s"
  by (auto simp: str_replace_def underscored_def split: cell.splits)

lemma in_set_hd_or_drop: "v \<in> set xs \<Longrightarrow> v = hd xs \<or> v \<in> set (drop 1 xs)"
  by (cases xs) auto

lemma encode_twice_replaced_columns:
  assumes g0: "getcol cohort column = Some s0"
    and a1: "df_assign cohort column (str_replace s0 a CHR ''_'') = Some d1"
    and g1: "getcol d1 column = Some s1"
    and a2: "df_assign d1 column (str_replace s1 b CHR ''_'') = Some d2"
    and g2: "getcol d2 column = Some s2"
    and gd: "get_dummies s2 prefix = Some dummies"
    and pc: "pd_concat d2 dummies = Some d3"
    and dd: "df_drop d3 [column] = Some out"
  shows "columns out = filter (\<lambda>p. fst p \<noteq> column)
                         (columns cohort @
                          indicator_columns prefix (\<lambda>t. Some (underscored [a, b] t)) s0)"
proof -
  from df_assign_SomeD[OF a1] g1 have s1: "s1 = str_replace s0 a CHR ''_''" by simp
  from df_assign_SomeD[OF a2] g2 have s2: "s2 = str_replace (str_replace s0 a CHR ''_'') b CHR ''_''"
    by (simp add: s1)
  from gd have d: "dummies = indicator_columns prefix (\<lambda>t. Some (underscored [a, b] t)) s0"
    unfolding s2 str_replace_twice get_dummies_relabel by simp
  from a1 have c1: "columns d1 = AList.update column (str_replace s0 a CHR ''_'') (columns cohort)"
    by (auto simp: df_assign_def split: if_splits)
  from a2 have c2: "columns d2 = AList.update column (str_replace s1 b CHR ''_'') (columns d1)"
    by (auto simp: df_assign_def split: if_splits)
  from pc have c3: "columns d3 = columns d2 @ dummies"
    by (auto simp: pd_concat_def split: if_splits)
  from dd have c4: "columns out = filter (\<lambda>p. fst p \<noteq> column) (columns d3)"
    by (auto simp: df_drop_def split: if_splits)
  show ?thesis
    unfolding c4 c3 c2 c1 filter_append filter_update_same d ..
qed

lemma encode_admit_diagnosis_columns:
  assumes "encode_admit_diagnosis cohort = Some out"
  shows "\<exists>s. getcol cohort ''admit_diagnosis'' = Some s \<and>
             columns out = filter (\<lambda>p. fst p \<noteq> ''admit_diagnosis'') (columns cohort) @
                           indicator_columns ''adx'' (\<lambda>t. Some (underscored ''-/'' t)) s"
proof -
  from assms obtain s0 d1 s1 d2 s2 dummies d3 where
    f: "getcol cohort ''admit_diagnosis'' = Some s0"
    "df_assign cohort ''admit_diagnosis'' (str_replace s0 CHR ''-'' CHR ''_'') = Some d1"
    "getcol d1 ''admit_diagnosis'' = Some s1"
    "df_assign d1 ''admit_diagnosis'' (str_replace s1 CHR ''/'' CHR ''_'') = Some d2"
    "getcol d2 ''admit_diagnosis'' = Some s2"
    "get_dummies s2 ''adx'' = Some dummies"
    "pd_concat d2 dummies = Some d3"
    "df_drop d3 [''admit_diagnosis''] = Some out"
    unfolding encode_admit_diagnosis_def bind_eq_Some_conv by (elim exE conjE) (rule that)
  have "filter (\<lambda>p. fst p \<noteq> ''admit_diagnosis'') (indicator_columns ''adx'' g s0)
          = indicator_columns ''adx'' g s0" for g
    by (simp add: indicator_columns_def filter_map comp_def)
  with encode_twice_replaced_columns[OF f] f(1) show ?thesis by simp
qed

lemma encode_unit_type_columns:
  assumes "encode_unit_type cohort = Some out"
  shows "\<exists>s. getcol cohort ''unit_type'' = Some s \<and>
             columns out = filter (\<lambda>p. fst p \<noteq> ''unit_type'')
                             (columns cohort @
                              indicator_columns ''unit'' (\<lambda>t. Some (underscored ''- '' t)) s)"
proof -
  from assms obtain s0 d1 s1 d2 s2 dummies d3 where
    f: "getcol cohort ''unit_type'' = Some s0"
    "df_assign cohort ''unit_type'' (str_replace s0 CHR ''-'' CHR ''_'') = Some d1"
    "getcol d1 ''unit_type'' = Some s1"
    "df_assign d1 ''unit_type'' (str_replace s1 CHR '' '' CHR ''_'') = Some d2"
    "getcol d2 ''unit_type'' = Some s2"
    "get_dummies s2 ''unit'' = Some dummies"
    "pd_concat d2 dummies = Some d3"
    "df_drop d3 [''unit_type''] = Some out"
    unfolding encode_unit_type_def bind_eq_Some_conv by (elim exE conjE) (rule that)
  from encode_twice_replaced_columns[OF f] f(1) show ?thesis by simp
qed

lemma encode_gender_ethnicity_columns:
  assumes "encode_gender_ethnicity cohort = Some out"
  shows "\<exists>g e. getcol cohort ''gender'' = Some g \<and> getcol cohort ''ethnicity'' = Some e \<and>
             columns out =
               filter (\<lambda>p. fst p \<noteq> ''ethnicity'')
                 (filter (\<lambda>p. fst p \<noteq> ''gender'')
                    (AList.update ''male_gender'' (astype_int (series_eq g (Str ''Male'')))
                       (columns cohort))) @
               indicator_columns ''eth'' (map_of eth_map) e"
proof -
  from assms obtain gender d1 d2 e0 d3 e1 dummies d4 where
    f: "getcol cohort ''gender'' = Some gender"
    "df_assign cohort ''male_gender'' (astype_int (series_eq gender (Str ''Male''))) = Some d1"
    "df_drop d1 [''gender''] = Some d2"
    "getcol d2 ''ethnicity'' = Some e0"
    "df_assign d2 ''ethnicity'' (series_map e0 eth_map) = Some d3"
    "getcol d3 ''ethnicity'' = Some e1"
    "get_dummies e1 ''eth'' = Some dummies"
    "pd_concat d3 dummies = Some d4"
    "df_drop d4 [''ethnicity''] = Some out"
    unfolding encode_gender_ethnicity_def Let_def bind_eq_Some_conv by (elim exE conjE) (rule that)
  from df_assign_SomeD[OF f(5)] f(6) have e1: "e1 = series_map e0 eth_map" by simp
  from df_drop_SomeD[OF f(3)] df_assign_SomeD[OF f(2)] f(4)
  have e0: "getcol cohort ''ethnicity'' = Some e0" by simp
  from f(7) have d: "dummies = indicator_columns ''eth'' (map_of eth_map) e0"
    unfolding e1 series_map_def get_dummies_relabel by simp
  have k: "filter (\<lambda>p. fst p \<noteq> ''ethnicity'') (indicator_columns ''eth'' (map_of eth_map) e0)
             = indicator_columns ''eth'' (map_of eth_map) e0"
    by (simp add: indicator_columns_def filter_map comp_def)
  from f(2) have c1: "columns d1 = AList.update ''male_gender'' (astype_int (series_eq gender (Str ''Male'')))
                                     (columns cohort)"
    by (auto simp: df_assign_def split: if_splits)
  from f(3) have c2: "columns d2 = filter (\<lambda>p. fst p \<noteq> ''gender'') (columns d1)"
    by (auto simp: df_drop_def split: if_splits)
  from f(5) have c3: "columns d3 = AList.update ''ethnicity'' (series_map e0 eth_map) (columns d2)"
    by (auto simp: df_assign_def split: if_splits)
  from f(8) have c4: "columns d4 = columns d3 @ dummies"
    by (auto simp: pd_concat_def split: if_splits)
  from f(9) have c5: "columns out = filter (\<lambda>p. fst p \<noteq> ''ethnicity'') (columns d4)"
    by (auto simp: df_drop_def split: if_splits)
  have "columns out =
               filter (\<lambda>p. fst p \<noteq> ''ethnicity'')
                 (filter (\<lambda>p. fst p \<noteq> ''gender'')
                    (AList.update ''male_gender'' (astype_int (series_eq gender (Str ''Male'')))
                       (columns cohort))) @
               indicator_columns ''eth'' (map_of eth_map) e0"
    unfolding c5 c4 c3 c2 c1 filter_append filter_update_same d k ..
  with f(1) e0 show ?thesis by blast
qed

lemma indicator_columns_names:
  assumes "name \<in> set (map fst (indicator_columns prefix f s))"
  shows "\<exists>t v. Str t \<in> set s \<and> f t = Some v \<and> name = prefix @ ''_'' @ v"
proof -
  from assms obtain v where v: "v \<in> set (drop 1 (canonical_labels f s))" "name = prefix @ ''_'' @ v"
    by (auto simp: indicator_columns_def)
  from v(1) have "v \<in> set (canonical_labels f s)" by (rule in_set_dropD)
  then obtain t where "Str t \<in> set s" "f t = Some v" by (auto simp: set_canonical_labels)
  with v(2) show ?thesis by blast
qed

lemma indicator_columns_present:
  assumes "Str t \<in> set s" "f t = Some v"
  shows "v = hd (canonical_labels f s) \<or> prefix @ ''_'' @ v \<in> set (map fst (indicator_columns prefix f s))"
proof -
  from assms have "v \<in> set (canonical_labels f s)" by (auto simp: set_canonical_labels)
  from in_set_hd_or_drop[OF this] show ?thesis
    by (auto simp: indicator_columns_def)
qed

lemma underscored_free: "c \<in> set cs \<Longrightarrow> c \<noteq> CHR ''_'' \<Longrightarrow> c \<notin> set (underscored cs t)"
  by (auto simp: underscored_def)

lemma admit_diagnosis_indicators:
  assumes "encode_admit_diagnosis c18 = Some o18"
  shows "(\<exists>s. getcol c18 ''admit_diagnosis'' = Some s \<and>
           columns o18 = filter (\<lambda>p. fst p \<noteq> ''admit_diagnosis'') (columns c18) @
                         indicator_columns ''adx'' (\<lambda>t. Some (underscored ''-/'' t)) s \<and>
           (\<forall>name\<in>set (map fst (indicator_columns ''adx'' (\<lambda>t. Some (underscored ''-/'' t)) s)).
              \<exists>t. Str t \<in> set s \<and> name = ''adx_'' @ underscored ''-/'' t \<and>
                  CHR ''-'' \<notin> set (underscored ''-/'' t) \<and> CHR ''/'' \<notin> set (underscored ''-/'' t)) \<and>
           (\<forall>t. Str t \<in> set s \<longrightarrow>
              underscored ''-/'' t = hd (canonical_labels (\<lambda>t. Some (underscored ''-/'' t)) s) \<or>
              ''adx_'' @ underscored ''-/'' t \<in> set (map fst (columns o18)))) \<and>
         (\<forall>name\<in>set (map fst (columns o18)).
            name \<in> set (map fst (columns c18)) \<or>
            (\<exists>v. name = ''adx_'' @ v \<and> CHR ''-'' \<notin> set v \<and> CHR ''/'' \<notin> set v))"
proof (intro conjI)
  let ?f = "\<lambda>t. Some (underscored ''-/'' t)"
  from encode_admit_diagnosis_columns[OF assms] obtain s where
    s: "getcol c18 ''admit_diagnosis'' = Some s"
       "columns o18 = filter (\<lambda>p. fst p \<noteq> ''admit_diagnosis'') (columns c18) @
                      indicator_columns ''adx'' ?f s" by blast
  have n: "\<exists>t. Str t \<in> set s \<and> name = ''adx_'' @ underscored ''-/'' t \<and>
                  CHR ''-'' \<notin> set (underscored ''-/'' t) \<and> CHR ''/'' \<notin> set (underscored ''-/'' t)"
    if "name \<in> set (map fst (indicator_columns ''adx'' ?f s))" for name
  proof -
    from indicator_columns_names[OF that] obtain t where
      "Str t \<in> set s" "name = ''adx'' @ ''_'' @ underscored ''-/'' t" by auto
    moreover have "CHR ''-'' \<notin> set (underscored ''-/'' t)" "CHR ''/'' \<notin> set (underscored ''-/'' t)"
      by (simp_all add: underscored_free)
    ultimately show ?thesis by auto
  qed
  have p: "underscored ''-/'' t = hd (canonical_labels ?f s) \<or>
           ''adx_'' @ underscored ''-/'' t \<in> set (map fst (columns o18))"
    if "Str t \<in> set s" for t
    using indicator_columns_present[OF that, of ?f "underscored ''-/'' t" "''adx''"]
    by (auto simp: s(2))
  from s n p show "\<exists>s. getcol c18 ''admit_diagnosis'' = Some s \<and>
           columns o18 = filter (\<lambda>p. fst p \<noteq> ''admit_diagnosis'') (columns c18) @
                         indicator_columns ''adx'' (\<lambda>t. Some (underscored ''-/'' t)) s \<and>
           (\<forall>name\<in>set (map fst (indicator_columns ''adx'' (\<lambda>t. Some (underscored ''-/'' t)) s)).
              \<exists>t. Str t \<in> set s \<and> name = ''adx_'' @ underscored ''-/'' t \<and>
                  CHR ''-'' \<notin> set (underscored ''-/'' t) \<and> CHR ''/'' \<notin> set (underscored ''-/'' t)) \<and>
           (\<forall>t. Str t \<in> set s \<longrightarrow>
              underscored ''-/'' t = hd (canonical_labels (\<lambda>t. Some (underscored ''-/'' t)) s) \<or>
              ''adx_'' @ underscored ''-/'' t \<in> set (map fst (columns o18)))"
    by (intro exI[of _ s] conjI ballI allI impI)
  show "\<forall>name\<in>set (map fst (columns o18)).
            name \<in> set (map fst (columns c18)) \<or>
            (\<exists>v. name = ''adx_'' @ v \<and> CHR ''-'' \<notin> set v \<and> CHR ''/'' \<notin> set v)"
    using encode_admit_diagnosis_names[OF assms] by (intro ballI)
qed

lemma unit_type_indicators:
  assumes "encode_unit_type c20 = Some o20"
  shows "(\<exists>s. getcol c20 ''unit_type'' = Some s \<and>
           columns o20 = filter (\<lambda>p. fst p \<noteq> ''unit_type'')
                           (columns c20 @
                            indicator_columns ''unit'' (\<lambda>t. Some (underscored ''- '' t)) s) \<and>
           (\<forall>name\<in>set (map fst (indicator_columns ''unit'' (\<lambda>t. Some (underscored ''- '' t)) s)).
              \<exists>t. Str t \<in> set s \<and> name = ''unit_'' @ underscored ''- '' t \<and>
                  CHR ''-'' \<notin> set (underscored ''- '' t) \<and> CHR '' '' \<notin> set (underscored ''- '' t)) \<and>
           (\<forall>t. Str t \<in> set s \<longrightarrow>
              underscored ''- '' t = hd (canonical_labels (\<lambda>t. Some (underscored ''- '' t)) s) \<or>
              underscored ''- '' t = ''type'' \<or>
              ''unit_'' @ underscored ''- '' t \<in> set (map fst (columns o20)))) \<and>
         (\<forall>name\<in>set (map fst (columns o20)).
            name \<in> set (map fst (columns c20)) \<or>
            (\<exists>v. name = ''unit_'' @ v \<and> CHR ''-'' \<notin> set v \<and> CHR '' '' \<notin> set v))"
proof (intro conjI)
  let ?f = "\<lambda>t. Some (underscored ''- '' t)"
  from encode_unit_type_columns[OF assms] obtain s where
    s: "getcol c20 ''unit_type'' = Some s"
       "columns o20 = filter (\<lambda>p. fst p \<noteq> ''unit_type'')
                        (columns c20 @ indicator_columns ''unit'' ?f s)" by blast
  have n: "\<exists>t. Str t \<in> set s \<and> name = ''unit_'' @ underscored ''- '' t \<and>
                  CHR ''-'' \<notin> set (underscored ''- '' t) \<and> CHR '' '' \<notin> set (underscored ''- '' t)"
    if "name \<in> set (map fst (indicator_columns ''unit'' ?f s))" for name
  proof -
    from indicator_columns_names[OF that] obtain t where
      "Str t \<in> set s" "name = ''unit'' @ ''_'' @ underscored ''- '' t" by auto
    moreover have "CHR ''-'' \<notin> set (underscored ''- '' t)" "CHR '' '' \<notin> set (underscored ''- '' t)"
      by (simp_all add: underscored_free)
    ultimately show ?thesis by auto
  qed
  have p: "underscored ''- '' t = hd (canonical_labels ?f s) \<or> underscored ''- '' t = ''type'' \<or>
           ''unit_'' @ underscored ''- '' t \<in> set (map fst (columns o20))"
    if "Str t \<in> set s" for t
  proof -
    from indicator_columns_present[OF that, of ?f "underscored ''- '' t" "''unit''"]
    consider "underscored ''- '' t = hd (canonical_labels ?f s)"
      | "''unit_'' @ underscored ''- '' t \<in> set (map fst (indicator_columns ''unit'' ?f s))"
      by auto
    then show ?thesis
    proof cases
      case 1
      then show ?thesis by simp
    next
      case 2
      show ?thesis
      proof (cases "underscored ''- '' t = ''type''")
        case True
        then show ?thesis by simp
      next
        case False
        then have "''unit_'' @ underscored ''- '' t \<noteq> ''unit_type''" by simp
        with 2 have "''unit_'' @ underscored ''- '' t \<in> set (map fst (columns o20))"
          unfolding s(2) by (auto simp: image_iff)
        then show ?thesis by simp
      qed
    qed
  qed
  from s n p show "\<exists>s. getcol c20 ''unit_type'' = Some s \<and>
           columns o20 = filter (\<lambda>p. fst p \<noteq> ''unit_type'')
                           (columns c20 @
                            indicator_columns ''unit'' (\<lambda>t. Some (underscored ''- '' t)) s) \<and>
           (\<forall>name\<in>set (map fst (indicator_columns ''unit'' (\<lambda>t. Some (underscored ''- '' t)) s)).
              \<exists>t. Str t \<in> set s \<and> name = ''unit_'' @ underscored ''- '' t \<and>
                  CHR ''-'' \<notin> set (underscored ''- '' t) \<and> CHR '' '' \<notin> set (underscored ''- '' t)) \<and>
           (\<forall>t. Str t \<in> set s \<longrightarrow>
              underscored ''- '' t = hd (canonical_labels (\<lambda>t. Some (underscored ''- '' t)) s) \<or>
              underscored ''- '' t = ''type'' \<or>
              ''unit_'' @ underscored ''- '' t \<in> set (map fst (columns o20)))"
    by (intro exI[of _ s] conjI ballI allI impI)
  show "\<forall>name\<in>set (map fst (columns o20)).
            name \<in> set (map fst (columns c20)) \<or>
            (\<exists>v. name = ''unit_'' @ v \<and> CHR ''-'' \<notin> set v \<and> CHR '' '' \<notin> set v)"
    using encode_unit_type_names[OF assms] by (intro ballI)
qed

lemma ethnicity_indicators:
  assumes "encode_gender_ethnicity c19 = Some o19"
  shows "(\<exists>g e. getcol c19 ''gender'' = Some g \<and> getcol c19 ''ethnicity'' = Some e \<and>
           columns o19 =
             filter (\<lambda>p. fst p \<noteq> ''ethnicity'')
               (filter (\<lambda>p. fst p \<noteq> ''gender'')
                  (AList.update ''male_gender'' (astype_int (series_eq g (Str ''Male'')))
                     (columns c19))) @
             indicator_columns ''eth'' (map_of eth_map) e \<and>
           (\<forall>name\<in>set (map fst (indicator_columns ''eth'' (map_of eth_map) e)).
              \<exists>k v. Str k \<in> set e \<and> map_of eth_map k = Some v \<and> name = ''eth_'' @ v) \<and>
           (\<forall>k v. Str k \<in> set e \<and> map_of eth_map k = Some v \<longrightarrow>
              v = hd (canonical_labels (map_of eth_map) e) \<or>
              ''eth_'' @ v \<in> set (map fst (columns o19)))) \<and>
         (\<forall>name\<in>set (map fst (columns o19)).
            name \<in> set (map fst (columns c19)) \<or> name = ''male_gender'' \<or>
            (\<exists>v. name = ''eth_'' @ v \<and>
                 v \<in> {''caucasian'', ''other'', ''native_american'', ''african_american'',
                      ''asian'', ''hispanic''}))"
proof (intro conjI)
  from encode_gender_ethnicity_columns[OF assms] obtain g e where
    s: "getcol c19 ''gender'' = Some g" "getcol c19 ''ethnicity'' = Some e"
       "columns o19 =
             filter (\<lambda>p. fst p \<noteq> ''ethnicity'')
               (filter (\<lambda>p. fst p \<noteq> ''gender'')
                  (AList.update ''male_gender'' (astype_int (series_eq g (Str ''Male'')))
                     (columns c19))) @
             indicator_columns ''eth'' (map_of eth_map) e" by blast
  have n: "\<exists>k v. Str k \<in> set e \<and> map_of eth_map k = Some v \<and> name = ''eth_'' @ v"
    if "name \<in> set (map fst (indicator_columns ''eth'' (map_of eth_map) e))" for name
    using indicator_columns_names[OF that] by auto
  have p: "v = hd (canonical_labels (map_of eth_map) e) \<or>
           ''eth_'' @ v \<in> set (map fst (columns o19))"
    if "Str k \<in> set e \<and> map_of eth_map k = Some v" for k v
    using indicator_columns_present[of k e "map_of eth_map" v "''eth''"] that
    by (auto simp: s(3))
  from s n p show "\<exists>g e. getcol c19 ''gender'' = Some g \<and> getcol c19 ''ethnicity'' = Some e \<and>
           columns o19 =
             filter (\<lambda>p. fst p \<noteq> ''ethnicity'')
               (filter (\<lambda>p. fst p \<noteq> ''gender'')
                  (AList.update ''male_gender'' (astype_int (series_eq g (Str ''Male'')))
                     (columns c19))) @
             indicator_columns ''eth'' (map_of eth_map) e \<and>
           (\<forall>name\<in>set (map fst (indicator_columns ''eth'' (map_of eth_map) e)).
              \<exists>k v. Str k \<in> set e \<and> map_of eth_map k = Some v \<and> name = ''eth_'' @ v) \<and>
           (\<forall>k v. Str k \<in> set e \<and> map_of eth_map k = Some v \<longrightarrow>
              v = hd (canonical_labels (map_of eth_map) e) \<or>
              ''eth_'' @ v \<in> set (map fst (columns o19)))"
    by (intro exI[of _ g] exI[of _ e] conjI ballI allI impI)
  show "\<forall>name\<in>set (map fst (columns o19)).
            name \<in> set (map fst (columns c19)) \<or> name = ''male_gender'' \<or>
            (\<exists>v. name = ''eth_'' @ v \<and>
                 v \<in> {''caucasian'', ''other'', ''native_american'', ''african_american'',
                      ''asian'', ''hispanic''})"
    using encode_gender_ethnicity_names[OF assms] by (intro ballI)
qed

subsection \<open>The ethnicity table\<close>

text \<open>
  Claim C4, as the specification states it, asks that every ethnicity that is not a
  key of the table, the empty string and unseen labels included, maps to \<^verbatim>\<open>other\<close>.
  The empty string is a key of the table.  A label that is not a key, such as
  \<^verbatim>\<open>Pacific Islander\<close>, maps to the missing value and not to \<^verbatim>\<open>other\<close>.
\<close>

theorem unlisted_ethnicity_is_missing:
  "map_of eth_map ''Pacific Islander'' = None \<and>
   series_map [Str ''Pacific Islander''] eth_map = [NaN] \<and>
   series_map [Str ''Pacific Islander''] eth_map \<noteq> [Str ''other'']"
  by (simp add: eth_map_def series_map_def)

text \<open>
  Claim C4, amended.  The remapping keeps the length of the column.  A cell that is
  one of the seven keys of the table maps to the value of the key (the empty string
  and \<^verbatim>\<open>Other/Unknown\<close> to \<^verbatim>\<open>other\<close>); every other cell, an unseen label or
  a missing value, maps to the missing value.  No input makes the step raise: on every
  frame that has a gender and an ethnicity column with one cell for each row, whatever
  the cells hold, code cell 19 runs through.
\<close>

theorem ethnicity_remap:
  "length (series_map e eth_map) = length e \<and>
   (\<forall>i<length e.
      series_map e eth_map ! i =
        (case e ! i of
           Str k \<Rightarrow>
             if k = ''Caucasian'' then Str ''caucasian''
             else if k = ''Other/Unknown'' \<or> k = '''' then Str ''other''
             else if k = ''Native American'' then Str ''native_american''
             else if k = ''African American'' then Str ''african_american''
             else if k = ''Asian'' then Str ''asian''
             else if k = ''Hispanic'' then Str ''hispanic''
             else NaN
         | _ \<Rightarrow> NaN)) \<and>
   (getcol cohort ''gender'' = Some g \<and> getcol cohort ''ethnicity'' = Some e \<and>
    length g = length (index cohort) \<and> length e = length (index cohort)
    \<longrightarrow> (\<exists>out. encode_gender_ethnicity cohort = Some out))"
proof (intro conjI allI impI)
  show "length (series_map e eth_map) = length e" by (simp add: series_map_def)
next
  fix i assume "i < length e"
  then show "series_map e eth_map ! i =
        (case e ! i of
           Str k \<Rightarrow>
             if k = ''Caucasian'' then Str ''caucasian''
             else if k = ''Other/Unknown'' \<or> k = '''' then Str ''other''
             else if k = ''Native American'' then Str ''native_american''
             else if k = ''African American'' then Str ''african_american''
             else if k = ''Asian'' then Str ''asian''
             else if k = ''Hispanic'' then Str ''hispanic''
             else NaN
         | _ \<Rightarrow> NaN)" by (rule series_map_nth)
next
  assume "getcol cohort ''gender'' = Some g \<and> getcol cohort ''ethnicity'' = Some e \<and>
    length g = length (index cohort) \<and> length e = length (index cohort)"
  then show "\<exists>out. encode_gender_ethnicity cohort = Some out"
    by (elim conjE) (rule encode_gender_ethnicity_Some)
qed

text \<open>On the worked frame: a listed label, an unlisted label and the empty string.\<close>

theorem ethnicity_remap_witness:
  "getcol tiny_people ''gender'' = Some [Str ''Male'', Str ''Female'', Str '''', Str ''Male''] \<and>
   getcol tiny_people ''ethnicity'' =
     Some [Str ''African American'', Str ''Pacific Islander'', Str '''', Str ''Hispanic''] \<and>
   series_map [Str ''African American'', Str ''Pacific Islander'', Str '''', Str ''Hispanic''] eth_map ! 0
     = Str ''african_american'' \<and>
   series_map [Str ''African American'', Str ''Pacific Islander'', Str '''', Str ''Hispanic''] eth_map ! 1
     = NaN \<and>
   series_map [Str ''African American'', Str ''Pacific Islander'', Str '''', Str ''Hispanic''] eth_map ! 2
     = Str ''other'' \<and>
   (\<exists>out. encode_gender_ethnicity tiny_people = Some out)"
proof -
  let ?g = "[Str ''Male'', Str ''Female'', Str '''', Str ''Male'']"
  let ?e = "[Str ''African American'', Str ''Pacific Islander'', Str '''', Str ''Hispanic'']"
  note t = ethnicity_remap[of ?e tiny_people ?g]
  have h: "getcol tiny_people ''gender'' = Some ?g" "getcol tiny_people ''ethnicity'' = Some ?e"
    "length ?g = length (index tiny_people)" "length ?e = length (index tiny_people)"
    by (simp_all add: tiny_people_def getcol_def)
  from t[THEN conjunct2, THEN conjunct2, rule_format, OF conjI[OF h(1) conjI[OF h(2) conjI[OF h(3) h(4)]]]]
  have run: "\<exists>out. encode_gender_ethnicity tiny_people = Some out" .
  have "series_map ?e eth_map ! 0 = Str ''african_american''"
       "series_map ?e eth_map ! 1 = NaN" "series_map ?e eth_map ! 2 = Str ''other''"
    using t[THEN conjunct2, THEN conjunct1, rule_format, of 0]
      t[THEN conjunct2, THEN conjunct1, rule_format, of 1]
      t[THEN conjunct2, THEN conjunct1, rule_format, of 2]
    by simp_all
  with h(1,2) run show ?thesis by (intro conjI)
qed

subsection \<open>The names of the indicator columns\<close>

text \<open>
  Claim C8, as the specification states it, asks that hyphen, slash and space are all
  replaced in each of the three columns.  In the admitting diagnosis only hyphen and
  slash are replaced: the label \<^verbatim>\<open>S-CABG/VALVE REDO\<close> gives an indicator column whose
  name holds a space.  In the unit type only hyphen and space are replaced: the label
  \<^verbatim>\<open>Neuro/Trauma ICU\<close> gives an indicator column whose name holds a slash.
\<close>

theorem space_and_slash_survive_in_indicator_names:
  "encode_admit_diagnosis tiny_diagnoses = Some tiny_diagnoses_out \<and>
   ''adx_S_CABG_VALVE REDO'' \<in> set (map fst (columns tiny_diagnoses_out)) \<and>
   CHR '' '' \<in> set ''adx_S_CABG_VALVE REDO'' \<and>
   encode_unit_type tiny_units = Some tiny_units_out \<and>
   ''unit_Neuro/Trauma_ICU'' \<in> set (map fst (columns tiny_units_out)) \<and>
   CHR ''/'' \<in> set ''unit_Neuro/Trauma_ICU''"
  by (simp add: tiny_diagnoses_run tiny_units_run) (simp add: tiny_diagnoses_out_def tiny_units_out_def)

text \<open>
  Claim C8, amended.  Code cell 18 replaces every hyphen and every slash of the
  admitting diagnosis by an underscore, code cell 20 every hyphen and every space of
  the unit type; code cell 19 does not rewrite the ethnicity character by character
  but maps it through the table.  Each cell then takes away the column and appends,
  after the columns that stay, one indicator column for each distinct canonical label
  of the column but the first in sorted order, named \<^verbatim>\<open>adx_\<close>, \<^verbatim>\<open>eth_\<close> or \<^verbatim>\<open>unit_\<close>
  and the canonical label, and holding 1 in the rows with that label and 0 in the
  others.  So every added name is the prefix and a label of the column with the two
  characters replaced, every label of the column but the first canonical one has its
  indicator column (a unit type \<^verbatim>\<open>type\<close> apart, whose column \<^verbatim>\<open>unit_type\<close> is taken
  away with the source column), every \<^verbatim>\<open>adx_\<close> name is free of hyphen and slash,
  every \<^verbatim>\<open>unit_\<close> name is free of hyphen and space, and every \<^verbatim>\<open>eth_\<close> name is one
  of the six values of the table, none of which holds a hyphen, a slash or a space.
\<close>

theorem indicator_columns_by_column:
  "(encode_admit_diagnosis c18 = Some o18 \<longrightarrow>
      (\<exists>s. getcol c18 ''admit_diagnosis'' = Some s \<and>
           columns o18 = filter (\<lambda>p. fst p \<noteq> ''admit_diagnosis'') (columns c18) @
                         indicator_columns ''adx'' (\<lambda>t. Some (underscored ''-/'' t)) s \<and>
           (\<forall>name\<in>set (map fst (indicator_columns ''adx'' (\<lambda>t. Some (underscored ''-/'' t)) s)).
              \<exists>t. Str t \<in> set s \<and> name = ''adx_'' @ underscored ''-/'' t \<and>
                  CHR ''-'' \<notin> set (underscored ''-/'' t) \<and> CHR ''/'' \<notin> set (underscored ''-/'' t)) \<and>
           (\<forall>t. Str t \<in> set s \<longrightarrow>
              underscored ''-/'' t = hd (canonical_labels (\<lambda>t. Some (underscored ''-/'' t)) s) \<or>
              ''adx_'' @ underscored ''-/'' t \<in> set (map fst (columns o18)))) \<and>
      (\<forall>name\<in>set (map fst (columns o18)).
         name \<in> set (map fst (columns c18)) \<or>
         (\<exists>v. name = ''adx_'' @ v \<and> CHR ''-'' \<notin> set v \<and> CHR ''/'' \<notin> set v))) \<and>
   (encode_gender_ethnicity c19 = Some o19 \<longrightarrow>
      (\<exists>g e. getcol c19 ''gender'' = Some g \<and> getcol c19 ''ethnicity'' = Some e \<and>
           columns o19 =
             filter (\<lambda>p. fst p \<noteq> ''ethnicity'')
               (filter (\<lambda>p. fst p \<noteq> ''gender'')
                  (AList.update ''male_gender'' (astype_int (series_eq g (Str ''Male'')))
                     (columns c19))) @
             indicator_columns ''eth'' (map_of eth_map) e \<and>
           (\<forall>name\<in>set (map fst (indicator_columns ''eth'' (map_of eth_map) e)).
              \<exists>k v. Str k \<in> set e \<and> map_of eth_map k = Some v \<and> name = ''eth_'' @ v) \<and>
           (\<forall>k v. Str k \<in> set e \<and> map_of eth_map k = Some v \<longrightarrow>
              v = hd (canonical_labels (map_of eth_map) e) \<or>
              ''eth_'' @ v \<in> set (map fst (columns o19)))) \<and>
      (\<forall>name\<in>set (map fst (columns o19)).
         name \<in> set (map fst (columns c19)) \<or> name = ''male_gender'' \<or>
         (\<exists>v. name = ''eth_'' @ v \<and>
              v \<in> {''caucasian'', ''other'', ''native_american'', ''african_american'',
                   ''asian'', ''hispanic''}))) \<and>
   (encode_unit_type c20 = Some o20 \<longrightarrow>
      (\<exists>s. getcol c20 ''unit_type'' = Some s \<and>
           columns o20 = filter (\<lambda>p. fst p \<noteq> ''unit_type'')
                           (columns c20 @
                            indicator_columns ''unit'' (\<lambda>t. Some (underscored ''- '' t)) s) \<and>
           (\<forall>name\<in>set (map fst (indicator_columns ''unit'' (\<lambda>t. Some (underscored ''- '' t)) s)).
              \<exists>t. Str t \<in> set s \<and> name = ''unit_'' @ underscored ''- '' t \<and>
                  CHR ''-'' \<notin> set (underscored ''- '' t) \<and> CHR '' '' \<notin> set (underscored ''- '' t)) \<and>
           (\<forall>t. Str t \<in> set s \<longrightarrow>
              underscored ''- '' t = hd (canonical_labels (\<lambda>t. Some (underscored ''- '' t)) s) \<or>
              underscored ''- '' t = ''type'' \<or>
              ''unit_'' @ underscored ''- '' t \<in> set (map fst (columns o20)))) \<and>
      (\<forall>name\<in>set (map fst (columns o20)).
         name \<in> set (map fst (columns c20)) \<or>
         (\<exists>v. name = ''unit_'' @ v \<and> CHR ''-'' \<notin> set v \<and> CHR '' '' \<notin> set v)))"
proof (intro conjI)
  show "encode_admit_diagnosis c18 = Some o18 \<longrightarrow>
      (\<exists>s. getcol c18 ''admit_diagnosis'' = Some s \<and>
           columns o18 = filter (\<lambda>p. fst p \<noteq> ''admit_diagnosis'') (columns c18) @
                         indicator_columns ''adx'' (\<lambda>t. Some (underscored ''-/'' t)) s \<and>
           (\<forall>name\<in>set (map fst (indicator_columns ''adx'' (\<lambda>t. Some (underscored ''-/'' t)) s)).
              \<exists>t. Str t \<in> set s \<and> name = ''adx_'' @ underscored ''-/'' t \<and>
                  CHR ''-'' \<notin> set (underscored ''-/'' t) \<and> CHR ''/'' \<notin> set (underscored ''-/'' t)) \<and>
           (\<forall>t. Str t \<in> set s \<longrightarrow>
              underscored ''-/'' t = hd (canonical_labels (\<lambda>t. Some (underscored ''-/'' t)) s) \<or>
              ''adx_'' @ underscored ''-/'' t \<in> set (map fst (columns o18)))) \<and>
      (\<forall>name\<in>set (map fst (columns o18)).
         name \<in> set (map fst (columns c18)) \<or>
         (\<exists>v. name = ''adx_'' @ v \<and> CHR ''-'' \<notin> set v \<and> CHR ''/'' \<notin> set v))"
    by (rule impI) (rule admit_diagnosis_indicators)
  show "encode_gender_ethnicity c19 = Some o19 \<longrightarrow>
      (\<exists>g e. getcol c19 ''gender'' = Some g \<and> getcol c19 ''ethnicity'' = Some e \<and>
           columns o19 =
             filter (\<lambda>p. fst p \<noteq> ''ethnicity'')
               (filter (\<lambda>p. fst p \<noteq> ''gender'')
                  (AList.update ''male_gender'' (astype_int (series_eq g (Str ''Male'')))
                     (columns c19))) @
             indicator_columns ''eth'' (map_of eth_map) e \<and>
           (\<forall>name\<in>set (map fst (indicator_columns ''eth'' (map_of eth_map) e)).
              \<exists>k v. Str k \<in> set e \<and> map_of eth_map k = Some v \<and> name = ''eth_'' @ v) \<and>
           (\<forall>k v. Str k \<in> set e \<and> map_of eth_map k = Some v \<longrightarrow>
              v = hd (canonical_labels (map_of eth_map) e) \<or>
              ''eth_'' @ v \<in> set (map fst (columns o19)))) \<and>
      (\<forall>name\<in>set (map fst (columns o19)).
         name \<in> set (map fst (columns c19)) \<or> name = ''male_gender'' \<or>
         (\<exists>v. name = ''eth_'' @ v \<and>
              v \<in> {''caucasian'', ''other'', ''native_american'', ''african_american'',
                   ''asian'', ''hispanic''}))"
    by (rule impI) (rule ethnicity_indicators)
  show "encode_unit_type c20 = Some o20 \<longrightarrow>
      (\<exists>s. getcol c20 ''unit_type'' = Some s \<and>
           columns o20 = filter (\<lambda>p. fst p \<noteq> ''unit_type'')
                           (columns c20 @
                            indicator_columns ''unit'' (\<lambda>t. Some (underscored ''- '' t)) s) \<and>
           (\<forall>name\<in>set (map fst (indicator_columns ''unit'' (\<lambda>t. Some (underscored ''- '' t)) s)).
              \<exists>t. Str t \<in> set s \<and> name = ''unit_'' @ underscored ''- '' t \<and>
                  CHR ''-'' \<notin> set (underscored ''- '' t) \<and> CHR '' '' \<notin> set (underscored ''- '' t)) \<and>
           (\<forall>t. Str t \<in> set s \<longrightarrow>
              underscored ''- '' t = hd (canonical_labels (\<lambda>t. Some (underscored ''- '' t)) s) \<or>
              underscored ''- '' t = ''type'' \<or>
              ''unit_'' @ underscored ''- '' t \<in> set (map fst (columns o20)))) \<and>
      (\<forall>name\<in>set (map fst (columns o20)).
         name \<in> set (map fst (columns c20)) \<or>
         (\<exists>v. name = ''unit_'' @ v \<and> CHR ''-'' \<notin> set v \<and> CHR '' '' \<notin> set v))"
    by (rule impI) (rule unit_type_indicators)
qed

text \<open>
  On the three worked frames: the columns that stay, and the indicator columns of the
  labels but the first.
\<close>

theorem indicator_columns_by_column_witness:
  "encode_admit_diagnosis tiny_diagnoses = Some tiny_diagnoses_out \<and>
   columns tiny_diagnoses_out =
     filter (\<lambda>p. fst p \<noteq> ''admit_diagnosis'') (columns tiny_diagnoses) @
     indicator_columns ''adx'' (\<lambda>t. Some (underscored ''-/'' t))
       [Str ''CHF'', Str ''S-CABG/VALVE REDO'', Str ''CHF''] \<and>
   indicator_columns ''adx'' (\<lambda>t. Some (underscored ''-/'' t))
       [Str ''CHF'', Str ''S-CABG/VALVE REDO'', Str ''CHF'']
     = [(''adx_S_CABG_VALVE REDO'', [Num 0, Num 1, Num 0])] \<and>
   encode_gender_ethnicity tiny_people = Some tiny_people_out \<and>
   columns tiny_people_out =
     filter (\<lambda>p. fst p \<noteq> ''ethnicity'')
       (filter (\<lambda>p. fst p \<noteq> ''gender'')
          (AList.update ''male_gender''
             (astype_int (series_eq [Str ''Male'', Str ''Female'', Str '''', Str ''Male''] (Str ''Male'')))
             (columns tiny_people))) @
     indicator_columns ''eth'' (map_of eth_map)
       [Str ''African American'', Str ''Pacific Islander'', Str '''', Str ''Hispanic''] \<and>
   indicator_columns ''eth'' (map_of eth_map)
       [Str ''African American'', Str ''Pacific Islander'', Str '''', Str ''Hispanic'']
     = [(''eth_hispanic'', [Num 0, Num 0, Num 0, Num 1]), (''eth_other'', [Num 0, Num 0, Num 1, Num 0])] \<and>
   encode_unit_type tiny_units = Some tiny_units_out \<and>
   columns tiny_units_out =
     filter (\<lambda>p. fst p \<noteq> ''unit_type'')
       (columns tiny_units @
        indicator_columns ''unit'' (\<lambda>t. Some (underscored ''- '' t))
          [Str ''CCU-CTICU'', Str ''Med-Surg ICU'', Str ''Neuro/Trauma ICU'']) \<and>
   indicator_columns ''unit'' (\<lambda>t. Some (underscored ''- '' t))
       [Str ''CCU-CTICU'', Str ''Med-Surg ICU'', Str ''Neuro/Trauma ICU'']
     = [(''unit_Med_Surg_ICU'', [Num 0, Num 1, Num 0]),
        (''unit_Neuro/Trauma_ICU'', [Num 0, Num 0, Num 1])]"
proof -
  note t = indicator_columns_by_column[of tiny_diagnoses tiny_diagnoses_out tiny_people tiny_people_out
      tiny_units tiny_units_out]
  have g: "getcol tiny_diagnoses ''admit_diagnosis'' = Some [Str ''CHF'', Str ''S-CABG/VALVE REDO'', Str ''CHF'']"
    "getcol tiny_people ''gender'' = Some [Str ''Male'', Str ''Female'', Str '''', Str ''Male'']"
    "getcol tiny_people ''ethnicity'' =
       Some [Str ''African American'', Str ''Pacific Islander'', Str '''', Str ''Hispanic'']"
    "getcol tiny_units ''unit_type'' = Some [Str ''CCU-CTICU'', Str ''Med-Surg ICU'', Str ''Neuro/Trauma ICU'']"
    by (simp_all add: tiny_diagnoses_def tiny_people_def tiny_units_def getcol_def)
  from t[THEN conjunct1, rule_format, OF tiny_diagnoses_run, THEN conjunct1] g(1)
  have 1: "columns tiny_diagnoses_out =
     filter (\<lambda>p. fst p \<noteq> ''admit_diagnosis'') (columns tiny_diagnoses) @
     indicator_columns ''adx'' (\<lambda>t. Some (underscored ''-/'' t))
       [Str ''CHF'', Str ''S-CABG/VALVE REDO'', Str ''CHF'']"
    by (elim exE conjE) simp
  from t[THEN conjunct2, THEN conjunct1, rule_format, OF tiny_people_run, THEN conjunct1] g(2,3)
  have 2: "columns tiny_people_out =
     filter (\<lambda>p. fst p \<noteq> ''ethnicity'')
       (filter (\<lambda>p. fst p \<noteq> ''gender'')
          (AList.update ''male_gender''
             (astype_int (series_eq [Str ''Male'', Str ''Female'', Str '''', Str ''Male''] (Str ''Male'')))
             (columns tiny_people))) @
     indicator_columns ''eth'' (map_of eth_map)
       [Str ''African American'', Str ''Pacific Islander'', Str '''', Str ''Hispanic'']"
    by (elim exE conjE) simp
  from t[THEN conjunct2, THEN conjunct2, rule_format, OF tiny_units_run, THEN conjunct1] g(4)
  have 3: "columns tiny_units_out =
     filter (\<lambda>p. fst p \<noteq> ''unit_type'')
       (columns tiny_units @
        indicator_columns ''unit'' (\<lambda>t. Some (underscored ''- '' t))
          [Str ''CCU-CTICU'', Str ''Med-Surg ICU'', Str ''Neuro/Trauma ICU''])"
    by (elim exE conjE) simp
  have 4: "indicator_columns ''adx'' (\<lambda>t. Some (underscored ''-/'' t))
       [Str ''CHF'', Str ''S-CABG/VALVE REDO'', Str ''CHF'']
     = [(''adx_S_CABG_VALVE REDO'', [Num 0, Num 1, Num 0])]"
    by code_simp
  have 5: "indicator_columns ''eth'' (map_of eth_map)
       [Str ''African American'', Str ''Pacific Islander'', Str '''', Str ''Hispanic'']
     = [(''eth_hispanic'', [Num 0, Num 0, Num 0, Num 1]), (''eth_other'', [Num 0, Num 0, Num 1, Num 0])]"
    by code_simp
  have 6: "indicator_columns ''unit'' (\<lambda>t. Some (underscored ''- '' t))
       [Str ''CCU-CTICU'', Str ''Med-Surg ICU'', Str ''Neuro/Trauma ICU'']
     = [(''unit_Med_Surg_ICU'', [Num 0, Num 1, Num 0]),
        (''unit_Neuro/Trauma_ICU'', [Num 0, Num 0, Num 1])]"
    by code_simp
  from tiny_diagnoses_run 1 4 tiny_people_run 2 5 tiny_units_run 3 6 show ?thesis
    by (intro conjI)
qed

section \<open>Code cells 21 and 22: proofs\<close>

lemma n_test_eq: "nat \<lceil>0.25 * real n\<rceil> = (n + 3) div 4"
proof -
  have "0.25 * real n = of_int (int n) / of_int 4" by simp
  then have "\<lceil>0.25 * real n\<rceil> = - (- int n div 4)"
    by (simp only: ceiling_divide_eq_div)
  also have "\<dots> = int ((n + 3) div 4)" by linarith
  finally show ?thesis by simp
qed

lemma take_rows_SomeD:
  assumes "take_rows df ps = Some df'"
  shows "index df' = map (\<lambda>p. index df ! p) ps \<and>
         (\<forall>p\<in>set ps. p < length (index df)) \<and>
         getcol df' = (\<lambda>c. map_option (\<lambda>s. map (\<lambda>p. s ! p) ps) (getcol df c))"
proof -
  from assms have a: "list_all (\<lambda>p. p < length (index df)) ps"
    and eq: "df' = \<lparr>index = map (\<lambda>p. index df ! p) ps,
                 columns = map (\<lambda>c. (fst c, map (\<lambda>p. snd c ! p) ps)) (columns df)\<rparr>"
    by (auto simp: take_rows_def split: if_splits)
  have "map_of (map (\<lambda>c. (fst c, map (\<lambda>p. snd c ! p) ps)) xs) c =
        map_option (\<lambda>s. map (\<lambda>p. s ! p) ps) (map_of xs c)"
    for xs :: "(string \<times> series) list" and c
    by (induction xs) auto
  with a eq show ?thesis by (simp add: getcol_def fun_eq_iff list_all_iff)
qed

lemma take_cells_SomeD:
  assumes "take_cells s ps = Some s'"
  shows "row_labels s' = map (\<lambda>p. row_labels s ! p) ps \<and> cells s' = map (\<lambda>p. cells s ! p) ps"
  using assms by (auto simp: take_cells_def split: if_splits)

lemma separate_label_SomeD:
  assumes "separate_label cohort = Some (X, y, apache)"
  shows "\<exists>e a. getcol cohort ''hospital_expiration'' = Some e \<and>
           getcol cohort ''apache_prediction'' = Some a \<and>
           df_drop cohort [''hospital_expiration'', ''apache_prediction''] = Some X \<and>
           y = \<lparr>row_labels = index cohort, cells = astype_int (series_eq e (Str ''EXPIRED''))\<rparr> \<and>
           apache = \<lparr>row_labels = index cohort, cells = a\<rparr>"
  using assms by (auto simp: separate_label_def Let_def bind_eq_Some_conv)

lemma train_test_split_SomeD:
  assumes "train_test_split permutation X y apache = Some sp"
  shows "\<exists>n_test. n_test = (length (index X) + 3) div 4 \<and> n_test < length (index X) \<and>
           take_rows X (drop n_test (take (length (index X)) (permutation (length (index X))))) =
             Some (train_X sp) \<and>
           take_rows X (take n_test (permutation (length (index X)))) = Some (test_X sp) \<and>
           take_cells y (drop n_test (take (length (index X)) (permutation (length (index X))))) =
             Some (train_y sp) \<and>
           take_cells y (take n_test (permutation (length (index X)))) = Some (test_y sp) \<and>
           take_cells apache (drop n_test (take (length (index X)) (permutation (length (index X))))) =
             Some (train_apache sp) \<and>
           take_cells apache (take n_test (permutation (length (index X)))) = Some (test_apache sp)"
proof -
  let ?n = "length (index X)"
  let ?t = "(?n + 3) div 4"
  have tk: "take (?n - ?t) (drop ?t xs) = drop ?t (take ?n xs)" if "?t \<le> ?n" for xs :: "nat list"
    using that by (simp add: drop_take)
  from assms show ?thesis
    unfolding train_test_split_def Let_def n_test_eq bind_eq_Some_conv
    by (auto split: if_splits simp: tk)
qed

lemma nth_image_labels:
  assumes "distinct xs" "set a \<union> set b = {0..<length xs}" "set a \<inter> set b = {}"
  shows "set (map (\<lambda>p. xs ! p) a) \<inter> set (map (\<lambda>p. xs ! p) b) = {}"
    and "set (map (\<lambda>p. xs ! p) a) \<union> set (map (\<lambda>p. xs ! p) b) = set xs"
proof -
  have in_range: "p < length xs" if "p \<in> set a \<union> set b" for p
    using that assms(2) by auto
  show "set (map (\<lambda>p. xs ! p) a) \<inter> set (map (\<lambda>p. xs ! p) b) = {}"
  proof (rule ccontr)
    assume "set (map (\<lambda>p. xs ! p) a) \<inter> set (map (\<lambda>p. xs ! p) b) \<noteq> {}"
    then obtain p q where pq: "p \<in> set a" "q \<in> set b" "xs ! p = xs ! q" by auto
    with in_range have "p < length xs" "q < length xs" by auto
    with pq(3) assms(1) have "p = q" by (simp add: nth_eq_iff_index_eq)
    with pq(1,2) assms(3) show False by auto
  qed
  have "set (map (\<lambda>p. xs ! p) a) \<union> set (map (\<lambda>p. xs ! p) b) = (\<lambda>p. xs ! p) ` (set a \<union> set b)"
    by auto
  also have "\<dots> = set xs" unfolding assms(2) by (auto simp: set_conv_nth)
  finally show "set (map (\<lambda>p. xs ! p) a) \<union> set (map (\<lambda>p. xs ! p) b) = set xs" .
qed

lemma tiny_final_run: "split_features_label tiny_permutation tiny_final = Some tiny_split"
  by code_simp

lemma tiny_permutation_ok:
  "distinct (index tiny_final)"
  "distinct (tiny_permutation (length (index tiny_final)))"
  "set (tiny_permutation (length (index tiny_final))) = {0..<length (index tiny_final)}"
  by code_simp+

text \<open>
  Claim C5.  Let the permutation the seeded generator draws be a permutation of the
  row positions of the final frame, and let the rows of the frame carry distinct
  labels.  Whenever code cells 21 and 22 run through, the test rows are the first
  \<open>\<lceil>n / 4\<rceil>\<close> positions of the permutation (25 per cent of the \<open>n\<close> rows, rounded
  up) and the train rows the remaining ones: no position is in both and every position
  is in one.  Features, label and baseline prediction are cut at the same positions, so
  the three train outputs carry the same row labels, the three test outputs carry the
  same row labels, the two sets of labels are disjoint and together they are the labels
  of the frame before the split.  Each output row holds the cells of the row it comes
  from.
\<close>

theorem split_is_a_partition:
  assumes "split_features_label permutation cohort = Some sp"
    and "distinct (index cohort)"
    and "distinct (permutation (length (index cohort)))"
    and "set (permutation (length (index cohort))) = {0..<length (index cohort)}"
  shows "\<exists>train test.
           test = take ((length (index cohort) + 3) div 4) (permutation (length (index cohort))) \<and>
           train = drop ((length (index cohort) + 3) div 4) (permutation (length (index cohort))) \<and>
           length test = (length (index cohort) + 3) div 4 \<and>
           length train = length (index cohort) - (length (index cohort) + 3) div 4 \<and>
           set train \<inter> set test = {} \<and> set train \<union> set test = {0..<length (index cohort)} \<and>
           index (train_X sp) = map (\<lambda>p. index cohort ! p) train \<and>
           row_labels (train_y sp) = index (train_X sp) \<and>
           row_labels (train_apache sp) = index (train_X sp) \<and>
           index (test_X sp) = map (\<lambda>p. index cohort ! p) test \<and>
           row_labels (test_y sp) = index (test_X sp) \<and>
           row_labels (test_apache sp) = index (test_X sp) \<and>
           set (index (train_X sp)) \<inter> set (index (test_X sp)) = {} \<and>
           set (index (train_X sp)) \<union> set (index (test_X sp)) = set (index cohort) \<and>
           (\<forall>name s. name \<noteq> ''hospital_expiration'' \<and> name \<noteq> ''apache_prediction'' \<and>
                     getcol cohort name = Some s \<longrightarrow>
                     getcol (train_X sp) name = Some (map (\<lambda>p. s ! p) train) \<and>
                     getcol (test_X sp) name = Some (map (\<lambda>p. s ! p) test)) \<and>
           (\<exists>e. getcol cohort ''hospital_expiration'' = Some e \<and>
                cells (train_y sp) = map (\<lambda>p. astype_int (series_eq e (Str ''EXPIRED'')) ! p) train \<and>
                cells (test_y sp) = map (\<lambda>p. astype_int (series_eq e (Str ''EXPIRED'')) ! p) test) \<and>
           (\<exists>a. getcol cohort ''apache_prediction'' = Some a \<and>
                cells (train_apache sp) = map (\<lambda>p. a ! p) train \<and>
                cells (test_apache sp) = map (\<lambda>p. a ! p) test)"
proof -
  let ?n = "length (index cohort)"
  let ?t = "(?n + 3) div 4"
  let ?perm = "permutation ?n"
  from assms(1) obtain X y apache where
    s: "separate_label cohort = Some (X, y, apache)"
    and t: "train_test_split permutation X y apache = Some sp"
    by (auto simp: split_features_label_def bind_eq_Some_conv)
  from separate_label_SomeD[OF s] obtain e a where
    c: "getcol cohort ''hospital_expiration'' = Some e"
       "getcol cohort ''apache_prediction'' = Some a"
       "df_drop cohort [''hospital_expiration'', ''apache_prediction''] = Some X"
       "y = \<lparr>row_labels = index cohort, cells = astype_int (series_eq e (Str ''EXPIRED''))\<rparr>"
       "apache = \<lparr>row_labels = index cohort, cells = a\<rparr>"
    by blast
  from df_drop_SomeD[OF c(3)] have
    iX: "index X = index cohort"
    and gX: "getcol X = (\<lambda>c. if c \<in> set [''hospital_expiration'', ''apache_prediction''] then None
                              else getcol cohort c)" by simp_all
  have lp: "length ?perm = ?n"
    using distinct_card[OF assms(3)] assms(4) by simp
  define test where "test = take ?t ?perm"
  define train where "train = drop ?t ?perm"
  from train_test_split_SomeD[OF t] have
    r: "?t < ?n"
       "take_rows X train = Some (train_X sp)" "take_rows X test = Some (test_X sp)"
       "take_cells y train = Some (train_y sp)" "take_cells y test = Some (test_y sp)"
       "take_cells apache train = Some (train_apache sp)"
       "take_cells apache test = Some (test_apache sp)"
    unfolding iX train_def test_def using lp by simp_all
  have len: "length test = ?t" "length train = ?n - ?t"
    using r(1) lp by (simp_all add: test_def train_def)
  have "distinct (test @ train)" "set (test @ train) = {0..<?n}"
    using assms(3,4) by (simp_all add: test_def train_def)
  then have part: "set train \<inter> set test = {}" "set train \<union> set test = {0..<?n}"
    by auto
  note X1 = take_rows_SomeD[OF r(2)] and X2 = take_rows_SomeD[OF r(3)]
  note y1 = take_cells_SomeD[OF r(4)] and y2 = take_cells_SomeD[OF r(5)]
  note a1 = take_cells_SomeD[OF r(6)] and a2 = take_cells_SomeD[OF r(7)]
  have idx: "index (train_X sp) = map (\<lambda>p. index cohort ! p) train"
    "index (test_X sp) = map (\<lambda>p. index cohort ! p) test"
    using X1 X2 iX by simp_all
  have lab: "row_labels (train_y sp) = index (train_X sp)"
    "row_labels (train_apache sp) = index (train_X sp)"
    "row_labels (test_y sp) = index (test_X sp)"
    "row_labels (test_apache sp) = index (test_X sp)"
    using y1 y2 a1 a2 idx c(4,5) by simp_all
  have dis: "set (index (train_X sp)) \<inter> set (index (test_X sp)) = {}"
    "set (index (train_X sp)) \<union> set (index (test_X sp)) = set (index cohort)"
    unfolding idx by (rule nth_image_labels[OF assms(2) part(2) part(1)])+
  have feat: "getcol (train_X sp) name = Some (map (\<lambda>p. s ! p) train) \<and>
              getcol (test_X sp) name = Some (map (\<lambda>p. s ! p) test)"
    if "name \<noteq> ''hospital_expiration'' \<and> name \<noteq> ''apache_prediction'' \<and> getcol cohort name = Some s"
    for name s
    using that X1 X2 by (simp add: gX)
  have ys: "cells (train_y sp) = map (\<lambda>p. astype_int (series_eq e (Str ''EXPIRED'')) ! p) train"
    "cells (test_y sp) = map (\<lambda>p. astype_int (series_eq e (Str ''EXPIRED'')) ! p) test"
    using y1 y2 c(4) by simp_all
  have as: "cells (train_apache sp) = map (\<lambda>p. a ! p) train"
    "cells (test_apache sp) = map (\<lambda>p. a ! p) test"
    using a1 a2 c(5) by simp_all
  show ?thesis
  proof (rule exI[of _ train], rule exI[of _ test], intro conjI allI impI)
    show "\<exists>e. getcol cohort ''hospital_expiration'' = Some e \<and>
                cells (train_y sp) = map (\<lambda>p. astype_int (series_eq e (Str ''EXPIRED'')) ! p) train \<and>
                cells (test_y sp) = map (\<lambda>p. astype_int (series_eq e (Str ''EXPIRED'')) ! p) test"
      using c(1) ys by blast
    show "\<exists>a. getcol cohort ''apache_prediction'' = Some a \<and>
                cells (train_apache sp) = map (\<lambda>p. a ! p) train \<and>
                cells (test_apache sp) = map (\<lambda>p. a ! p) test"
      using c(2) as by blast
  qed (use len part idx lab dis feat in \<open>simp_all add: test_def train_def\<close>)
qed

text \<open>Five rows: two go to the test part, three to the train part.\<close>

theorem split_is_a_partition_witness:
  "split_features_label tiny_permutation tiny_final = Some tiny_split \<and>
   distinct (index tiny_final) \<and>
   distinct (tiny_permutation (length (index tiny_final))) \<and>
   set (tiny_permutation (length (index tiny_final))) = {0..<length (index tiny_final)} \<and>
   set (index (train_X tiny_split)) \<inter> set (index (test_X tiny_split)) = {} \<and>
   set (index (train_X tiny_split)) \<union> set (index (test_X tiny_split)) = set (index tiny_final) \<and>
   row_labels (train_y tiny_split) = index (train_X tiny_split) \<and>
   row_labels (train_apache tiny_split) = index (train_X tiny_split) \<and>
   row_labels (test_y tiny_split) = index (test_X tiny_split) \<and>
   row_labels (test_apache tiny_split) = index (test_X tiny_split) \<and>
   length (index (test_X tiny_split)) = 2 \<and> length (index (train_X tiny_split)) = 3"
proof -
  from split_is_a_partition[OF tiny_final_run tiny_permutation_ok] obtain train test where
    r: "length test = (length (index tiny_final) + 3) div 4"
       "length train = length (index tiny_final) - (length (index tiny_final) + 3) div 4"
       "index (train_X tiny_split) = map (\<lambda>p. index tiny_final ! p) train"
       "row_labels (train_y tiny_split) = index (train_X tiny_split)"
       "row_labels (train_apache tiny_split) = index (train_X tiny_split)"
       "index (test_X tiny_split) = map (\<lambda>p. index tiny_final ! p) test"
       "row_labels (test_y tiny_split) = index (test_X tiny_split)"
       "row_labels (test_apache tiny_split) = index (test_X tiny_split)"
       "set (index (train_X tiny_split)) \<inter> set (index (test_X tiny_split)) = {}"
       "set (index (train_X tiny_split)) \<union> set (index (test_X tiny_split)) = set (index tiny_final)"
    by (elim exE conjE)
  have n: "length (index tiny_final) = 5" by (simp add: tiny_final_def)
  from r(1,2,3,6) have "length (index (test_X tiny_split)) = 2" "length (index (train_X tiny_split)) = 3"
    by (simp_all add: n)
  with tiny_final_run tiny_permutation_ok r(4,5,7,8,9,10) show ?thesis by (intro conjI)
qed

section \<open>The stay identifier through the notebook: proofs\<close>

subsection \<open>The joins\<close>

lemma filter_eq_le_one:
  assumes "distinct ys"
  shows "length (filter (\<lambda>y. x = y) ys) \<le> 1"
  using assms by (induction ys) (auto simp: filter_empty_conv)

lemma filter_index_le_one:
  assumes "distinct ys"
  shows "length (filter (\<lambda>j. x = ys ! j) [0..<length ys]) \<le> 1"
proof -
  have "length (filter (\<lambda>y. x = y) (map (\<lambda>j. ys ! j) [0..<length ys])) =
        length (filter (\<lambda>j. x = ys ! j) [0..<length ys])"
    by (simp add: comp_def)
  then show ?thesis using filter_eq_le_one[OF assms, of x] by (simp add: map_nth)
qed

lemma distinct_concat_repeat:
  assumes "distinct kl" "\<And>x. length (g x) \<le> 1"
  shows "distinct (concat (map (\<lambda>x. map (\<lambda>j. x) (g x)) kl))"
  using assms(1)
proof (induction kl)
  case Nil
  then show ?case by simp
next
  case (Cons x kl)
  have d: "distinct (map (\<lambda>j. x) (g x))"
    using assms(2)[of x] by (cases "g x") auto
  have "set (concat (map (\<lambda>x. map (\<lambda>j. x) (g x)) kl)) \<subseteq> set kl" by auto
  with Cons.prems have "x \<notin> set (concat (map (\<lambda>x. map (\<lambda>j. x) (g x)) kl))" by auto
  then have "set (map (\<lambda>j. x) (g x)) \<inter> set (concat (map (\<lambda>x. map (\<lambda>j. x) (g x)) kl)) = {}"
    by auto
  with d Cons show ?case by simp
qed

lemma merged_keys:
  "map (\<lambda>p. kl ! fst p)
       (concat (map (\<lambda>i. map (Pair i) (filter (\<lambda>j. kl ! i = kr ! j) [0..<length kr]))
                    [0..<length kl])) =
   concat (map (\<lambda>x. map (\<lambda>j. x) (filter (\<lambda>j. x = kr ! j) [0..<length kr])) kl)"
proof -
  have "map (\<lambda>p. kl ! fst p)
       (concat (map (\<lambda>i. map (Pair i) (filter (\<lambda>j. kl ! i = kr ! j) [0..<length kr]))
                    [0..<length kl])) =
        concat (map (\<lambda>i. map (\<lambda>j. kl ! i) (filter (\<lambda>j. kl ! i = kr ! j) [0..<length kr]))
                    [0..<length kl])"
    by (simp add: map_concat comp_def)
  also have "\<dots> = concat (map (\<lambda>x. map (\<lambda>j. x) (filter (\<lambda>j. x = kr ! j) [0..<length kr]))
                               (map (\<lambda>i. kl ! i) [0..<length kl]))"
    by (simp add: comp_def)
  finally show ?thesis by (simp add: map_nth)
qed

lemma merged_keys_distinct:
  assumes "distinct kl" "distinct kr"
  shows "distinct (map (\<lambda>p. kl ! fst p)
       (concat (map (\<lambda>i. map (Pair i) (filter (\<lambda>j. kl ! i = kr ! j) [0..<length kr]))
                    [0..<length kl])))"
  unfolding merged_keys
  by (rule distinct_concat_repeat[OF assms(1)]) (rule filter_index_le_one[OF assms(2)])

lemma merged_keys_subset:
  "set (map (\<lambda>p. kl ! fst p)
       (concat (map (\<lambda>i. map (Pair i) (filter (\<lambda>j. kl ! i = kr ! j) [0..<length kr]))
                    [0..<length kl]))) \<subseteq> set kl"
  unfolding merged_keys by auto

lemma map_of_renamed:
  assumes "\<And>n. r n = k \<longleftrightarrow> n = k"
  shows "map_of (map (\<lambda>c. (r (fst c), g (snd c))) xs) k = map_option g (map_of xs k)"
proof (induction xs)
  case Nil
  then show ?case by simp
next
  case (Cons c xs)
  obtain a b where c: "c = (a, b)" by (cases c)
  show ?case
  proof (cases "a = k")
    case True
    then have "r a = k" using assms by simp
    with True c show ?thesis by simp
  next
    case False
    then have "r a \<noteq> k" using assms by simp
    with False c Cons show ?thesis by simp
  qed
qed

lemma pd_merge_stay_ids:
  assumes "pd_merge left right ''patientunitstayid'' = Some m"
  shows "\<exists>kl kr pairs.
           getcol left ''patientunitstayid'' = Some kl \<and>
           getcol right ''patientunitstayid'' = Some kr \<and>
           pairs = concat (map (\<lambda>i. map (Pair i) (filter (\<lambda>j. kl ! i = kr ! j) [0..<length kr]))
                          [0..<length kl]) \<and>
           index m = [0..<length pairs] \<and>
           getcol m ''patientunitstayid'' = Some (map (\<lambda>p. kl ! fst p) pairs)"
proof -
  let ?on = "''patientunitstayid''"
  from assms obtain kl kr where
    k: "getcol left ?on = Some kl" "getcol right ?on = Some kr"
    by (auto simp: pd_merge_def bind_eq_Some_conv split: if_splits)
  define pairs where "pairs = concat (map (\<lambda>i. map (Pair i)
         (filter (\<lambda>j. kl ! i = kr ! j) [0..<length kr])) [0..<length kl])"
  define shared where "shared = filter (\<lambda>name. name \<noteq> ?on \<and> name \<in> set (map fst (columns right)))
                         (map fst (columns left))"
  define lc where "lc = map (\<lambda>c. (if fst c \<in> set shared then fst c @ ''_x'' else fst c,
                      map (\<lambda>p. snd c ! fst p) pairs)) (columns left)"
  define rc where "rc = map (\<lambda>c. (if fst c \<in> set shared then fst c @ ''_y'' else fst c,
                      map (\<lambda>p. snd c ! snd p) pairs))
               (filter (\<lambda>c. fst c \<noteq> ?on) (columns right))"
  from assms k have m: "m = \<lparr>index = [0..<length pairs], columns = lc @ rc\<rparr>"
    by (simp add: pd_merge_def Let_def pairs_def shared_def lc_def rc_def split: if_splits)
  have r: "(if n \<in> set shared then n @ ''_x'' else n) = ?on \<longleftrightarrow> n = ?on" for n
  proof (cases "n \<in> set shared")
    case True
    then have "n \<noteq> ?on" by (simp add: shared_def)
    moreover have "n @ ''_x'' \<noteq> ?on"
    proof
      assume "n @ ''_x'' = ?on"
      then have "last (n @ ''_x'') = last ?on" by simp
      then show False by simp
    qed
    ultimately show ?thesis using True by simp
  qed simp
  have "map_of lc ?on = map_option (\<lambda>s. map (\<lambda>p. s ! fst p) pairs) (map_of (columns left) ?on)"
    unfolding lc_def by (rule map_of_renamed[OF r])
  with k(1) have "map_of (lc @ rc) ?on = Some (map (\<lambda>p. kl ! fst p) pairs)"
    by (simp add: getcol_def map_add_def)
  with m k pairs_def show ?thesis by (simp add: getcol_def)
qed

subsection \<open>The stages one by one\<close>

lemma staysD:
  assumes "stays df P"
  obtains ids where "getcol df ''patientunitstayid'' = Some ids"
    "length ids = length (index df)" "distinct ids" "list_all P ids"
  using assms by (auto simp: stays_def split: option.splits)

lemma staysI:
  assumes "getcol df ''patientunitstayid'' = Some ids"
    "length ids = length (index df)" "distinct ids" "list_all P ids"
  shows "stays df P"
  using assms by (simp add: stays_def)

lemma stays_same:
  assumes "index df' = index df"
    "getcol df' ''patientunitstayid'' = getcol df ''patientunitstayid''"
  shows "stays df' P = stays df P"
  using assms by (simp add: stays_def split: option.splits)

lemma stays_weaken: "stays df P \<Longrightarrow> stays df (\<lambda>c. True)"
  by (auto simp: stays_def list_all_iff split: option.splits)

lemma distinct_mask_select: "distinct xs \<Longrightarrow> distinct (mask_select xs m)"
proof (induction xs arbitrary: m)
  case Nil
  then show ?case by (simp add: mask_select_def)
next
  case (Cons x xs)
  show ?case
  proof (cases m)
    case Nil
    then show ?thesis by (simp add: mask_select_def)
  next
    case (Cons b bs)
    have "mask_select (x # xs) (b # bs) = (if b then x # mask_select xs bs else mask_select xs bs)"
      by (simp add: mask_select_def)
    moreover have "x \<notin> set (mask_select xs bs)"
      using Cons.prems set_mask_select[of xs bs] by auto
    ultimately show ?thesis using Cons Cons.IH[of bs] Cons.prems by simp
  qed
qed

lemma pd_merge_stays:
  assumes "pd_merge left right ''patientunitstayid'' = Some m" "stays left P" "stays right Q"
  shows "stays m P"
proof -
  from pd_merge_stay_ids[OF assms(1)] obtain kl kr pairs where
    k: "getcol left ''patientunitstayid'' = Some kl" "getcol right ''patientunitstayid'' = Some kr"
       "pairs = concat (map (\<lambda>i. map (Pair i) (filter (\<lambda>j. kl ! i = kr ! j) [0..<length kr]))
                          [0..<length kl])"
       "index m = [0..<length pairs]"
       "getcol m ''patientunitstayid'' = Some (map (\<lambda>p. kl ! fst p) pairs)"
    by blast
  from assms(2) k(1) have l: "distinct kl" "list_all P kl" by (auto elim!: staysD)
  from assms(3) k(2) have r: "distinct kr" by (auto elim!: staysD)
  have "distinct (map (\<lambda>p. kl ! fst p) pairs)"
    unfolding k(3) by (rule merged_keys_distinct[OF l(1) r])
  moreover have "list_all P (map (\<lambda>p. kl ! fst p) pairs)"
    using merged_keys_subset[of kl kr] l(2) unfolding k(3) list_all_iff by blast
  ultimately show ?thesis using k(4,5) by (intro staysI) simp_all
qed

lemma extract_cohort_stays:
  assumes "extract_cohort base_cohort feature_set dx_groups = Some m"
    "stays base_cohort P" "stays feature_set Q" "stays dx_groups R"
  shows "stays m P"
proof -
  from assms(1) obtain c where
    "pd_merge base_cohort feature_set ''patientunitstayid'' = Some c"
    "pd_merge c dx_groups ''patientunitstayid'' = Some m"
    by (auto simp: extract_cohort_def bind_eq_Some_conv)
  from pd_merge_stays[OF this(2) pd_merge_stays[OF this(1) assms(2,3)] assms(4)] show ?thesis .
qed

lemma loc_stays:
  assumes "loc df m = Some df'" "stays df P"
  shows "stays df' P"
proof -
  from assms(2) obtain ids where
    i: "getcol df ''patientunitstayid'' = Some ids" "length ids = length (index df)"
       "distinct ids" "list_all P ids" by (rule staysD)
  from loc_SomeD[OF assms(1)] i(1) have
    l: "length m = length (index df)" "index df' = mask_select (index df) m"
       "getcol df' ''patientunitstayid'' = Some (mask_select ids m)" by simp_all
  show ?thesis
  proof (rule staysI[OF l(3)])
    show "length (mask_select ids m) = length (index df')"
      using l(1,2) i(2) by (simp add: length_mask_select)
    show "distinct (mask_select ids m)" by (rule distinct_mask_select[OF i(3)])
    show "list_all P (mask_select ids m)"
      using i(4) set_mask_select[of ids m] by (auto simp: list_all_iff)
  qed
qed

lemma df_assign_stays:
  assumes "df_assign df name vals = Some df'" "name \<noteq> ''patientunitstayid''"
  shows "stays df' P = stays df P"
  using df_assign_SomeD[OF assms(1)] assms(2) by (intro stays_same) auto

lemma df_drop_stays:
  assumes "df_drop df labels = Some df'" "''patientunitstayid'' \<notin> set labels"
  shows "stays df' P = stays df P"
  using df_drop_SomeD[OF assms(1)] assms(2) by (intro stays_same) auto

lemma pd_concat_stays:
  assumes "pd_concat df cols = Some df'" "stays df P"
  shows "stays df' P"
proof -
  from assms(2) obtain ids where
    i: "getcol df ''patientunitstayid'' = Some ids" "length ids = length (index df)"
       "distinct ids" "list_all P ids" by (rule staysD)
  from assms(1) have "df' = df\<lparr>columns := columns df @ cols\<rparr>"
    by (simp add: pd_concat_def split: if_splits)
  with i(1) have "index df' = index df" "getcol df' ''patientunitstayid'' = Some ids"
    by (simp_all add: getcol_def map_add_def)
  with i show ?thesis by (intro staysI) simp_all
qed

lemma apply_exclusions_stays:
  assumes "apply_exclusions to_int cohort = Some out" "stays cohort P"
  shows "stays out P"
proof -
  from assms(1) obtain readmit d1 source d2 unit_los m3 d3 hospital_los m4 d4 diagnosis d5
      age5 d6 age6 d7 age7 a d8 age8 m9 where
    f: "loc cohort (series_eq readmit (Num 0)) = Some d1"
       "loc d1 (series_ne source (Str ''Other ICU'')) = Some d2"
       "loc d2 m3 = Some d3"
       "loc d3 m4 = Some d4"
       "loc d4 (series_ne diagnosis (Str ''BURN'')) = Some d5"
       "loc d5 (series_ne age5 (Str ''> 89'')) = Some d6"
       "loc d6 (series_ne age6 (Str '''')) = Some d7"
       "df_assign d7 ''age'' a = Some d8"
       "loc d8 m9 = Some out"
    unfolding apply_exclusions_def bind_eq_Some_conv by (elim exE conjE) (rule that)
  have "stays d7 P"
    by (intro loc_stays[OF f(7)] loc_stays[OF f(6)] loc_stays[OF f(5)] loc_stays[OF f(4)]
          loc_stays[OF f(3)] loc_stays[OF f(2)] loc_stays[OF f(1)] assms(2))
  then have "stays d8 P" by (simp add: df_assign_stays[OF f(8)])
  then show ?thesis by (rule loc_stays[OF f(9)])
qed

lemma replace_pair_stays:
  assumes "replace_pair u df check min_name max_name name = Some df'"
    "min_name \<noteq> ''patientunitstayid''" "max_name \<noteq> ''patientunitstayid''"
    "name \<noteq> ''patientunitstayid''"
  shows "stays df' P = stays df P"
  using replace_pair_SomeD[OF assms(1)] assms(2-) by (intro stays_same) auto

lemma bidirectional_stays:
  assumes "bidirectional u df min_name low max_name high name = Some df'"
    "min_name \<noteq> ''patientunitstayid''" "max_name \<noteq> ''patientunitstayid''"
    "name \<noteq> ''patientunitstayid''"
  shows "stays df' P = stays df P"
  using bidirectional_SomeD[OF assms(1)] assms(2-) by (intro stays_same) auto

lemma select_abnormal_values_stays:
  assumes "select_abnormal_values u cohort = Some out"
  shows "stays out P = stays cohort P"
proof -
  from assms(1) obtain d0 d1 d2 d3 d4 d5 wbc_check pmn_check lym_check where
    f: "df_drop cohort lab_drop = Some d0"
    "bidirectional u d0 ''sodium_min'' 135 ''sodium_max'' 145 ''sodium'' = Some d1"
    "bidirectional u d1 ''potassium_min'' 3.5 ''potassium_max'' 5.0 ''potassium'' = Some d2"
    "bidirectional u d2 ''glucose_min'' 70 ''glucose_max'' 130 ''glucose'' = Some d3"
    "replace_pair u d3 wbc_check ''wbc_min'' ''wbc_max'' ''wbc'' = Some d4"
    "replace_pair u d4 pmn_check ''pmn_min'' ''pmn_max'' ''pmn'' = Some d5"
    "replace_pair u d5 lym_check ''lymphs_min'' ''lymphs_max'' ''lym'' = Some out"
    by (rule select_abnormal_values_frames)
  have "stays d0 P = stays cohort P"
    by (rule df_drop_stays[OF f(1)]) (simp add: lab_drop_def)
  moreover have "stays d1 P = stays d0 P" by (rule bidirectional_stays[OF f(2)]) simp_all
  moreover have "stays d2 P = stays d1 P" by (rule bidirectional_stays[OF f(3)]) simp_all
  moreover have "stays d3 P = stays d2 P" by (rule bidirectional_stays[OF f(4)]) simp_all
  moreover have "stays d4 P = stays d3 P" by (rule replace_pair_stays[OF f(5)]) simp_all
  moreover have "stays d5 P = stays d4 P" by (rule replace_pair_stays[OF f(6)]) simp_all
  moreover have "stays out P = stays d5 P" by (rule replace_pair_stays[OF f(7)]) simp_all
  ultimately show ?thesis by simp
qed

lemma replace_sentinel_stays:
  assumes "replace_sentinel to_float cohort = Some out" "stays cohort is_Num"
  shows "stays out (\<lambda>c. True)"
proof -
  let ?f = "\<lambda>x. if eq_cell x (Num (- 1)) then NaN else x"
  let ?d0 = "df_replace cohort (Num (- 1)) NaN"
  from assms(1) obtain p' d1 m where
    f: "df_assign ?d0 ''apache_prediction'' p' = Some d1" "loc d1 m = Some out"
    unfolding replace_sentinel_def Let_def bind_eq_Some_conv by (elim exE conjE) (rule that)
  from assms(2) obtain ids where
    i: "getcol cohort ''patientunitstayid'' = Some ids" "length ids = length (index cohort)"
       "distinct ids" "list_all is_Num ids" by (rule staysD)
  have "inj_on ?f (set ids)"
  proof (rule inj_onI)
    fix x y assume "x \<in> set ids" "y \<in> set ids" "?f x = ?f y"
    with i(4) show "x = y"
      by (cases x; cases y) (auto simp: list_all_iff split: if_splits)
  qed
  with i(3) have "distinct (map ?f ids)" by (simp add: distinct_map)
  with i(1,2) have "stays ?d0 (\<lambda>c. True)"
    by (intro staysI) (simp_all add: df_replace_getcol list_all_iff)
  then have "stays d1 (\<lambda>c. True)" by (simp add: df_assign_stays[OF f(1)])
  then show ?thesis by (rule loc_stays[OF f(2)])
qed

lemma drop_unused_stays:
  assumes "drop_unused cohort = Some out"
  shows "stays out P = stays cohort P"
  using assms unfolding drop_unused_def
  by (rule df_drop_stays) (simp add: unused_columns_def)

lemma encode_admit_diagnosis_stays:
  assumes "encode_admit_diagnosis cohort = Some out" "stays cohort P"
  shows "stays out P"
proof -
  from assms(1) obtain s0 d1 s1 d2 dummies d3 where
    f: "df_assign cohort ''admit_diagnosis'' (str_replace s0 CHR ''-'' CHR ''_'') = Some d1"
    "df_assign d1 ''admit_diagnosis'' (str_replace s1 CHR ''/'' CHR ''_'') = Some d2"
    "pd_concat d2 dummies = Some d3"
    "df_drop d3 [''admit_diagnosis''] = Some out"
    unfolding encode_admit_diagnosis_def bind_eq_Some_conv by (elim exE conjE) (rule that)
  from assms(2) have "stays d2 P"
    by (simp add: df_assign_stays[OF f(1)] df_assign_stays[OF f(2)])
  from pd_concat_stays[OF f(3) this] show ?thesis
    by (simp add: df_drop_stays[OF f(4)])
qed

lemma encode_unit_type_stays:
  assumes "encode_unit_type cohort = Some out" "stays cohort P"
  shows "stays out P"
proof -
  from assms(1) obtain s0 d1 s1 d2 dummies d3 where
    f: "df_assign cohort ''unit_type'' (str_replace s0 CHR ''-'' CHR ''_'') = Some d1"
    "df_assign d1 ''unit_type'' (str_replace s1 CHR '' '' CHR ''_'') = Some d2"
    "pd_concat d2 dummies = Some d3"
    "df_drop d3 [''unit_type''] = Some out"
    unfolding encode_unit_type_def bind_eq_Some_conv by (elim exE conjE) (rule that)
  from assms(2) have "stays d2 P"
    by (simp add: df_assign_stays[OF f(1)] df_assign_stays[OF f(2)])
  from pd_concat_stays[OF f(3) this] show ?thesis
    by (simp add: df_drop_stays[OF f(4)])
qed

lemma encode_gender_ethnicity_stays:
  assumes "encode_gender_ethnicity cohort = Some out" "stays cohort P"
  shows "stays out P"
proof -
  from assms(1) obtain gender d1 d2 e0 d3 dummies d4 where
    f: "df_assign cohort ''male_gender'' (astype_int (series_eq gender (Str ''Male''))) = Some d1"
    "df_drop d1 [''gender''] = Some d2"
    "df_assign d2 ''ethnicity'' (series_map e0 eth_map) = Some d3"
    "pd_concat d3 dummies = Some d4"
    "df_drop d4 [''ethnicity''] = Some out"
    unfolding encode_gender_ethnicity_def Let_def bind_eq_Some_conv by (elim exE conjE) (rule that)
  from assms(2) have "stays d3 P"
    by (simp add: df_assign_stays[OF f(1)] df_drop_stays[OF f(2)] df_assign_stays[OF f(3)])
  from pd_concat_stays[OF f(4) this] show ?thesis
    by (simp add: df_drop_stays[OF f(5)])
qed

lemma take_rows_stays:
  assumes "take_rows df ps = Some df'" "stays df P" "distinct ps"
  shows "stays df' P"
proof -
  from assms(2) obtain ids where
    i: "getcol df ''patientunitstayid'' = Some ids" "length ids = length (index df)"
       "distinct ids" "list_all P ids" by (rule staysD)
  from take_rows_SomeD[OF assms(1)] i(1) have
    t: "index df' = map (\<lambda>p. index df ! p) ps" "\<forall>p\<in>set ps. p < length (index df)"
       "getcol df' ''patientunitstayid'' = Some (map (\<lambda>p. ids ! p) ps)" by simp_all
  have "inj_on (\<lambda>p. ids ! p) (set ps)"
    using t(2) i(2,3) by (auto intro!: inj_onI simp: nth_eq_iff_index_eq)
  with assms(3) have "distinct (map (\<lambda>p. ids ! p) ps)" by (simp add: distinct_map)
  moreover have "list_all P (map (\<lambda>p. ids ! p) ps)"
    using t(2) i(2,4) by (auto simp: list_all_iff)
  ultimately show ?thesis using t(1) by (intro staysI[OF t(3)]) simp_all
qed

lemma split_features_label_stays:
  assumes "split_features_label permutation cohort = Some sp" "stays cohort P"
    "distinct (permutation (length (index cohort)))"
  shows "stays (train_X sp) P \<and> stays (test_X sp) P"
proof -
  from assms(1) obtain X y apache where
    s: "separate_label cohort = Some (X, y, apache)"
    and t: "train_test_split permutation X y apache = Some sp"
    by (auto simp: split_features_label_def bind_eq_Some_conv)
  from separate_label_SomeD[OF s] have
    d: "df_drop cohort [''hospital_expiration'', ''apache_prediction''] = Some X" by blast
  from df_drop_SomeD[OF d] have iX: "index X = index cohort" by simp
  from assms(2) have X: "stays X P" by (simp add: df_drop_stays[OF d])
  from train_test_split_SomeD[OF t] have
    r: "take_rows X (drop ((length (index X) + 3) div 4)
                       (take (length (index X)) (permutation (length (index X))))) = Some (train_X sp)"
       "take_rows X (take ((length (index X) + 3) div 4) (permutation (length (index X)))) =
          Some (test_X sp)"
    by simp_all
  from assms(3) have
    "distinct (drop ((length (index X) + 3) div 4)
                       (take (length (index X)) (permutation (length (index X)))))"
    "distinct (take ((length (index X) + 3) div 4) (permutation (length (index X))))"
    by (simp_all add: iX)
  from take_rows_stays[OF r(1) X this(1)] take_rows_stays[OF r(2) X this(2)]
  show ?thesis by simp
qed

subsection \<open>The worked sources\<close>

lemma tiny_pipeline_runs:
  "\<exists>sp. pipeline digits_int (\<lambda>_. Num 0) tiny_float tiny_permutation tiny_base tiny_features tiny_dx = Some sp"
proof -
  have "\<not> Option.is_none (pipeline digits_int (\<lambda>_. Num 0) tiny_float tiny_permutation
                              tiny_base tiny_features tiny_dx)"
    by code_simp
  then show ?thesis by (simp add: Option.is_none_def)
qed

lemma tiny_sources_keyed:
  "keyed_by_stay tiny_base" "keyed_by_stay tiny_features" "keyed_by_stay tiny_dx"
  by code_simp+

subsection \<open>The stay identifier is unique at every stage\<close>

text \<open>
  Claim C7.  Let each of the three source tables be keyed by the stay: it has the
  column \<^verbatim>\<open>patientunitstayid\<close> with one number for each row and no number twice.
  Let the seeded generator draw lists without repetition.  Whenever the notebook runs
  through, the frame each stage leaves (the two joins, the inclusion and exclusion
  filters, the selection of the laboratory values, the replacement of the sentinel
  with the filter on the prediction, the column drops and the three encodings) has the
  column \<^verbatim>\<open>patientunitstayid\<close> with one cell for each row and no cell twice, and so
  have the train and the test frame of the split: no stage duplicates a row.
\<close>

theorem stay_identifier_stays_unique:
  assumes "keyed_by_stay base_cohort" "keyed_by_stay feature_set" "keyed_by_stay dx_groups"
    and "\<forall>n. distinct (permutation n)"
    and "pipeline to_int u to_float permutation base_cohort feature_set dx_groups = Some sp"
  shows "\<exists>merged included selected scored kept adx eth final.
           extract_cohort base_cohort feature_set dx_groups = Some merged \<and> unique_stays merged \<and>
           apply_exclusions to_int merged = Some included \<and> unique_stays included \<and>
           select_abnormal_values u included = Some selected \<and> unique_stays selected \<and>
           replace_sentinel to_float selected = Some scored \<and> unique_stays scored \<and>
           drop_unused scored = Some kept \<and> unique_stays kept \<and>
           encode_admit_diagnosis kept = Some adx \<and> unique_stays adx \<and>
           encode_gender_ethnicity adx = Some eth \<and> unique_stays eth \<and>
           encode_unit_type eth = Some final \<and> unique_stays final \<and>
           split_features_label permutation final = Some sp \<and>
           unique_stays (train_X sp) \<and> unique_stays (test_X sp)"
proof -
  from assms(5) obtain merged included selected scored kept adx eth final where
    f: "extract_cohort base_cohort feature_set dx_groups = Some merged"
       "apply_exclusions to_int merged = Some included"
       "select_abnormal_values u included = Some selected"
       "replace_sentinel to_float selected = Some scored"
       "drop_unused scored = Some kept"
       "encode_admit_diagnosis kept = Some adx"
       "encode_gender_ethnicity adx = Some eth"
       "encode_unit_type eth = Some final"
       "split_features_label permutation final = Some sp"
    unfolding pipeline_def bind_eq_Some_conv by (elim exE conjE) (rule that)
  from assms(1-3) have k: "stays base_cohort is_Num" "stays feature_set is_Num" "stays dx_groups is_Num"
    by (simp_all add: keyed_by_stay_def)
  have 1: "stays merged is_Num" by (rule extract_cohort_stays[OF f(1) k])
  have 2: "stays included is_Num" by (rule apply_exclusions_stays[OF f(2) 1])
  have 3: "stays selected is_Num" using 2 by (simp add: select_abnormal_values_stays[OF f(3)])
  have 4: "stays scored (\<lambda>c. True)" by (rule replace_sentinel_stays[OF f(4) 3])
  have 5: "stays kept (\<lambda>c. True)" using 4 by (simp add: drop_unused_stays[OF f(5)])
  have 6: "stays adx (\<lambda>c. True)" by (rule encode_admit_diagnosis_stays[OF f(6) 5])
  have 7: "stays eth (\<lambda>c. True)" by (rule encode_gender_ethnicity_stays[OF f(7) 6])
  have 8: "stays final (\<lambda>c. True)" by (rule encode_unit_type_stays[OF f(8) 7])
  from assms(4) have "distinct (permutation (length (index final)))" by simp
  from split_features_label_stays[OF f(9) 8 this]
  have 9: "stays (train_X sp) (\<lambda>c. True)" "stays (test_X sp) (\<lambda>c. True)" by simp_all
  note u = stays_weaken[OF 1] stays_weaken[OF 2] stays_weaken[OF 3] 4 5 6 7 8 9
  show ?thesis
    unfolding unique_stays_def
    by (intro exI[of _ merged] exI[of _ included] exI[of _ selected] exI[of _ scored]
          exI[of _ kept] exI[of _ adx] exI[of _ eth] exI[of _ final] conjI f u)
qed

text \<open>
  On the worked sources, of whose stays two reach the split: the three tables are
  keyed by the stay, the permutations have no repetition, the notebook runs through,
  and both frames of the split have unique stays.
\<close>

theorem stay_identifier_stays_unique_witness:
  "keyed_by_stay tiny_base \<and> keyed_by_stay tiny_features \<and> keyed_by_stay tiny_dx \<and>
   (\<forall>n. distinct (tiny_permutation n)) \<and>
   (\<exists>sp. pipeline digits_int (\<lambda>_. Num 0) tiny_float tiny_permutation tiny_base tiny_features tiny_dx
           = Some sp \<and>
         unique_stays (train_X sp) \<and> unique_stays (test_X sp))"
proof -
  from tiny_pipeline_runs obtain sp where
    run: "pipeline digits_int (\<lambda>_. Num 0) tiny_float tiny_permutation tiny_base tiny_features tiny_dx
            = Some sp" by blast
  have d: "\<forall>n. distinct (tiny_permutation n)" by (simp add: tiny_permutation_def)
  from stay_identifier_stays_unique[OF tiny_sources_keyed d run]
  have "unique_stays (train_X sp)" "unique_stays (test_X sp)" by blast+
  with run have "\<exists>sp. pipeline digits_int (\<lambda>_. Num 0) tiny_float tiny_permutation tiny_base
                       tiny_features tiny_dx = Some sp \<and>
         unique_stays (train_X sp) \<and> unique_stays (test_X sp)" by blast
  with tiny_sources_keyed d show ?thesis by (intro conjI)
qed

end
